(* ===== verification/Prelude.thy ===== *)
theory Prelude
  imports Complex_Main "HOL-Library.Word"
begin

text \<open>
  Shared vocabulary of the development: the C and OpenGL integer types of
  \<^verbatim>\<open>src/main.c\<close> as machine words of their width, the C conversion of a
  \<^verbatim>\<open>double\<close> to an integer (truncation towards zero), decimal printing as
  \<^verbatim>\<open>printf("%d")\<close> does it, and the word and list lemmas that the component
  theories share.  The collection \<open>gl_enum_defs\<close> gathers the definitions of
  the OpenGL enumeration constants so that a proof about a concrete code unfolds
  them all at once.
\<close>

named_theorems gl_enum_defs "definitions of OpenGL enumeration constants"
named_theorems keeps_flags "GL operations that leave no GL_NO_ERROR entry in the error queue"

type_synonym GLenum = "32 word"
type_synonym GLuint = "32 word"
type_synonym c_int = "32 word"
type_synonym c_long = "64 word"
type_synonym Sint16 = "16 word"
type_synonym Uint8 = "8 word"

text \<open>
  C11 6.3.1.4: a finite floating value converted to an integer type has its
  fractional part discarded.  The model's \<^verbatim>\<open>double\<close> values are reals, so the
  conversion is the truncation below followed by \<open>word_of_int\<close>.
\<close>

definition c_trunc :: "real \<Rightarrow> int" where
  "c_trunc x = (if 0 \<le> x then \<lfloor>x\<rfloor> else \<lceil>x\<rceil>)"

text \<open>\<^verbatim>\<open>printf("%d")\<close>: decimal digits, a minus sign for negative values.\<close>

fun dec_digits :: "nat \<Rightarrow> string" where
  "dec_digits n =
     (if n < 10 then [char_of (48 + n)]
      else dec_digits (n div 10) @ [char_of (48 + n mod 10)])"

definition c_int_string :: "int \<Rightarrow> string" where
  "c_int_string i =
     (if i < 0 then CHR ''-'' # dec_digits (nat (- i)) else dec_digits (nat i))"

declare dec_digits.simps [simp del]

subsection \<open>Truncation\<close>

lemma c_trunc_abs_le: "\<bar>real_of_int (c_trunc x)\<bar> \<le> \<bar>x\<bar>"
  by (simp add: c_trunc_def)

lemma c_trunc_bounds:
  assumes "\<bar>x\<bar> \<le> of_int m"
  shows "- m \<le> c_trunc x \<and> c_trunc x \<le> m"
proof -
  have "\<bar>real_of_int (c_trunc x)\<bar> \<le> of_int m"
    using c_trunc_abs_le [of x] assms by linarith
  then show ?thesis by (simp add: abs_le_iff)
qed

lemma c_trunc_of_int [simp]: "c_trunc (of_int i) = i"
  by (simp add: c_trunc_def)

subsection \<open>Lists\<close>

text \<open>Printing \<^verbatim>\<open>"%.*s"\<close> with the length a bounded copy reported.\<close>

lemma take_min_length [simp]: "take (min (length xs) n) xs = take n xs"
  by (simp add: min_def)

subsection \<open>Signed words\<close>

lemma sint_add_small:
  fixes a b :: "'a::len word"
  assumes "- (2 ^ (LENGTH('a) - 1)) \<le> sint a + sint b"
    and "sint a + sint b < 2 ^ (LENGTH('a) - 1)"
  shows "sint (a + b) = sint a + sint b"
  using assms by (simp add: sint_word_add signed_take_bit_int_eq_self)

lemma sint_word_of_int_small:
  assumes "- (2 ^ (LENGTH('a) - 1)) \<le> i" and "i < 2 ^ (LENGTH('a) - 1)"
  shows "sint (word_of_int i :: 'a::len word) = i"
  using assms by (simp add: sint_sbintrunc' signed_take_bit_int_eq_self)

text \<open>
  A C \<^verbatim>\<open>int\<close> loop counter below a bound never wraps when incremented: the
  step \<^verbatim>\<open>++I\<close> of a loop \<^verbatim>\<open>for(I = 0; I < N; ++I)\<close>.
\<close>

lemma sint_succ:
  fixes i n :: c_int
  assumes "sint i < sint n"
  shows "sint (i + 1) = sint i + 1"
proof -
  have "sint n < 2 ^ 31" using sint_lt [of n] by simp
  moreover have "- (2 ^ 31) \<le> sint i" using sint_ge [of i] by simp
  ultimately show ?thesis using assms
    by (simp add: sint_word_add signed_take_bit_int_eq_self)
qed

end
