(* ===== verification/Diagnostics.thy ===== *)
theory Diagnostics
  imports Prelude
begin

text \<open>
  The diagnostics of \<^verbatim>\<open>src/main.c\<close> (lines 8--95): the OpenGL error codes that
  the file defines when the loader header lacks them, the two lookup functions
  \<^verbatim>\<open>ErrorStringOpenGL\<close> and \<^verbatim>\<open>ErrorDescriptionOpenGL\<close>, and \<^verbatim>\<open>CheckOpenGL\<close>,
  the do-while loop that drains the pending error flags of the context and
  prints one line per flag to \<^verbatim>\<open>stderr\<close>.  The context's pending flags are a
  queue of codes that \<^verbatim>\<open>glGetError\<close> pops; the text written to \<^verbatim>\<open>stderr\<close> is
  a returned string.  OpenGL never records \<^verbatim>\<open>GL_NO_ERROR\<close> as a flag, which
  is the well-formedness condition \<open>flags_wf\<close> of the queue.
\<close>

subsection \<open>Error codes\<close>

definition GL_NO_ERROR :: GLenum where [gl_enum_defs]: "GL_NO_ERROR = 0"
definition GL_INVALID_ENUM :: GLenum where [gl_enum_defs]: "GL_INVALID_ENUM = 0x0500"
definition GL_INVALID_VALUE :: GLenum where [gl_enum_defs]: "GL_INVALID_VALUE = 0x0501"
definition GL_INVALID_OPERATION :: GLenum where [gl_enum_defs]: "GL_INVALID_OPERATION = 0x0502"
definition GL_STACK_OVERFLOW :: GLenum where [gl_enum_defs]: "GL_STACK_OVERFLOW = 0x0503"
definition GL_STACK_UNDERFLOW :: GLenum where [gl_enum_defs]: "GL_STACK_UNDERFLOW = 0x0504"
definition GL_OUT_OF_MEMORY :: GLenum where [gl_enum_defs]: "GL_OUT_OF_MEMORY = 0x0505"
definition GL_INVALID_FRAMEBUFFER_OPERATION :: GLenum where [gl_enum_defs]:
  "GL_INVALID_FRAMEBUFFER_OPERATION = 0x0506"
definition GL_CONTEXT_LOST :: GLenum where [gl_enum_defs]: "GL_CONTEXT_LOST = 0x0507"
definition GL_TABLE_TOO_LARGE1 :: GLenum where [gl_enum_defs]: "GL_TABLE_TOO_LARGE1 = 0x8031"

text \<open>The codes that the two switch statements name, in their case order.\<close>

definition known_gl_errors :: "GLenum list" where
  "known_gl_errors =
     [GL_INVALID_ENUM, GL_INVALID_VALUE, GL_INVALID_OPERATION, GL_STACK_OVERFLOW,
      GL_STACK_UNDERFLOW, GL_OUT_OF_MEMORY, GL_INVALID_FRAMEBUFFER_OPERATION,
      GL_CONTEXT_LOST, GL_TABLE_TOO_LARGE1]"

subsection \<open>Names and descriptions\<close>

definition ErrorStringOpenGL :: "GLenum \<Rightarrow> string" where
  "ErrorStringOpenGL e =
     (if e = GL_INVALID_ENUM then ''GL_INVALID_ENUM''
      else if e = GL_INVALID_VALUE then ''GL_INVALID_VALUE''
      else if e = GL_INVALID_OPERATION then ''GL_INVALID_OPERATION''
      else if e = GL_STACK_OVERFLOW then ''GL_STACK_OVERFLOW''
      else if e = GL_STACK_UNDERFLOW then ''GL_STACK_UNDERFLOW''
      else if e = GL_OUT_OF_MEMORY then ''GL_OUT_OF_MEMORY''
      else if e = GL_INVALID_FRAMEBUFFER_OPERATION then ''GL_INVALID_FRAMEBUFFER_OPERATION''
      else if e = GL_CONTEXT_LOST then ''GL_CONTEXT_LOST''
      else if e = GL_TABLE_TOO_LARGE1 then ''GL_TABLE_TOO_LARGE1''
      else ''unknwon'')"

definition ErrorDescriptionOpenGL :: "GLenum \<Rightarrow> string" where
  "ErrorDescriptionOpenGL e =
     (if e = GL_INVALID_ENUM then
        ''Given when an enumeration parameter is not a legal enumeration for that function. This is given only for local problems; if the spec allows the enumeration in certain circumstances, where other parameters or state dictate those circumstances, then GL_INVALID_OPERATION is the result instead.''
      else if e = GL_INVALID_VALUE then
        ''Given when a value parameter is not a legal value for that function. This is only given for local problems; if the spec allows the value in certain circumstances, where other parameters or state dictate those circumstances, then GL_INVALID_OPERATION is the result instead.''
      else if e = GL_INVALID_OPERATION then
        ''Given when the set of state for a command is not legal for the parameters given to that command. It is also given for commands where combinations of parameters define what the legal parameters are.''
      else if e = GL_STACK_OVERFLOW then
        ''Given when a stack pushing operation cannot be done because it would overflow the limit of that stack's size.''
      else if e = GL_STACK_UNDERFLOW then
        ''Given when a stack popping operation cannot be done because the stack is already at its lowest point.''
      else if e = GL_OUT_OF_MEMORY then
        ''Given when performing an operation that can allocate memory, and the memory cannot be allocated. The results of OpenGL functions that return this error are undefined; it is allowable for partial execution of an operation to happen in this circumstance.''
      else if e = GL_INVALID_FRAMEBUFFER_OPERATION then
        ''Given when doing anything that would attempt to read from or write/render to a framebuffer that is not complete.''
      else if e = GL_CONTEXT_LOST then
        ''Given if the OpenGL context has been lost, due to a graphics card reset (with OpenGL 4.5 or ARB_KHR_robustness).''
      else if e = GL_TABLE_TOO_LARGE1 then
        ''Part of the ARB_imaging extension1. 1 These error codes are deprecated in 3.0 and removed in 3.1 core and above.''
      else '''')"

subsection \<open>Draining the error flags\<close>

text \<open>
  \<^verbatim>\<open>glGetError\<close> returns one recorded flag and clears it, or \<^verbatim>\<open>GL_NO_ERROR\<close>
  when none is recorded (OpenGL 4.1 core, 2.3.1).
\<close>

definition glGetError :: "GLenum list \<Rightarrow> GLenum \<times> GLenum list" where
  "glGetError q = (case q of [] \<Rightarrow> (GL_NO_ERROR, []) | e # q' \<Rightarrow> (e, q'))"

definition flags_wf :: "GLenum list \<Rightarrow> bool" where
  "flags_wf q \<longleftrightarrow> GL_NO_ERROR \<notin> set q"

text \<open>One line of the loop body: \<^verbatim>\<open>"\t[%d]: %s (%d) %s\n"\<close>.\<close>

definition error_line :: "nat \<Rightarrow> GLenum \<Rightarrow> string" where
  "error_line i e =
     [CHR 0x09] @ ''['' @ c_int_string (int i) @ '']: '' @ ErrorStringOpenGL e @
     '' ('' @ c_int_string (sint e) @ '') '' @ ErrorDescriptionOpenGL e @ [CHR 0x0A]"

text \<open>
  The do-while loop: print the current flag with index \<open>i\<close>, fetch the next
  one, and go on while it is not \<^verbatim>\<open>GL_NO_ERROR\<close>.  The result is the text
  printed and the flags left in the context.
\<close>

function check_loop :: "nat \<Rightarrow> GLenum \<Rightarrow> GLenum list \<Rightarrow> string \<times> GLenum list" where
  "check_loop i e q =
     (case glGetError q of
        (e', q') \<Rightarrow>
          if e' \<noteq> GL_NO_ERROR
          then (case check_loop (Suc i) e' q' of (out, r) \<Rightarrow> (error_line i e @ out, r))
          else (error_line i e, q'))"
  by pat_completeness auto

termination check_loop
  by (relation "measure (\<lambda>(i, e, q). length q)")
    (auto simp: glGetError_def GL_NO_ERROR_def split: list.splits)

definition CheckOpenGL :: "string \<Rightarrow> GLenum list \<Rightarrow> string \<times> GLenum list" where
  "CheckOpenGL CallStr q =
     (case glGetError q of
        (e, q') \<Rightarrow>
          if e \<noteq> GL_NO_ERROR
          then (case check_loop 0 e q' of (out, r) \<Rightarrow> (CallStr @ [CHR 0x0A] @ out, r))
          else ([], q'))"

declare check_loop.simps [simp del]

text \<open>
  What the drain should print for a list of flags: one line per flag, indexed
  from \<open>i\<close> upwards.
\<close>

definition error_lines :: "nat \<Rightarrow> GLenum list \<Rightarrow> string" where
  "error_lines i es = concat (map (\<lambda>(k, e). error_line k e) (zip [i..<i + length es] es))"

subsection \<open>Reference: a closed enumeration of error kinds\<close>

text \<open>
  The specification's reading of the two switch statements: a closed
  enumeration of the known error kinds plus an explicit unknown kind carrying
  its code, with the code, the display name and the presence of a description
  given by total functions over the enumeration.
\<close>

datatype gl_error_kind =
    Invalid_Enum | Invalid_Value | Invalid_Operation | Stack_Overflow | Stack_Underflow
  | Out_Of_Memory | Invalid_Framebuffer_Operation | Context_Lost | Table_Too_Large
  | Unknown_Error GLenum

definition known_kinds :: "gl_error_kind list" where
  "known_kinds =
     [Invalid_Enum, Invalid_Value, Invalid_Operation, Stack_Overflow, Stack_Underflow,
      Out_Of_Memory, Invalid_Framebuffer_Operation, Context_Lost, Table_Too_Large]"

fun gl_error_code :: "gl_error_kind \<Rightarrow> GLenum" where
  "gl_error_code Invalid_Enum = GL_INVALID_ENUM"
| "gl_error_code Invalid_Value = GL_INVALID_VALUE"
| "gl_error_code Invalid_Operation = GL_INVALID_OPERATION"
| "gl_error_code Stack_Overflow = GL_STACK_OVERFLOW"
| "gl_error_code Stack_Underflow = GL_STACK_UNDERFLOW"
| "gl_error_code Out_Of_Memory = GL_OUT_OF_MEMORY"
| "gl_error_code Invalid_Framebuffer_Operation = GL_INVALID_FRAMEBUFFER_OPERATION"
| "gl_error_code Context_Lost = GL_CONTEXT_LOST"
| "gl_error_code Table_Too_Large = GL_TABLE_TOO_LARGE1"
| "gl_error_code (Unknown_Error e) = e"

fun kind_name :: "gl_error_kind \<Rightarrow> string" where
  "kind_name Invalid_Enum = ''GL_INVALID_ENUM''"
| "kind_name Invalid_Value = ''GL_INVALID_VALUE''"
| "kind_name Invalid_Operation = ''GL_INVALID_OPERATION''"
| "kind_name Stack_Overflow = ''GL_STACK_OVERFLOW''"
| "kind_name Stack_Underflow = ''GL_STACK_UNDERFLOW''"
| "kind_name Out_Of_Memory = ''GL_OUT_OF_MEMORY''"
| "kind_name Invalid_Framebuffer_Operation = ''GL_INVALID_FRAMEBUFFER_OPERATION''"
| "kind_name Context_Lost = ''GL_CONTEXT_LOST''"
| "kind_name Table_Too_Large = ''GL_TABLE_TOO_LARGE1''"
| "kind_name (Unknown_Error e) = ''unknwon''"

definition classify :: "GLenum \<Rightarrow> gl_error_kind" where
  "classify e = (case find (\<lambda>k. gl_error_code k = e) known_kinds of
                   Some k \<Rightarrow> k | None \<Rightarrow> Unknown_Error e)"

subsection \<open>Properties of the drain\<close>

lemma error_lines_Nil [simp]: "error_lines i [] = []"
  by (simp add: error_lines_def)

lemma error_lines_Cons: "error_lines i (e # es) = error_line i e @ error_lines (Suc i) es"
  by (simp add: error_lines_def upt_conv_Cons del: upt_Suc)

lemma known_gl_errors_set:
  "set known_gl_errors =
     {0x0500, 0x0501, 0x0502, 0x0503, 0x0504, 0x0505, 0x0506, 0x0507, 0x8031}"
  by (simp add: known_gl_errors_def gl_enum_defs)

text \<open>
  The loop body run on a well-formed queue prints every flag, with indices
  counting up from \<open>i\<close>, and leaves no flag behind.
\<close>

lemma check_loop_drains:
  "flags_wf q \<Longrightarrow> check_loop i e q = (error_lines i (e # q), [])"
proof (induction q arbitrary: i e)
  case Nil
  then show ?case
    by (simp add: check_loop.simps glGetError_def error_lines_Cons)
next
  case (Cons e' q)
  then have "e' \<noteq> GL_NO_ERROR" and "flags_wf q" by (auto simp: flags_wf_def)
  with Cons.IH show ?case
    by (simp add: check_loop.simps [of i e] glGetError_def error_lines_Cons)
qed

lemma CheckOpenGL_drains:
  "flags_wf q \<Longrightarrow>
   CheckOpenGL CallStr q =
     (if q = [] then [] else CallStr @ [CHR 0x0A] @ error_lines 0 q, [])"
  by (cases q) (auto simp: CheckOpenGL_def glGetError_def flags_wf_def check_loop_drains)

text \<open>
  C8. \<^verbatim>\<open>CheckOpenGL\<close> reports every pending error: on a context whose pending
  flags are well formed, it prints nothing when no flag is pending, and otherwise
  the call text followed by one line per pending flag, indexed 0, 1, 2, ... in
  the order \<^verbatim>\<open>glGetError\<close> returns them; afterwards no flag is pending.
\<close>

theorem CheckOpenGL_reports_all:
  "flags_wf q \<Longrightarrow>
   CheckOpenGL CallStr q =
     (if q = [] then [] else CallStr @ [CHR 0x0A] @ error_lines 0 q, [])"
  by (rule CheckOpenGL_drains)

theorem CheckOpenGL_reports_all_witness:
  "flags_wf [GL_INVALID_ENUM, GL_OUT_OF_MEMORY] \<and>
   CheckOpenGL ''glClear(GL_COLOR_BUFFER_BIT)'' [GL_INVALID_ENUM, GL_OUT_OF_MEMORY] =
     (''glClear(GL_COLOR_BUFFER_BIT)'' @ [CHR 0x0A] @
      error_line 0 GL_INVALID_ENUM @ error_line 1 GL_OUT_OF_MEMORY, [])"
proof -
  have wf: "flags_wf [GL_INVALID_ENUM, GL_OUT_OF_MEMORY]"
    by (simp add: flags_wf_def gl_enum_defs)
  show ?thesis
    using wf CheckOpenGL_reports_all [OF wf, of "''glClear(GL_COLOR_BUFFER_BIT)''"]
    by (simp add: error_lines_def numeral_2_eq_2)
qed

text \<open>
  C21. An unrecognised code is mapped to the sentinel name \<^verbatim>\<open>"unknwon"\<close> (spelled
  so in the source) and to the empty description; the lookup never fails.
\<close>

theorem ErrorStringOpenGL_unknown:
  "e \<notin> set known_gl_errors \<Longrightarrow>
   ErrorStringOpenGL e = ''unknwon'' \<and> ErrorDescriptionOpenGL e = ''''"
  by (simp add: known_gl_errors_def ErrorStringOpenGL_def ErrorDescriptionOpenGL_def)

theorem ErrorStringOpenGL_unknown_witness:
  "(0x1234 :: GLenum) \<notin> set known_gl_errors \<and>
   ErrorStringOpenGL 0x1234 = ''unknwon'' \<and> ErrorDescriptionOpenGL 0x1234 = ''''"
proof -
  have h: "(0x1234 :: GLenum) \<notin> set known_gl_errors"
    by (simp add: known_gl_errors_set)
  show ?thesis using h ErrorStringOpenGL_unknown [OF h] by simp
qed

text \<open>
  C24. The printed name identifies the code: no other code, known or not, is
  printed with the name of a code the switch recognises.
\<close>

theorem ErrorStringOpenGL_names_known:
  "e \<in> set known_gl_errors \<Longrightarrow> ErrorStringOpenGL e' = ErrorStringOpenGL e \<Longrightarrow> e' = e"
  by (auto simp: known_gl_errors_set ErrorStringOpenGL_def gl_enum_defs split: if_splits)

theorem ErrorStringOpenGL_names_known_witness:
  "GL_OUT_OF_MEMORY \<in> set known_gl_errors \<and>
   ErrorStringOpenGL GL_OUT_OF_MEMORY = ErrorStringOpenGL GL_OUT_OF_MEMORY \<and>
   GL_OUT_OF_MEMORY = GL_OUT_OF_MEMORY"
proof -
  have h: "GL_OUT_OF_MEMORY \<in> set known_gl_errors"
    by (simp add: known_gl_errors_def)
  show ?thesis using h ErrorStringOpenGL_names_known [OF h refl] by simp
qed

subsection \<open>The switch statements against the enumeration\<close>

lemma known_kinds_codes: "map gl_error_code known_kinds = known_gl_errors"
  by (simp add: known_kinds_def known_gl_errors_def)

lemma classify_known:
  "k \<in> set known_kinds \<Longrightarrow> classify (gl_error_code k) = k"
  by (auto simp: known_kinds_def classify_def gl_enum_defs)

lemma classify_unknown:
  "e \<notin> set known_gl_errors \<Longrightarrow> classify e = Unknown_Error e"
proof -
  assume e: "e \<notin> set known_gl_errors"
  have "e \<notin> gl_error_code ` set known_kinds"
    using e by (simp flip: known_kinds_codes)
  then have "find (\<lambda>k. gl_error_code k = e) known_kinds = None"
    by (auto simp: find_None_iff)
  then show ?thesis by (simp add: classify_def)
qed

lemma classify_cases:
  "classify e = Unknown_Error e \<and> e \<notin> set known_gl_errors \<or>
   (\<exists>k \<in> set known_kinds. classify e = k \<and> gl_error_code k = e)"
proof (cases "e \<in> set known_gl_errors")
  case True
  then obtain k where "k \<in> set known_kinds" "gl_error_code k = e"
    by (auto simp: known_kinds_codes [symmetric])
  then show ?thesis using classify_known by blast
next
  case False
  then show ?thesis using classify_unknown by blast
qed

text \<open>
  C28. Equivalence of the code with the reference: the name
  \<^verbatim>\<open>ErrorStringOpenGL\<close> prints for any code is the display name of the code's
  kind, and \<^verbatim>\<open>ErrorDescriptionOpenGL\<close> gives an empty description exactly for
  the unknown kind.
\<close>

theorem ErrorStringOpenGL_classify:
  "ErrorStringOpenGL e = kind_name (classify e) \<and>
   (ErrorDescriptionOpenGL e = [] \<longleftrightarrow> classify e = Unknown_Error e)"
  using classify_cases [of e]
  by (auto simp: known_kinds_def ErrorStringOpenGL_def ErrorDescriptionOpenGL_def
      known_gl_errors_def gl_enum_defs)

end
