(* ===== verification/Audio.thy ===== *)
theory Audio
  imports Prelude
begin

unbundle bit_operations_syntax

text \<open>
  The audio synthesiser of \<^verbatim>\<open>src/main.c\<close> (lines 156--183): the structs
  \<^verbatim>\<open>audio_sample\<close> and \<^verbatim>\<open>audio_data\<close> as records with their C field
  types as words (\<^verbatim>\<open>Sint16\<close>, \<^verbatim>\<open>int\<close>, \<^verbatim>\<open>long\<close> of an LP64 target), and
  \<^verbatim>\<open>MyAudioCallback\<close> over an explicit byte buffer.  The sample count is
  computed as C computes \<^verbatim>\<open>Len/sizeof(audio_sample)\<close>: \<^verbatim>\<open>Len\<close> is converted to
  the unsigned 64-bit \<^verbatim>\<open>size_t\<close>, divided, and narrowed back to \<^verbatim>\<open>int\<close>.
  The \<^verbatim>\<open>for\<close> loop is \<open>callback_loop\<close>, a \<^theory_text>\<open>function\<close> whose termination
  measure is the distance of the 32-bit counter to its bound.  Samples are
  stored little-endian (\<^verbatim>\<open>AUDIO_S16SYS\<close> on the little-endian targets SDL
  runs this template on).  A buffer too short for the samples the loop writes
  is undefined behaviour in C and \<open>None\<close> here.  \<^verbatim>\<open>double\<close> arithmetic
  and \<^verbatim>\<open>M_PI\<close> are modelled by exact reals and \<open>pi\<close>: the model
  abstracts from floating-point rounding.

  The abstract specification is \<open>tone\<close>: the sample at absolute index \<open>k\<close>
  is \<open>1000 sin(2 pi 264 k / rate)\<close> truncated to 16 bits.  \<open>audio_run\<close> is
  the audio device delivering successive buffers to the callback, one at a
  time, as SDL's audio thread does.
\<close>

subsection \<open>Data and the callback\<close>

record audio_sample =
  L :: Sint16
  R :: Sint16

record audio_data =
  Freq :: c_int
  SamplesDone :: c_long

definition sample_count :: "c_int \<Rightarrow> c_int" where
  "sample_count Len = ucast ((scast Len :: 64 word) div 4)"

definition sample_time :: "audio_data \<Rightarrow> c_int \<Rightarrow> real" where
  "sample_time a I =
     real_of_int (sint (SamplesDone a + scast I)) / real_of_int (sint (Freq a))"

definition sample_value :: "audio_data \<Rightarrow> c_int \<Rightarrow> Sint16" where
  "sample_value a I = word_of_int (c_trunc (1000 * sin (264 * 2 * pi * sample_time a I)))"

definition le16 :: "Sint16 \<Rightarrow> Uint8 list" where
  "le16 v = [ucast v, ucast (drop_bit 8 v)]"

definition encode_sample :: "audio_sample \<Rightarrow> Uint8 list" where
  "encode_sample s = le16 (L s) @ le16 (R s)"

definition store_sample :: "Uint8 list \<Rightarrow> nat \<Rightarrow> audio_sample \<Rightarrow> Uint8 list" where
  "store_sample buf i s = take (4 * i) buf @ encode_sample s @ drop (4 * i + 4) buf"

function callback_loop :: "audio_data \<Rightarrow> c_int \<Rightarrow> c_int \<Rightarrow> Uint8 list \<Rightarrow> Uint8 list" where
  "callback_loop a I n buf =
     (if sint I < sint n
      then (let v = sample_value a I
            in callback_loop a (I + 1) n (store_sample buf (nat (sint I)) \<lparr>L = v, R = v\<rparr>))
      else buf)"
  by pat_completeness auto
termination
  by (relation "measure (\<lambda>(a, I, n, buf). nat (sint n - sint I))") (auto simp: sint_succ)

declare callback_loop.simps [simp del]

definition MyAudioCallback :: "audio_data \<Rightarrow> Uint8 list \<Rightarrow> c_int \<Rightarrow> (audio_data \<times> Uint8 list) option" where
  "MyAudioCallback a Stream Len =
     (let n = sample_count Len
      in if int (length Stream) < 4 * sint n then None
         else Some (a\<lparr>SamplesDone := SamplesDone a + scast n\<rparr>, callback_loop a 0 n Stream))"

definition tone :: "int \<Rightarrow> int \<Rightarrow> Sint16" where
  "tone rate k = word_of_int (c_trunc (1000 * sin (2 * pi * 264 * (real_of_int k / real_of_int rate))))"

definition stereo :: "Sint16 \<Rightarrow> audio_sample" where
  "stereo v = \<lparr>L = v, R = v\<rparr>"

definition encode_samples :: "audio_sample list \<Rightarrow> Uint8 list" where
  "encode_samples ss = concat (map encode_sample ss)"

subsection \<open>Specification: the tone, frame encoding, successive callbacks\<close>

text \<open>How the device reads a stereo frame of \<^verbatim>\<open>AUDIO_S16LSB\<close> bytes back.\<close>

fun audio_run :: "audio_data \<Rightarrow> (Uint8 list \<times> c_int) list \<Rightarrow> (audio_data \<times> Uint8 list list) option" where
  "audio_run a [] = Some (a, [])"
| "audio_run a ((buf, len) # rs) =
     (case MyAudioCallback a buf len of
        None \<Rightarrow> None
      | Some (a', out) \<Rightarrow>
          (case audio_run a' rs of None \<Rightarrow> None | Some (a'', outs) \<Rightarrow> Some (a'', out # outs)))"

definition total_frames :: "(Uint8 list \<times> c_int) list \<Rightarrow> nat" where
  "total_frames rs = sum_list (map (\<lambda>(buf, len). length buf div 4) rs)"

subsection \<open>Word arithmetic of the sample count\<close>

lemma uint_of_sint_nonneg:
  fixes w :: "'a::len word"
  assumes "0 \<le> sint w"
  shows "uint w = sint w"
proof -
  have "sint w < 2 ^ (LENGTH('a) - 1)" by (rule sint_lt)
  also have "(2::int) ^ (LENGTH('a) - 1) \<le> 2 ^ LENGTH('a)" by simp
  finally show ?thesis using assms by (simp add: uint_sint take_bit_int_eq_self)
qed

lemma sint_of_uint_small:
  fixes w :: "'a::len word"
  assumes "uint w < 2 ^ (LENGTH('a) - 1)"
  shows "sint w = uint w"
proof -
  have "- (2 ^ (LENGTH('a) - 1)) \<le> (0::int)" by simp
  then have "- (2 ^ (LENGTH('a) - 1)) \<le> uint w"
    using uint_ge_0 [of w] by linarith
  with assms show ?thesis by (simp add: sint_uint signed_take_bit_int_eq_self)
qed

lemma sample_count_nonneg:
  assumes "0 \<le> sint Len"
  shows "sint (sample_count Len) = sint Len div 4"
proof -
  let ?w = "scast Len :: 64 word"
  have "sint ?w = sint Len" by (simp add: sint_up_scast is_up)
  with assms have uw: "uint ?w = sint Len" by (simp add: uint_of_sint_nonneg)
  have "sint Len < 2 ^ 31" using sint_lt [of Len] by simp
  with assms have small: "sint Len div 4 < 2 ^ 31" by linarith
  have ud: "uint (?w div 4) = sint Len div 4" by (simp add: uint_div uw)
  have "uint (ucast (?w div 4) :: c_int) = take_bit 32 (sint Len div 4)"
    by (simp add: unsigned_ucast_eq ud)
  also have "\<dots> = sint Len div 4"
    using assms small by (simp add: take_bit_int_eq_self)
  finally have "uint (sample_count Len) = sint Len div 4" by (simp add: sample_count_def)
  moreover have "sint Len div 4 < 2 ^ (LENGTH(32) - 1)" using small by simp
  ultimately show ?thesis by (simp add: sint_of_uint_small)
qed

subsection \<open>The sample loop\<close>

lemma length_encode_sample [simp]: "length (encode_sample s) = 4"
  by (simp add: encode_sample_def le16_def)

lemma length_encode_samples [simp]: "length (encode_samples ss) = 4 * length ss"
  by (induction ss) (simp_all add: encode_samples_def)

lemma length_store_sample [simp]:
  "4 * i + 4 \<le> length buf \<Longrightarrow> length (store_sample buf i s) = length buf"
  by (simp add: store_sample_def)

lemma encode_samples_snoc:
  "encode_samples (ss @ [s]) = encode_samples ss @ encode_sample s"
  by (simp add: encode_samples_def)

text \<open>The loop fills sample slots \<open>I\<close> to \<open>n - 1\<close> and leaves the rest of the buffer.\<close>

lemma callback_loop_fills:
  assumes "0 \<le> sint I" "sint I \<le> sint n" "4 * sint n \<le> int (length buf)"
  shows "callback_loop a I n buf =
           take (4 * nat (sint I)) buf @
           encode_samples (map (\<lambda>k. stereo (sample_value a (of_nat k))) [nat (sint I)..<nat (sint n)]) @
           drop (4 * nat (sint n)) buf"
  using assms
proof (induction a I n buf rule: callback_loop.induct)
  case (1 a I n buf)
  show ?case
  proof (cases "sint I < sint n")
    case False
    with "1.prems" have "sint I = sint n" by simp
    then show ?thesis
      using "1.prems" False by (simp add: callback_loop.simps [of a I n buf] encode_samples_def)
  next
    case True
    let ?i = "nat (sint I)"
    let ?v = "sample_value a I"
    let ?buf = "store_sample buf ?i \<lparr>L = ?v, R = ?v\<rparr>"
    have step: "callback_loop a I n buf = callback_loop a (I + 1) n ?buf"
      using True by (simp add: callback_loop.simps [of a I n buf] Let_def)
    have succ: "sint (I + 1) = sint I + 1" using True by (rule sint_succ)
    have len: "4 * ?i + 4 \<le> length buf" using True "1.prems" by linarith
    have IH: "callback_loop a (I + 1) n ?buf =
           take (4 * nat (sint (I + 1))) ?buf @
           encode_samples (map (\<lambda>k. stereo (sample_value a (of_nat k))) [nat (sint (I + 1))..<nat (sint n)]) @
           drop (4 * nat (sint n)) ?buf"
      using "1.IH" [OF True refl] "1.prems" True succ len by simp
    have I: "(of_nat ?i :: c_int) = I" using "1.prems"(1) by simp
    have tk: "take (4 * nat (sint (I + 1))) ?buf = take (4 * ?i) buf @ encode_sample (stereo ?v)"
      using succ "1.prems"(1) len by (simp add: store_sample_def stereo_def nat_add_distrib)
    have dr: "drop (4 * nat (sint n)) ?buf = drop (4 * nat (sint n)) buf"
      using True "1.prems" len by (simp add: store_sample_def)
    have up: "[?i..<nat (sint n)] = ?i # [nat (sint (I + 1))..<nat (sint n)]"
      using True succ "1.prems"(1) by (simp add: upt_conv_Cons nat_add_distrib)
    show ?thesis
      using step IH tk dr up I by (simp add: encode_samples_def)
  qed
qed
subsection \<open>Refinement of the tone specification\<close>

lemma sint_of_nat_small:
  assumes "k < 2 ^ 31"
  shows "sint (of_nat k :: c_int) = int k"
proof -
  have "(of_nat k :: c_int) = word_of_int (int k)" by simp
  moreover have "sint (word_of_int (int k) :: c_int) = int k"
    using assms by (intro sint_word_of_int_small) simp_all
  ultimately show ?thesis by simp
qed

lemma sample_value_tone:
  assumes "0 \<le> sint (SamplesDone a)" and "sint (SamplesDone a) + int k < 2 ^ 63"
    and "k < 2 ^ 31"
  shows "sample_value a (of_nat k) = tone (sint (Freq a)) (sint (SamplesDone a) + int k)"
proof -
  have k: "sint (scast (of_nat k :: c_int) :: c_long) = int k"
    using assms(3) by (simp add: sint_up_scast is_up sint_of_nat_small)
  have "sint (SamplesDone a + scast (of_nat k :: c_int)) = sint (SamplesDone a) + int k"
    using assms(1,2) k by (simp add: sint_add_small)
  then show ?thesis
    by (simp add: sample_value_def sample_time_def tone_def mult_ac)
qed

lemma callback_loop_tone:
  assumes "0 \<le> sint n" "4 * sint n \<le> int (length buf)"
    and "0 \<le> sint (SamplesDone a)" "sint (SamplesDone a) + sint n < 2 ^ 63"
  shows "callback_loop a 0 n buf =
           encode_samples (map (\<lambda>k. stereo (tone (sint (Freq a)) (sint (SamplesDone a) + int k)))
                             [0..<nat (sint n)]) @
           drop (4 * nat (sint n)) buf"
proof -
  have n31: "sint n < 2 ^ 31" using sint_lt [of n] by simp
  have m: "map (\<lambda>k. stereo (sample_value a (of_nat k))) [0..<nat (sint n)] =
        map (\<lambda>k. stereo (tone (sint (Freq a)) (sint (SamplesDone a) + int k))) [0..<nat (sint n)]"
  proof (rule map_cong [OF refl])
    fix k assume "k \<in> set [0..<nat (sint n)]"
    then have "int k < sint n" by simp
    with assms(4) n31 show "stereo (sample_value a (of_nat k)) =
                            stereo (tone (sint (Freq a)) (sint (SamplesDone a) + int k))"
      using assms(3) by (simp add: sample_value_tone)
  qed
  have l: "callback_loop a 0 n buf =
           encode_samples (map (\<lambda>k. stereo (sample_value a (of_nat k))) [0..<nat (sint n)]) @
           drop (4 * nat (sint n)) buf"
    using callback_loop_fills [of 0 n buf a] assms(1,2) by simp
  show ?thesis by (simp only: l m)
qed

lemma callback_fills_tone:
  assumes "0 \<le> sint Len" and "sint Len \<le> int (length Stream)"
    and "0 \<le> sint (SamplesDone a)" and "sint (SamplesDone a) + sint Len div 4 < 2 ^ 63"
  shows "\<exists>a'. MyAudioCallback a Stream Len =
           Some (a', encode_samples (map (\<lambda>k. stereo (tone (sint (Freq a)) (sint (SamplesDone a) + int k)))
                                       [0..<nat (sint Len div 4)]) @
                     drop (4 * nat (sint Len div 4)) Stream)
         \<and> Freq a' = Freq a \<and> sint (SamplesDone a') = sint (SamplesDone a) + sint Len div 4"
proof -
  let ?n = "sample_count Len"
  have n: "sint ?n = sint Len div 4" using assms(1) by (rule sample_count_nonneg)
  have fits: "\<not> int (length Stream) < 4 * sint ?n" using n assms(2) by linarith
  have loop: "callback_loop a 0 ?n Stream =
           encode_samples (map (\<lambda>k. stereo (tone (sint (Freq a)) (sint (SamplesDone a) + int k)))
                             [0..<nat (sint Len div 4)]) @
           drop (4 * nat (sint Len div 4)) Stream"
    using callback_loop_tone [of ?n Stream a] n assms by simp
  have "sint (scast ?n :: c_long) = sint Len div 4" by (simp add: sint_up_scast is_up n)
  then have sd: "sint (SamplesDone a + scast ?n) = sint (SamplesDone a) + sint Len div 4"
    using assms(1,3,4) by (simp add: sint_add_small)
  show ?thesis
    using fits loop sd by (simp add: MyAudioCallback_def Let_def)
qed

text \<open>
  C2. One callback on a buffer of \<open>Len\<close> bytes (\<open>0 \<le> Len\<close>, within the
  buffer) returns, fills the first \<open>Len div 4\<close> frames with the tone at the
  absolute indices \<open>SamplesDone, SamplesDone + 1, ...\<close>, the same value on
  both channels, leaves the remaining bytes alone, keeps the rate, and
  advances \<open>SamplesDone\<close> by exactly \<open>Len div 4\<close> (no 64-bit overflow).
\<close>

theorem MyAudioCallback_tone:
  assumes "0 \<le> sint Len" and "sint Len \<le> int (length Stream)"
    and "0 \<le> sint (SamplesDone a)" and "sint (SamplesDone a) + sint Len div 4 < 2 ^ 63"
  shows "\<exists>a'. MyAudioCallback a Stream Len =
           Some (a', encode_samples (map (\<lambda>k. stereo (tone (sint (Freq a)) (sint (SamplesDone a) + int k)))
                                       [0..<nat (sint Len div 4)]) @
                     drop (4 * nat (sint Len div 4)) Stream)
         \<and> Freq a' = Freq a \<and> sint (SamplesDone a') = sint (SamplesDone a) + sint Len div 4"
  using assms by (rule callback_fills_tone)

theorem MyAudioCallback_tone_witness:
  "\<exists>a'. MyAudioCallback \<lparr>Freq = 48000, SamplesDone = 0\<rparr> (replicate 8 0) 8 =
     Some (a', encode_samples [stereo (tone 48000 0), stereo (tone 48000 1)]) \<and>
     Freq a' = 48000 \<and> sint (SamplesDone a') = 2"
  using MyAudioCallback_tone [of 8 "replicate 8 0" "\<lparr>Freq = 48000, SamplesDone = 0\<rparr>"]
  by (simp add: upt_rec)

lemma trunc_amplitude:
  "- 1000 \<le> c_trunc (1000 * sin x) \<and> c_trunc (1000 * sin x) \<le> 1000"
  by (rule c_trunc_bounds) (simp add: abs_mult abs_sin_le_one)

lemma sint_trunc_amplitude:
  "sint (word_of_int (c_trunc (1000 * sin x)) :: Sint16) = c_trunc (1000 * sin x)"
  using trunc_amplitude [of x] by (intro sint_word_of_int_small) simp_all

text \<open>
  C16. Every sample the callback computes lies in [-1000, 1000]: the conversion of
  \<open>1000 * sin(...)\<close> to \<^verbatim>\<open>Sint16\<close> is always in range, so the quiet tone
  never clips or wraps.
\<close>

theorem sample_value_bounded:
  "- 1000 \<le> sint (sample_value a I) \<and> sint (sample_value a I) \<le> 1000"
  using trunc_amplitude by (simp add: sample_value_def sint_trunc_amplitude)

lemma tone_bounded:
  "- 1000 \<le> sint (tone rate k) \<and> sint (tone rate k) \<le> 1000"
  using trunc_amplitude by (simp add: tone_def sint_trunc_amplitude)

lemma encode_samples_append:
  "encode_samples (xs @ ys) = encode_samples xs @ encode_samples ys"
  by (simp add: encode_samples_def)

lemma map_upt_split:
  "map g [0..<m + t] = map g [0..<m] @ map (\<lambda>k. g (m + k)) [0..<t]"
  by (induction t) simp_all

lemma total_frames_Cons [simp]:
  "total_frames ((buf, len) # rs) = length buf div 4 + total_frames rs"
  by (simp add: total_frames_def)

text \<open>
  C3. Phase continuity: over any sequence of callbacks on whole-frame buffers the
  concatenated output is the tone sampled at consecutive absolute indices from
  the initial \<open>SamplesDone\<close>, and \<open>SamplesDone\<close> grows by the total number of
  frames (\<open>N1 + N2 + ...\<close>), never resetting.
\<close>

theorem audio_run_continuous:
  assumes "list_all (\<lambda>(buf, len). sint len = int (length buf) \<and> 4 dvd length buf) rs"
    and "0 \<le> sint (SamplesDone a)" and "sint (SamplesDone a) + int (total_frames rs) < 2 ^ 63"
  shows "\<exists>a' outs. audio_run a rs = Some (a', outs) \<and> Freq a' = Freq a \<and>
           sint (SamplesDone a') = sint (SamplesDone a) + int (total_frames rs) \<and>
           concat outs =
             encode_samples (map (\<lambda>k. stereo (tone (sint (Freq a)) (sint (SamplesDone a) + int k)))
                               [0..<total_frames rs])"
  using assms
proof (induction rs arbitrary: a)
  case Nil
  then show ?case by (simp add: total_frames_def encode_samples_def)
next
  case (Cons r rs)
  obtain buf len where r: "r = (buf, len)" by (cases r)
  let ?m = "length buf div 4"
  have len: "sint len = int (length buf)" "4 dvd length buf" using Cons.prems(1) r by simp_all
  then have m: "sint len div 4 = int ?m" by simp
  have "0 \<le> sint len" using len by simp
  moreover have "sint (SamplesDone a) + sint len div 4 < 2 ^ 63"
    using Cons.prems(3) r m by simp
  ultimately obtain a1 where
      cb: "MyAudioCallback a buf len =
             Some (a1, encode_samples (map (\<lambda>k. stereo (tone (sint (Freq a)) (sint (SamplesDone a) + int k)))
                                         [0..<?m]))"
      and f1: "Freq a1 = Freq a" and sd1: "sint (SamplesDone a1) = sint (SamplesDone a) + int ?m"
    using callback_fills_tone [of len buf a] len Cons.prems(2) m by auto
  have "list_all (\<lambda>(buf, len). sint len = int (length buf) \<and> 4 dvd length buf) rs"
    using Cons.prems(1) by simp
  moreover have "0 \<le> sint (SamplesDone a1)" using sd1 Cons.prems(2) by simp
  moreover have "sint (SamplesDone a1) + int (total_frames rs) < 2 ^ 63"
    using sd1 Cons.prems(3) r by simp
  ultimately obtain a' outs where
      run: "audio_run a1 rs = Some (a', outs)" and f': "Freq a' = Freq a1"
      and sd': "sint (SamplesDone a') = sint (SamplesDone a1) + int (total_frames rs)"
      and out: "concat outs =
             encode_samples (map (\<lambda>k. stereo (tone (sint (Freq a1)) (sint (SamplesDone a1) + int k)))
                               [0..<total_frames rs])"
    using Cons.IH by blast
  have shift: "(\<lambda>k. stereo (tone (sint (Freq a1)) (sint (SamplesDone a1) + int k))) =
               (\<lambda>k. stereo (tone (sint (Freq a)) (sint (SamplesDone a) + int (?m + k))))"
    using f1 sd1 by (simp add: add.assoc)
  show ?case
    using cb run f1 f' sd1 sd' out r
    by (simp add: shift map_upt_split encode_samples_append add.assoc)
qed

theorem audio_run_continuous_witness:
  "\<exists>a' outs. audio_run \<lparr>Freq = 48000, SamplesDone = 0\<rparr> [(replicate 8 0, 8), (replicate 4 0, 4)] =
       Some (a', outs) \<and> Freq a' = 48000 \<and> sint (SamplesDone a') = 3 \<and>
       concat outs = encode_samples (map (\<lambda>k. stereo (tone 48000 (int k))) [0..<3])"
  using audio_run_continuous [of "[(replicate 8 0, 8), (replicate 4 0, 4)]" "\<lparr>Freq = 48000, SamplesDone = 0\<rparr>"]
  by (simp add: total_frames_def)

end
