(* ===== verification/GL_Context.thy ===== *)
theory GL_Context
  imports Diagnostics
begin

text \<open>
  The part of the OpenGL 4.1 core context that \<^verbatim>\<open>src/main.c\<close> drives, as an
  explicit state: the pending error flags (drained by \<^verbatim>\<open>CheckOpenGL\<close>), the
  shader and program objects, vertex array and buffer objects, the current
  program and bindings, and the framebuffer with what has been drawn into it
  and presented.  This is the platform the program calls, not code of the
  repository: each operation follows the OpenGL specification for the cases
  the program reaches, and an invalid object name records the error flag the
  specification names instead of acting.  Object names are natural numbers
  handed out by a counter, so a new object never reuses a live name.

  The GLSL compiler and linker are the driver's: \<open>gl_driver\<close> is the interface
  through which the context asks for a compile or link verdict and info log.
  The lemmas about \<^verbatim>\<open>CompileShader\<close> hold for every driver and state their
  outcome in terms of the verdicts the driver returns.
\<close>

type_synonym gl_name = nat

datatype shader_kind = GL_VERTEX_SHADER | GL_FRAGMENT_SHADER

datatype draw_mode = GL_TRIANGLE_STRIP | GL_TRIANGLES

record shader_obj =
  sh_kind :: shader_kind
  sh_source :: string
  sh_compiled :: bool
  sh_info_log :: string
  sh_delete_pending :: bool

record program_obj =
  pr_attached :: "gl_name list"
  pr_linked :: bool
  pr_info_log :: string
  pr_locations :: "(string \<times> int) list"
  pr_uniform2 :: "int \<Rightarrow> (real \<times> real) option"

record attrib_ptr =
  ap_size :: nat
  ap_stride :: nat
  ap_offset :: nat
  ap_buffer :: gl_name

record vao_obj =
  va_attribs :: "nat \<Rightarrow> attrib_ptr option"
  va_enabled :: "nat set"

record draw_call =
  dc_program :: gl_name
  dc_vao :: gl_name
  dc_mode :: draw_mode
  dc_first :: nat
  dc_count :: nat
  dc_uniforms :: "int \<Rightarrow> (real \<times> real) option"

record framebuffer =
  fb_clear :: "real \<times> real \<times> real \<times> real"
  fb_draws :: "draw_call list"

record gl_ctx =
  gl_errors :: "GLenum list"
  gl_next :: gl_name
  gl_shaders :: "gl_name \<Rightarrow> shader_obj option"
  gl_programs :: "gl_name \<Rightarrow> program_obj option"
  gl_buffers :: "gl_name \<Rightarrow> real list option"
  gl_vaos :: "gl_name \<Rightarrow> vao_obj option"
  gl_current_program :: gl_name
  gl_bound_vao :: gl_name
  gl_array_buffer :: gl_name
  gl_clear_color :: "real \<times> real \<times> real \<times> real"
  gl_srgb :: bool
  gl_fb :: framebuffer
  gl_presented :: "framebuffer list"

text \<open>
  The driver's verdicts: compiling a stage's source gives a status and an info
  log; linking the attached stage objects gives a status, an info log and the
  active uniforms with their locations.
\<close>

record gl_driver =
  drv_compile :: "shader_kind \<Rightarrow> string \<Rightarrow> bool \<times> string"
  drv_link :: "shader_obj list \<Rightarrow> bool \<times> string \<times> (string \<times> int) list"

text \<open>A freshly created context: no objects, no bindings, nothing drawn.\<close>

definition gl_initial :: gl_ctx where
  "gl_initial =
     \<lparr>gl_errors = [], gl_next = 1, gl_shaders = Map.empty, gl_programs = Map.empty,
      gl_buffers = Map.empty, gl_vaos = Map.empty, gl_current_program = 0, gl_bound_vao = 0,
      gl_array_buffer = 0, gl_clear_color = (0, 0, 0, 0), gl_srgb = False,
      gl_fb = \<lparr>fb_clear = (0, 0, 0, 0), fb_draws = []\<rparr>, gl_presented = []\<rparr>"

definition GL_FALSE :: int where "GL_FALSE = 0"
definition GL_TRUE :: int where "GL_TRUE = 1"

definition gl_error :: "GLenum \<Rightarrow> gl_ctx \<Rightarrow> gl_ctx" where
  "gl_error e g = g\<lparr>gl_errors := gl_errors g @ [e]\<rparr>"

definition gl_alloc :: "gl_ctx \<Rightarrow> gl_name \<times> gl_ctx" where
  "gl_alloc g = (gl_next g, g\<lparr>gl_next := Suc (gl_next g)\<rparr>)"

subsection \<open>Shader objects\<close>

definition glCreateShader :: "shader_kind \<Rightarrow> gl_ctx \<Rightarrow> gl_name \<times> gl_ctx" where
  "glCreateShader k g =
     (case gl_alloc g of (n, g') \<Rightarrow>
        (n, g'\<lparr>gl_shaders := (gl_shaders g')(n \<mapsto>
               \<lparr>sh_kind = k, sh_source = [], sh_compiled = False, sh_info_log = [],
                sh_delete_pending = False\<rparr>)\<rparr>))"

definition update_shader :: "gl_name \<Rightarrow> (shader_obj \<Rightarrow> shader_obj) \<Rightarrow> gl_ctx \<Rightarrow> gl_ctx" where
  "update_shader s f g =
     (case gl_shaders g s of
        None \<Rightarrow> gl_error GL_INVALID_VALUE g
      | Some so \<Rightarrow> g\<lparr>gl_shaders := (gl_shaders g)(s \<mapsto> f so)\<rparr>)"

definition glShaderSource :: "gl_name \<Rightarrow> string \<Rightarrow> gl_ctx \<Rightarrow> gl_ctx" where
  "glShaderSource s src = update_shader s (\<lambda>so. so\<lparr>sh_source := src\<rparr>)"

definition glCompileShader :: "gl_driver \<Rightarrow> gl_name \<Rightarrow> gl_ctx \<Rightarrow> gl_ctx" where
  "glCompileShader drv s =
     update_shader s (\<lambda>so. case drv_compile drv (sh_kind so) (sh_source so) of
                            (ok, msg) \<Rightarrow> so\<lparr>sh_compiled := ok, sh_info_log := msg\<rparr>)"

text \<open>\<^verbatim>\<open>glGetShaderiv(s, GL_COMPILE_STATUS, &v)\<close>.\<close>

definition glGetShaderiv_compile_status :: "gl_name \<Rightarrow> gl_ctx \<Rightarrow> int" where
  "glGetShaderiv_compile_status s g =
     (case gl_shaders g s of
        Some so \<Rightarrow> if sh_compiled so then GL_TRUE else GL_FALSE
      | None \<Rightarrow> GL_FALSE)"

text \<open>
  \<^verbatim>\<open>glGetShaderInfoLog(s, bufSize, &length, buf)\<close>: at most \<open>bufSize - 1\<close>
  characters and a terminating NUL are written; \<open>length\<close> excludes the NUL.
\<close>

definition info_log_read :: "nat \<Rightarrow> string \<Rightarrow> nat \<times> string" where
  "info_log_read bufSize msg = (let t = take (bufSize - 1) msg in (length t, t))"

definition glGetShaderInfoLog :: "gl_name \<Rightarrow> nat \<Rightarrow> gl_ctx \<Rightarrow> nat \<times> string" where
  "glGetShaderInfoLog s bufSize g =
     (case gl_shaders g s of
        Some so \<Rightarrow> info_log_read bufSize (sh_info_log so)
      | None \<Rightarrow> (0, []))"

text \<open>
  Whether a shader is attached to some program.  Every name handed out so far
  is below the counter, so the search runs over those names.
\<close>

definition attached_anywhere :: "gl_name \<Rightarrow> gl_ctx \<Rightarrow> bool" where
  "attached_anywhere s g \<longleftrightarrow>
     list_ex (\<lambda>p. case gl_programs g p of Some po \<Rightarrow> s \<in> set (pr_attached po) | None \<Rightarrow> False)
       [0..<gl_next g]"

text \<open>
  \<^verbatim>\<open>glDeleteShader\<close>: a shader still attached to a program is only flagged for
  deletion; it is deleted when it is no longer attached.
\<close>

definition glDeleteShader :: "gl_name \<Rightarrow> gl_ctx \<Rightarrow> gl_ctx" where
  "glDeleteShader s g =
     (case gl_shaders g s of
        None \<Rightarrow> gl_error GL_INVALID_VALUE g
      | Some so \<Rightarrow>
          if attached_anywhere s g
          then g\<lparr>gl_shaders := (gl_shaders g)(s \<mapsto> so\<lparr>sh_delete_pending := True\<rparr>)\<rparr>
          else g\<lparr>gl_shaders := (gl_shaders g)(s := None)\<rparr>)"

subsection \<open>Program objects\<close>

definition glCreateProgram :: "gl_ctx \<Rightarrow> gl_name \<times> gl_ctx" where
  "glCreateProgram g =
     (case gl_alloc g of (n, g') \<Rightarrow>
        (n, g'\<lparr>gl_programs := (gl_programs g')(n \<mapsto>
               \<lparr>pr_attached = [], pr_linked = False, pr_info_log = [],
                pr_locations = [], pr_uniform2 = Map.empty\<rparr>)\<rparr>))"

definition glAttachShader :: "gl_name \<Rightarrow> gl_name \<Rightarrow> gl_ctx \<Rightarrow> gl_ctx" where
  "glAttachShader p s g =
     (case (gl_programs g p, gl_shaders g s) of
        (Some po, Some so) \<Rightarrow>
          if s \<in> set (pr_attached po) then gl_error GL_INVALID_OPERATION g
          else g\<lparr>gl_programs := (gl_programs g)(p \<mapsto> po\<lparr>pr_attached := pr_attached po @ [s]\<rparr>)\<rparr>
      | _ \<Rightarrow> gl_error GL_INVALID_VALUE g)"

definition glLinkProgram :: "gl_driver \<Rightarrow> gl_name \<Rightarrow> gl_ctx \<Rightarrow> gl_ctx" where
  "glLinkProgram drv p g =
     (case gl_programs g p of
        None \<Rightarrow> gl_error GL_INVALID_VALUE g
      | Some po \<Rightarrow>
          (case drv_link drv (List.map_filter (gl_shaders g) (pr_attached po)) of
             (ok, msg, locs) \<Rightarrow>
               g\<lparr>gl_programs := (gl_programs g)(p \<mapsto>
                   po\<lparr>pr_linked := ok, pr_info_log := msg,
                      pr_locations := (if ok then locs else []),
                      pr_uniform2 := Map.empty\<rparr>)\<rparr>))"

definition glGetProgramiv_link_status :: "gl_name \<Rightarrow> gl_ctx \<Rightarrow> int" where
  "glGetProgramiv_link_status p g =
     (case gl_programs g p of
        Some po \<Rightarrow> if pr_linked po then GL_TRUE else GL_FALSE
      | None \<Rightarrow> GL_FALSE)"

definition glGetProgramInfoLog :: "gl_name \<Rightarrow> nat \<Rightarrow> gl_ctx \<Rightarrow> nat \<times> string" where
  "glGetProgramInfoLog p bufSize g =
     (case gl_programs g p of
        Some po \<Rightarrow> info_log_read bufSize (pr_info_log po)
      | None \<Rightarrow> (0, []))"

text \<open>\<^verbatim>\<open>glDetachShader\<close>; a shader flagged for deletion goes once detached.\<close>

definition glDetachShader :: "gl_name \<Rightarrow> gl_name \<Rightarrow> gl_ctx \<Rightarrow> gl_ctx" where
  "glDetachShader p s g =
     (case (gl_programs g p, gl_shaders g s) of
        (Some po, Some so) \<Rightarrow>
          if s \<notin> set (pr_attached po) then gl_error GL_INVALID_OPERATION g
          else
            (let g' = g\<lparr>gl_programs := (gl_programs g)(p \<mapsto> po\<lparr>pr_attached := removeAll s (pr_attached po)\<rparr>)\<rparr>
             in if sh_delete_pending so \<and> \<not> attached_anywhere s g'
                then g'\<lparr>gl_shaders := (gl_shaders g')(s := None)\<rparr> else g')
      | _ \<Rightarrow> gl_error GL_INVALID_VALUE g)"


subsection \<open>Buffers and vertex arrays\<close>

definition glGenBuffers :: "gl_ctx \<Rightarrow> gl_name \<times> gl_ctx" where
  "glGenBuffers g =
     (case gl_alloc g of (n, g') \<Rightarrow> (n, g'\<lparr>gl_buffers := (gl_buffers g')(n \<mapsto> [])\<rparr>))"

definition glGenVertexArrays :: "gl_ctx \<Rightarrow> gl_name \<times> gl_ctx" where
  "glGenVertexArrays g =
     (case gl_alloc g of (n, g') \<Rightarrow>
        (n, g'\<lparr>gl_vaos := (gl_vaos g')(n \<mapsto> \<lparr>va_attribs = Map.empty, va_enabled = {}\<rparr>)\<rparr>))"

definition glBindVertexArray :: "gl_name \<Rightarrow> gl_ctx \<Rightarrow> gl_ctx" where
  "glBindVertexArray v g =
     (if v = 0 \<or> gl_vaos g v \<noteq> None then g\<lparr>gl_bound_vao := v\<rparr>
      else gl_error GL_INVALID_OPERATION g)"

text \<open>\<^verbatim>\<open>glBindBuffer(GL_ARRAY_BUFFER, b)\<close>.\<close>

definition glBindBuffer :: "gl_name \<Rightarrow> gl_ctx \<Rightarrow> gl_ctx" where
  "glBindBuffer b g =
     (if b = 0 \<or> gl_buffers g b \<noteq> None then g\<lparr>gl_array_buffer := b\<rparr>
      else gl_error GL_INVALID_OPERATION g)"

text \<open>\<^verbatim>\<open>glBufferData(GL_ARRAY_BUFFER, size, data, usage)\<close>: the data as floats.\<close>

definition glBufferData :: "real list \<Rightarrow> gl_ctx \<Rightarrow> gl_ctx" where
  "glBufferData d g =
     (if gl_array_buffer g = 0 then gl_error GL_INVALID_OPERATION g
      else g\<lparr>gl_buffers := (gl_buffers g)(gl_array_buffer g \<mapsto> d)\<rparr>)"

definition update_vao :: "(vao_obj \<Rightarrow> vao_obj) \<Rightarrow> gl_ctx \<Rightarrow> gl_ctx" where
  "update_vao f g =
     (case gl_vaos g (gl_bound_vao g) of
        None \<Rightarrow> gl_error GL_INVALID_OPERATION g
      | Some va \<Rightarrow> g\<lparr>gl_vaos := (gl_vaos g)(gl_bound_vao g \<mapsto> f va)\<rparr>)"

text \<open>
  \<^verbatim>\<open>glVertexAttribPointer(index, size, GL_FLOAT, GL_FALSE, stride, offset)\<close>,
  stride and offset in bytes.  In a core context a vertex array must be bound,
  and a non-zero offset needs a bound array buffer.
\<close>

definition glVertexAttribPointer :: "nat \<Rightarrow> nat \<Rightarrow> nat \<Rightarrow> nat \<Rightarrow> gl_ctx \<Rightarrow> gl_ctx" where
  "glVertexAttribPointer idx sz stride offset g =
     (if gl_array_buffer g = 0 \<and> offset \<noteq> 0 then gl_error GL_INVALID_OPERATION g
      else update_vao (\<lambda>va. va\<lparr>va_attribs := (va_attribs va)(idx \<mapsto>
             \<lparr>ap_size = sz, ap_stride = stride, ap_offset = offset,
              ap_buffer = gl_array_buffer g\<rparr>)\<rparr>) g)"

definition glEnableVertexAttribArray :: "nat \<Rightarrow> gl_ctx \<Rightarrow> gl_ctx" where
  "glEnableVertexAttribArray idx = update_vao (\<lambda>va. va\<lparr>va_enabled := insert idx (va_enabled va)\<rparr>)"

subsection \<open>Per-frame state and drawing\<close>

definition glClearColor :: "real \<Rightarrow> real \<Rightarrow> real \<Rightarrow> real \<Rightarrow> gl_ctx \<Rightarrow> gl_ctx" where
  "glClearColor r gr b a g = g\<lparr>gl_clear_color := (r, gr, b, a)\<rparr>"

text \<open>\<^verbatim>\<open>glClear(GL_COLOR_BUFFER_BIT)\<close>: the colour buffer holds the clear colour and nothing drawn.\<close>

definition glClear :: "gl_ctx \<Rightarrow> gl_ctx" where
  "glClear g = g\<lparr>gl_fb := \<lparr>fb_clear = gl_clear_color g, fb_draws = []\<rparr>\<rparr>"

definition glEnable_FRAMEBUFFER_SRGB :: "gl_ctx \<Rightarrow> gl_ctx" where
  "glEnable_FRAMEBUFFER_SRGB g = g\<lparr>gl_srgb := True\<rparr>"

text \<open>
  \<^verbatim>\<open>glUseProgram\<close>: 0 unbinds; a name that is no program is
  \<^verbatim>\<open>GL_INVALID_VALUE\<close>, a program that is not linked \<^verbatim>\<open>GL_INVALID_OPERATION\<close>.
\<close>

definition glUseProgram :: "gl_name \<Rightarrow> gl_ctx \<Rightarrow> gl_ctx" where
  "glUseProgram p g =
     (if p = 0 then g\<lparr>gl_current_program := 0\<rparr>
      else case gl_programs g p of
             None \<Rightarrow> gl_error GL_INVALID_VALUE g
           | Some po \<Rightarrow> if pr_linked po then g\<lparr>gl_current_program := p\<rparr>
                        else gl_error GL_INVALID_OPERATION g)"

text \<open>\<^verbatim>\<open>glGetUniformLocation\<close>: the location the linker assigned, \<open>-1\<close> for none.\<close>

definition location_of :: "(string \<times> int) list \<Rightarrow> string \<Rightarrow> int" where
  "location_of locs u = (case map_of locs u of Some l \<Rightarrow> l | None \<Rightarrow> -1)"

definition glGetUniformLocation :: "gl_name \<Rightarrow> string \<Rightarrow> gl_ctx \<Rightarrow> int \<times> gl_ctx" where
  "glGetUniformLocation p u g =
     (case gl_programs g p of
        None \<Rightarrow> (-1, gl_error GL_INVALID_VALUE g)
      | Some po \<Rightarrow> if pr_linked po then (location_of (pr_locations po) u, g)
                   else (-1, gl_error GL_INVALID_OPERATION g))"

text \<open>
  \<^verbatim>\<open>glUniform2fv(loc, 1, v)\<close> on the current program: location \<open>-1\<close> is
  silently ignored; no current program, or a location the program does not
  have, is \<^verbatim>\<open>GL_INVALID_OPERATION\<close>.
\<close>

definition glUniform2fv :: "int \<Rightarrow> real \<times> real \<Rightarrow> gl_ctx \<Rightarrow> gl_ctx" where
  "glUniform2fv loc v g =
     (case gl_programs g (gl_current_program g) of
        None \<Rightarrow> gl_error GL_INVALID_OPERATION g
      | Some po \<Rightarrow>
          if loc = -1 then g
          else if loc \<in> snd ` set (pr_locations po) \<and> 0 \<le> loc
          then g\<lparr>gl_programs := (gl_programs g)(gl_current_program g \<mapsto>
                   po\<lparr>pr_uniform2 := (pr_uniform2 po)(loc \<mapsto> v)\<rparr>)\<rparr>
          else gl_error GL_INVALID_OPERATION g)"

text \<open>
  \<^verbatim>\<open>glDrawArrays\<close>: with no vertex array bound a core context records
  \<^verbatim>\<open>GL_INVALID_OPERATION\<close> and draws nothing; otherwise the draw call is
  recorded in the framebuffer with the program's uniform values.
\<close>

definition glDrawArrays :: "draw_mode \<Rightarrow> nat \<Rightarrow> nat \<Rightarrow> gl_ctx \<Rightarrow> gl_ctx" where
  "glDrawArrays mode first cnt g =
     (if gl_bound_vao g = 0 then gl_error GL_INVALID_OPERATION g
      else
        (let u = (case gl_programs g (gl_current_program g) of
                    Some po \<Rightarrow> pr_uniform2 po | None \<Rightarrow> Map.empty)
         in g\<lparr>gl_fb := (gl_fb g)\<lparr>fb_draws := fb_draws (gl_fb g) @
               [\<lparr>dc_program = gl_current_program g, dc_vao = gl_bound_vao g, dc_mode = mode,
                 dc_first = first, dc_count = cnt, dc_uniforms = u\<rparr>]\<rparr>\<rparr>))"

text \<open>\<^verbatim>\<open>SDL_GL_SwapWindow\<close>: the back buffer is presented.\<close>

definition SDL_GL_SwapWindow :: "gl_ctx \<Rightarrow> gl_ctx" where
  "SDL_GL_SwapWindow g = g\<lparr>gl_presented := gl_presented g @ [gl_fb g]\<rparr>"

subsection \<open>Uniform locations\<close>

lemma location_of_active:
  assumes "0 \<le> location_of locs u"
  shows "location_of locs u \<in> snd ` set locs"
proof (cases "map_of locs u")
  case None
  then show ?thesis using assms by (simp add: location_of_def)
next
  case (Some l)
  then have "(u, l) \<in> set locs" by (rule map_of_SomeD)
  then show ?thesis using Some by (force simp: location_of_def)
qed

subsection \<open>The error queue\<close>

text \<open>
  Every operation records only real error codes, so the queue never holds
  \<^verbatim>\<open>GL_NO_ERROR\<close> and \<^verbatim>\<open>CheckOpenGL\<close> drains it completely.
\<close>

lemma gl_error_codes [simp]:
  "GL_INVALID_OPERATION \<noteq> GL_NO_ERROR" "GL_INVALID_VALUE \<noteq> GL_NO_ERROR"
  by (simp_all add: gl_enum_defs)

lemma flags_wf_Nil [simp]: "flags_wf []"
  by (simp add: flags_wf_def)

lemma gl_error_keeps [keeps_flags]:
  "flags_wf (gl_errors g) \<Longrightarrow> e \<noteq> GL_NO_ERROR \<Longrightarrow> flags_wf (gl_errors (gl_error e g))"
  by (simp add: gl_error_def flags_wf_def)

lemma frame_ops_keep [keeps_flags]:
  assumes "flags_wf (gl_errors g)"
  shows "flags_wf (gl_errors (glClearColor r gr b a g))" "flags_wf (gl_errors (glClear g))"
    "flags_wf (gl_errors (glUseProgram p g))" "flags_wf (gl_errors (glBindVertexArray v g))"
    "flags_wf (gl_errors (glDrawArrays mode first cnt g))" "flags_wf (gl_errors (SDL_GL_SwapWindow g))"
    "flags_wf (gl_errors (snd (glGetUniformLocation p u g)))" "flags_wf (gl_errors (glUniform2fv loc m g))"
  using assms
  by (auto simp: glClearColor_def glClear_def glUseProgram_def glBindVertexArray_def glDrawArrays_def
      SDL_GL_SwapWindow_def glGetUniformLocation_def glUniform2fv_def Let_def gl_error_keeps
      split: option.splits)

lemma frame_ops_presented [simp]:
  "gl_presented (glClearColor r gr b a g) = gl_presented g" "gl_presented (glClear g) = gl_presented g"
  "gl_presented (glUseProgram p g) = gl_presented g" "gl_presented (glBindVertexArray v g) = gl_presented g"
  "gl_presented (glDrawArrays mode first cnt g) = gl_presented g"
  "gl_presented (snd (glGetUniformLocation p u g)) = gl_presented g"
  "gl_presented (glUniform2fv loc m g) = gl_presented g"
  by (auto simp: glClearColor_def glClear_def glUseProgram_def glBindVertexArray_def glDrawArrays_def
      glGetUniformLocation_def glUniform2fv_def gl_error_def Let_def split: option.splits)

subsection \<open>Attached shaders\<close>

lemma attached_anywhere_iff:
  "attached_anywhere s g \<longleftrightarrow>
     (\<exists>p < gl_next g. \<exists>po. gl_programs g p = Some po \<and> s \<in> set (pr_attached po))"
  by (auto simp: attached_anywhere_def list_ex_iff split: option.splits)

end
