(* ===== verification/Shader_Build.thy ===== *)
theory Shader_Build
  imports GL_Context
begin

text \<open>
  The program builder of \<^verbatim>\<open>src/main.c\<close>: the two GLSL sources \<^verbatim>\<open>CodeVS\<close>
  and \<^verbatim>\<open>CodeFS\<close> (lines 27--49) and \<^verbatim>\<open>CompileShader\<close> (lines 104--154),
  which creates and compiles the vertex and the fragment stage, links them
  into a program, and on success detaches and deletes the stages.  The model
  returns the C return value, the value stored through \<^verbatim>\<open>*Shader\<close> when it is
  stored, the context afterwards and the text printed to \<^verbatim>\<open>stderr\<close>
  (\<^verbatim>\<open>fprintf(stderr, "%.*s", Length, Buf)\<close> with the bounded info log).
  The theorems give the outcome on each of the four paths in terms of the
  driver's verdicts; a failure path keeps every object created before it
  alive, which the theorems show explicitly.
\<close>

definition CodeVS :: string where
  "CodeVS =
     ''#version 410 core'' @ [CHR 0x0A] @
     ''layout(location=0) in vec3 P;'' @
     ''layout(location=1) in vec3 C;'' @
     ''out vec3 FragC;'' @
     ''out vec3 FragP;'' @
     ''uniform vec2 ModelP;'' @
     ''void main() {'' @
     ''   FragP = P + vec3(ModelP, 0.0f);'' @
     ''   FragC = C;'' @
     ''   gl_Position = vec4(FragP, 1.0);'' @
     ''}''"

definition CodeFS :: string where
  "CodeFS =
     ''#version 410 core'' @ [CHR 0x0A] @
     ''in vec3 FragC;'' @
     ''in vec3 FragP;'' @
     ''out vec4 Result;'' @
     ''void main() {'' @
     ''   Result = vec4(FragC, 1.0);'' @
     ''}''"

definition InfoLogBufSize :: nat where
  "InfoLogBufSize = 1024"

definition CompileShader ::
  "gl_driver \<Rightarrow> string \<Rightarrow> string \<Rightarrow> gl_ctx \<Rightarrow> int \<times> gl_name option \<times> gl_ctx \<times> string" where
  "CompileShader drv VertexShader FragmentShader g0 =
     (case glCreateShader GL_VERTEX_SHADER g0 of (VID, g1) \<Rightarrow>
      let g2 = glCompileShader drv VID (glShaderSource VID VertexShader g1) in
      if glGetShaderiv_compile_status VID g2 = GL_FALSE
      then (case glGetShaderInfoLog VID InfoLogBufSize g2 of
              (Length, Buf) \<Rightarrow> (1, None, g2, take Length Buf))
      else
      (case glCreateShader GL_FRAGMENT_SHADER g2 of (FID, g3) \<Rightarrow>
       let g4 = glCompileShader drv FID (glShaderSource FID FragmentShader g3) in
       if glGetShaderiv_compile_status FID g4 = GL_FALSE
       then (case glGetShaderInfoLog FID InfoLogBufSize g4 of
               (Length, Buf) \<Rightarrow> (1, None, g4, take Length Buf))
       else
       (case glCreateProgram g4 of (Program, g5) \<Rightarrow>
        let g6 = glLinkProgram drv Program (glAttachShader Program FID (glAttachShader Program VID g5)) in
        if glGetProgramiv_link_status Program g6 = GL_FALSE
        then (case glGetProgramInfoLog Program InfoLogBufSize g6 of
                (Length, Buf) \<Rightarrow> (1, None, g6, take Length Buf))
        else
          (let g7 = glDeleteShader FID (glDeleteShader VID
                      (glDetachShader Program FID (glDetachShader Program VID g6)))
           in (0, Some Program, g7, [])))))"

definition gl_names_wf :: "gl_ctx \<Rightarrow> bool" where
  "gl_names_wf g \<longleftrightarrow>
     (\<forall>k. gl_next g \<le> k \<longrightarrow> gl_shaders g k = None \<and> gl_programs g k = None) \<and>
     (\<forall>p po. gl_programs g p = Some po \<longrightarrow> (\<forall>s \<in> set (pr_attached po). s < gl_next g))"

definition new_stage :: "shader_kind \<Rightarrow> string \<Rightarrow> bool \<times> string \<Rightarrow> shader_obj" where
  "new_stage k src v =
     \<lparr>sh_kind = k, sh_source = src, sh_compiled = fst v, sh_info_log = snd v,
      sh_delete_pending = False\<rparr>"

definition new_program :: "gl_name list \<Rightarrow> bool \<Rightarrow> string \<Rightarrow> (string \<times> int) list \<Rightarrow> program_obj" where
  "new_program att ok msg locs =
     \<lparr>pr_attached = att, pr_linked = ok, pr_info_log = msg, pr_locations = locs,
      pr_uniform2 = Map.empty\<rparr>"

text \<open>
  Two drivers used to exercise the builder: one that accepts every stage and
  program (giving \<^verbatim>\<open>ModelP\<close> location 0), and one whose GLSL compiler
  rejects every fragment stage with a log.
\<close>

definition accepting_driver :: gl_driver where
  "accepting_driver =
     \<lparr>drv_compile = (\<lambda>k src. (True, [])),
      drv_link = (\<lambda>sos. (True, [], [(''ModelP'', 0)]))\<rparr>"

definition fragment_rejecting_driver :: gl_driver where
  "fragment_rejecting_driver =
     \<lparr>drv_compile = (\<lambda>k src. if k = GL_FRAGMENT_SHADER then (False, ''0:1(1): error: syntax error'')
                              else (True, [])),
      drv_link = (\<lambda>sos. (True, [], []))\<rparr>"

definition link_rejecting_driver :: gl_driver where
  "link_rejecting_driver =
     \<lparr>drv_compile = (\<lambda>k src. (True, [])),
      drv_link = (\<lambda>sos. (False, ''error: no main'', []))\<rparr>"

subsection \<open>Lemmas on the GL operations the builder calls\<close>

lemma glCreateShader_eq:
  "glCreateShader k g =
     (gl_next g, g\<lparr>gl_next := Suc (gl_next g),
                   gl_shaders := (gl_shaders g)(gl_next g \<mapsto> new_stage k [] (False, []))\<rparr>)"
  by (simp add: glCreateShader_def gl_alloc_def new_stage_def)

lemma new_stage_sel [simp]:
  "sh_kind (new_stage k src v) = k" "sh_source (new_stage k src v) = src"
  "sh_compiled (new_stage k src v) = fst v" "sh_info_log (new_stage k src v) = snd v"
  "sh_delete_pending (new_stage k src v) = False"
  by (simp_all add: new_stage_def)

lemma compile_new_stage:
  "gl_shaders g n = Some (new_stage k [] (False, [])) \<Longrightarrow>
   glCompileShader drv n (glShaderSource n src g) =
     g\<lparr>gl_shaders := (gl_shaders g)(n \<mapsto> new_stage k src (drv_compile drv k src))\<rparr>"
  by (simp add: glShaderSource_def glCompileShader_def update_shader_def new_stage_def
      split: prod.splits)

lemma stage_status:
  "gl_shaders g s = Some so \<Longrightarrow>
   glGetShaderiv_compile_status s g = (if sh_compiled so then GL_TRUE else GL_FALSE)"
  "gl_shaders g s = Some so \<Longrightarrow>
   glGetShaderInfoLog s n g = info_log_read n (sh_info_log so)"
  by (simp_all add: glGetShaderiv_compile_status_def glGetShaderInfoLog_def)

lemma GL_TRUE_neq_FALSE [simp]: "GL_TRUE \<noteq> GL_FALSE" "GL_FALSE \<noteq> GL_TRUE"
  by (simp_all add: GL_TRUE_def GL_FALSE_def)

lemma info_log_printed [simp]:
  "(case info_log_read n msg of (Length, Buf) \<Rightarrow> (r, h, g, take Length Buf)) = (r, h, g, take (n - 1) msg)"
  by (simp add: info_log_read_def)

subsection \<open>The four paths\<close>

text \<open>The vertex stage fails to compile: its log is printed and the build stops.\<close>

theorem CompileShader_vertex_failure:
  assumes "drv_compile drv GL_VERTEX_SHADER vs = (False, lv)"
  shows "CompileShader drv vs fs g =
           (1, None,
            g\<lparr>gl_next := Suc (gl_next g),
              gl_shaders := (gl_shaders g)(gl_next g \<mapsto> new_stage GL_VERTEX_SHADER vs (False, lv))\<rparr>,
            take (InfoLogBufSize - 1) lv)"
  using assms
  by (simp add: CompileShader_def glCreateShader_eq compile_new_stage stage_status Let_def
      split del: if_split)

text \<open>
  C9. A fragment stage that fails to compile makes \<^verbatim>\<open>CompileShader\<close> return 1
  without storing a handle, print the first 1023 characters of the
  compiler's log, and create no program; the vertex and fragment stage
  objects it created stay alive in the context (they are leaked).
\<close>

theorem CompileShader_fragment_failure:
  assumes "drv_compile drv GL_VERTEX_SHADER vs = (True, lv)"
    and "drv_compile drv GL_FRAGMENT_SHADER fs = (False, lf)"
  shows "CompileShader drv vs fs g =
           (1, None,
            g\<lparr>gl_next := Suc (Suc (gl_next g)),
              gl_shaders := (gl_shaders g)(gl_next g \<mapsto> new_stage GL_VERTEX_SHADER vs (True, lv),
                                           Suc (gl_next g) \<mapsto> new_stage GL_FRAGMENT_SHADER fs (False, lf))\<rparr>,
            take (InfoLogBufSize - 1) lf)"
  using assms
  by (simp add: CompileShader_def glCreateShader_eq compile_new_stage stage_status Let_def)

lemma new_program_sel [simp]:
  "pr_attached (new_program att ok msg locs) = att" "pr_linked (new_program att ok msg locs) = ok"
  "pr_info_log (new_program att ok msg locs) = msg"
  "pr_locations (new_program att ok msg locs) = locs"
  "pr_uniform2 (new_program att ok msg locs) = Map.empty"
  by (simp_all add: new_program_def)

lemma glCreateProgram_eq:
  "glCreateProgram g =
     (gl_next g, g\<lparr>gl_next := Suc (gl_next g),
                   gl_programs := (gl_programs g)(gl_next g \<mapsto> new_program [] False [] [])\<rparr>)"
  by (simp add: glCreateProgram_def gl_alloc_def new_program_def)

lemma attach_new:
  "gl_programs g p = Some po \<Longrightarrow> gl_shaders g s = Some so \<Longrightarrow> s \<notin> set (pr_attached po) \<Longrightarrow>
   glAttachShader p s g = g\<lparr>gl_programs := (gl_programs g)(p \<mapsto> po\<lparr>pr_attached := pr_attached po @ [s]\<rparr>)\<rparr>"
  by (simp add: glAttachShader_def)

lemma link_program:
  "gl_programs g p = Some po \<Longrightarrow>
   glLinkProgram drv p g =
     (case drv_link drv (List.map_filter (gl_shaders g) (pr_attached po)) of (ok, msg, locs) \<Rightarrow>
     g\<lparr>gl_programs := (gl_programs g)(p \<mapsto> new_program (pr_attached po) ok msg
                                         (if ok then locs else []))\<rparr>)"
  by (cases po) (simp add: glLinkProgram_def new_program_def split: prod.splits)

lemma program_status:
  "gl_programs g p = Some po \<Longrightarrow>
   glGetProgramiv_link_status p g = (if pr_linked po then GL_TRUE else GL_FALSE)"
  "gl_programs g p = Some po \<Longrightarrow>
   glGetProgramInfoLog p n g = info_log_read n (pr_info_log po)"
  by (simp_all add: glGetProgramiv_link_status_def glGetProgramInfoLog_def)

text \<open>
  C10. A link failure makes \<^verbatim>\<open>CompileShader\<close> return 1 without storing a
  handle and print the linker's log; the unlinked program object and both
  stages, still attached to it, stay alive in the context.
\<close>

theorem CompileShader_link_failure:
  assumes "drv_compile drv GL_VERTEX_SHADER vs = (True, lv)"
    and "drv_compile drv GL_FRAGMENT_SHADER fs = (True, lf)"
    and "drv_link drv [new_stage GL_VERTEX_SHADER vs (True, lv),
                       new_stage GL_FRAGMENT_SHADER fs (True, lf)] = (False, ll, locs)"
  shows "CompileShader drv vs fs g =
           (1, None,
            g\<lparr>gl_next := Suc (Suc (Suc (gl_next g))),
              gl_shaders := (gl_shaders g)(gl_next g \<mapsto> new_stage GL_VERTEX_SHADER vs (True, lv),
                                           Suc (gl_next g) \<mapsto> new_stage GL_FRAGMENT_SHADER fs (True, lf)),
              gl_programs := (gl_programs g)(Suc (Suc (gl_next g)) \<mapsto>
                  new_program [gl_next g, Suc (gl_next g)] False ll [])\<rparr>,
            take (InfoLogBufSize - 1) ll)"
proof -
  let ?n = "gl_next g"
  let ?V = "new_stage GL_VERTEX_SHADER vs (True, lv)"
  let ?F = "new_stage GL_FRAGMENT_SHADER fs (True, lf)"
  let ?g4 = "g\<lparr>gl_next := Suc (Suc ?n), gl_shaders := (gl_shaders g)(?n \<mapsto> ?V, Suc ?n \<mapsto> ?F)\<rparr>"
  let ?g5 = "?g4\<lparr>gl_next := Suc (Suc (Suc ?n)),
                  gl_programs := (gl_programs g)(Suc (Suc ?n) \<mapsto> new_program [] False [] [])\<rparr>"
  let ?g6 = "?g4\<lparr>gl_next := Suc (Suc (Suc ?n)),
                  gl_programs := (gl_programs g)(Suc (Suc ?n) \<mapsto> new_program [?n, Suc ?n] False ll [])\<rparr>"
  have att: "glAttachShader (Suc (Suc ?n)) (Suc ?n) (glAttachShader (Suc (Suc ?n)) ?n ?g5) =
             ?g4\<lparr>gl_next := Suc (Suc (Suc ?n)),
                  gl_programs := (gl_programs g)(Suc (Suc ?n) \<mapsto> new_program [?n, Suc ?n] False [] [])\<rparr>"
    by (simp add: attach_new new_program_def)
  have link: "glLinkProgram drv (Suc (Suc ?n)) (glAttachShader (Suc (Suc ?n)) (Suc ?n)
                (glAttachShader (Suc (Suc ?n)) ?n ?g5)) = ?g6"
    using assms(3) by (simp only: att) (simp add: link_program map_filter_simps)
  show ?thesis
    using assms(1,2) link
    by (simp add: CompileShader_def glCreateShader_eq compile_new_stage stage_status Let_def
        glCreateProgram_eq program_status)
qed

lemma detach_attached:
  "gl_programs g p = Some po \<Longrightarrow> gl_shaders g s = Some so \<Longrightarrow> s \<in> set (pr_attached po) \<Longrightarrow>
   \<not> sh_delete_pending so \<Longrightarrow>
   glDetachShader p s g =
     g\<lparr>gl_programs := (gl_programs g)(p \<mapsto> po\<lparr>pr_attached := removeAll s (pr_attached po)\<rparr>)\<rparr>"
  by (simp add: glDetachShader_def Let_def)

lemma delete_unattached:
  "gl_shaders g s = Some so \<Longrightarrow> \<not> attached_anywhere s g \<Longrightarrow>
   glDeleteShader s g = g\<lparr>gl_shaders := (gl_shaders g)(s := None)\<rparr>"
  by (simp add: glDeleteShader_def)

lemma new_program_attached_update [simp]:
  "(new_program att ok msg locs)\<lparr>pr_attached := att'\<rparr> = new_program att' ok msg locs"
  by (simp add: new_program_def)

text \<open>
  In a well-formed context, a program other than \<open>q\<close> has only attached
  shaders with names below the counter, so a shader at or above the original
  counter is attached nowhere once \<open>q\<close> holds no shader.
\<close>

lemma not_attached_fresh:
  assumes wf: "gl_names_wf g" and s: "gl_next g \<le> s"
    and q: "gl_programs g' = (gl_programs g)(q \<mapsto> new_program [] ok msg locs)"
    and n: "gl_next g' = Suc (Suc (Suc (gl_next g)))"
  shows "\<not> attached_anywhere s g'"
proof
  assume "attached_anywhere s g'"
  then obtain p po where p: "gl_programs g' p = Some po" and "s \<in> set (pr_attached po)"
    by (auto simp: attached_anywhere_iff)
  moreover have "p \<noteq> q" using p q calculation(2) by auto
  ultimately have "gl_programs g p = Some po" and "s \<in> set (pr_attached po)" using q by auto
  with wf have "s < gl_next g" unfolding gl_names_wf_def by blast
  with s show False by simp
qed

lemma build_success:
  assumes wf: "gl_names_wf g"
    and v: "drv_compile drv GL_VERTEX_SHADER vs = (True, lv)"
    and f: "drv_compile drv GL_FRAGMENT_SHADER fs = (True, lf)"
    and l: "drv_link drv [new_stage GL_VERTEX_SHADER vs (True, lv),
                          new_stage GL_FRAGMENT_SHADER fs (True, lf)] = (True, ll, locs)"
  shows "CompileShader drv vs fs g =
           (0, Some (Suc (Suc (gl_next g))),
            g\<lparr>gl_next := Suc (Suc (Suc (gl_next g))),
              gl_programs := (gl_programs g)(Suc (Suc (gl_next g)) \<mapsto> new_program [] True ll locs)\<rparr>,
            [])"
proof -
  let ?n = "gl_next g"
  let ?V = "new_stage GL_VERTEX_SHADER vs (True, lv)"
  let ?F = "new_stage GL_FRAGMENT_SHADER fs (True, lf)"
  let ?g4 = "g\<lparr>gl_next := Suc (Suc ?n), gl_shaders := (gl_shaders g)(?n \<mapsto> ?V, Suc ?n \<mapsto> ?F)\<rparr>"
  let ?g5 = "?g4\<lparr>gl_next := Suc (Suc (Suc ?n)),
                  gl_programs := (gl_programs g)(Suc (Suc ?n) \<mapsto> new_program [] False [] [])\<rparr>"
  let ?g6 = "?g4\<lparr>gl_next := Suc (Suc (Suc ?n)),
                  gl_programs := (gl_programs g)(Suc (Suc ?n) \<mapsto> new_program [?n, Suc ?n] True ll locs)\<rparr>"
  let ?g8 = "?g4\<lparr>gl_next := Suc (Suc (Suc ?n)),
                  gl_programs := (gl_programs g)(Suc (Suc ?n) \<mapsto> new_program [] True ll locs)\<rparr>"
  have att: "glAttachShader (Suc (Suc ?n)) (Suc ?n) (glAttachShader (Suc (Suc ?n)) ?n ?g5) =
             ?g4\<lparr>gl_next := Suc (Suc (Suc ?n)),
                  gl_programs := (gl_programs g)(Suc (Suc ?n) \<mapsto> new_program [?n, Suc ?n] False [] [])\<rparr>"
    by (simp add: attach_new new_program_def)
  have link: "glLinkProgram drv (Suc (Suc ?n)) (glAttachShader (Suc (Suc ?n)) (Suc ?n)
                (glAttachShader (Suc (Suc ?n)) ?n ?g5)) = ?g6"
    using l by (simp only: att) (simp add: link_program map_filter_simps)
  have det: "glDetachShader (Suc (Suc ?n)) (Suc ?n) (glDetachShader (Suc (Suc ?n)) ?n ?g6) = ?g8"
    by (simp add: detach_attached)
  have fresh: "gl_shaders g ?n = None" "gl_shaders g (Suc ?n) = None"
    using wf by (simp_all add: gl_names_wf_def)
  have na1: "\<not> attached_anywhere ?n ?g8"
    by (rule not_attached_fresh [OF wf]) simp_all
  have na2: "\<not> attached_anywhere (Suc ?n) (?g8\<lparr>gl_shaders := (gl_shaders ?g8)(?n := None)\<rparr>)"
    by (rule not_attached_fresh [OF wf]) simp_all
  have del: "glDeleteShader (Suc ?n) (glDeleteShader ?n ?g8) =
             g\<lparr>gl_next := Suc (Suc (Suc ?n)),
               gl_programs := (gl_programs g)(Suc (Suc ?n) \<mapsto> new_program [] True ll locs)\<rparr>"
    using na1 na2 fresh by (simp add: delete_unattached fun_upd_idem)
  show ?thesis
    using v f link det del
    by (simp add: CompileShader_def glCreateShader_eq compile_new_stage stage_status Let_def
        glCreateProgram_eq program_status)
qed

text \<open>
  C4. A successful build (both stages compile, the program links) returns 0,
  stores the new program's name, prints nothing, records no error flag, and
  leaves the shader objects of the context exactly as they were: the two
  transient stages are detached and deleted.  The only new object is the
  linked program, with no stage attached.
\<close>

theorem CompileShader_success:
  assumes wf: "gl_names_wf g"
    and v: "drv_compile drv GL_VERTEX_SHADER vs = (True, lv)"
    and f: "drv_compile drv GL_FRAGMENT_SHADER fs = (True, lf)"
    and l: "drv_link drv [new_stage GL_VERTEX_SHADER vs (True, lv),
                          new_stage GL_FRAGMENT_SHADER fs (True, lf)] = (True, ll, locs)"
  shows "CompileShader drv vs fs g =
           (0, Some (Suc (Suc (gl_next g))),
            g\<lparr>gl_next := Suc (Suc (Suc (gl_next g))),
              gl_programs := (gl_programs g)(Suc (Suc (gl_next g)) \<mapsto> new_program [] True ll locs)\<rparr>,
            [])"
  using assms by (rule build_success)

lemma success_wf:
  assumes "gl_names_wf g"
  shows "gl_names_wf (g\<lparr>gl_next := Suc (Suc (Suc (gl_next g))),
              gl_programs := (gl_programs g)(Suc (Suc (gl_next g)) \<mapsto> new_program [] True ll locs)\<rparr>)"
  using assms unfolding gl_names_wf_def
  by (auto simp: less_Suc_eq)

text \<open>
  C18. Building the same valid pair twice yields two distinct linked programs,
  both returned with result 0 and no diagnostic, and leaves the shader table
  and the error flags as they were.
\<close>

theorem CompileShader_twice:
  assumes wf: "gl_names_wf g"
    and v: "drv_compile drv GL_VERTEX_SHADER vs = (True, lv)"
    and f: "drv_compile drv GL_FRAGMENT_SHADER fs = (True, lf)"
    and l: "drv_link drv [new_stage GL_VERTEX_SHADER vs (True, lv),
                          new_stage GL_FRAGMENT_SHADER fs (True, lf)] = (True, ll, locs)"
  shows "case CompileShader drv vs fs g of (r1, h1, g1, e1) \<Rightarrow>
         case CompileShader drv vs fs g1 of (r2, h2, g2, e2) \<Rightarrow>
           r1 = 0 \<and> r2 = 0 \<and> e1 = [] \<and> e2 = [] \<and>
           (\<exists>p1 p2. h1 = Some p1 \<and> h2 = Some p2 \<and> p1 \<noteq> p2 \<and>
              gl_programs g2 p1 = Some (new_program [] True ll locs) \<and>
              gl_programs g2 p2 = Some (new_program [] True ll locs)) \<and>
           gl_shaders g2 = gl_shaders g \<and> gl_errors g2 = gl_errors g"
proof -
  let ?g1 = "g\<lparr>gl_next := Suc (Suc (Suc (gl_next g))),
              gl_programs := (gl_programs g)(Suc (Suc (gl_next g)) \<mapsto> new_program [] True ll locs)\<rparr>"
  have s1: "CompileShader drv vs fs g = (0, Some (Suc (Suc (gl_next g))), ?g1, [])"
    using wf v f l by (rule build_success)
  have "gl_names_wf ?g1" using wf by (rule success_wf)
  then have s2: "CompileShader drv vs fs ?g1 =
           (0, Some (Suc (Suc (gl_next ?g1))),
            ?g1\<lparr>gl_next := Suc (Suc (Suc (gl_next ?g1))),
              gl_programs := (gl_programs ?g1)(Suc (Suc (gl_next ?g1)) \<mapsto> new_program [] True ll locs)\<rparr>,
            [])"
    using v f l by (rule build_success)
  show ?thesis by (simp add: s1 s2)
qed

text \<open>
  C22. Whatever the sources, the driver and the context, \<^verbatim>\<open>CompileShader\<close>
  either returns 0, stores a handle and prints nothing, or returns 1 and
  stores no handle.
\<close>

theorem CompileShader_result_consistent:
  "case CompileShader drv vs fs g of (r, h, g', e) \<Rightarrow>
     (r = 0 \<and> h \<noteq> None \<and> e = []) \<or> (r = 1 \<and> h = None)"
  by (simp add: CompileShader_def Let_def split: prod.split)

subsection \<open>Witnesses\<close>

theorem CompileShader_success_witness:
  "gl_names_wf gl_initial \<and>
   CompileShader accepting_driver CodeVS CodeFS gl_initial =
     (0, Some 3, gl_initial\<lparr>gl_next := 4,
        gl_programs := [3 \<mapsto> new_program [] True [] [(''ModelP'', 0)]]\<rparr>, [])"
proof -
  have wf: "gl_names_wf gl_initial" by (simp add: gl_names_wf_def gl_initial_def)
  have "CompileShader accepting_driver CodeVS CodeFS gl_initial =
     (0, Some (Suc (Suc (gl_next gl_initial))), gl_initial\<lparr>gl_next := Suc (Suc (Suc (gl_next gl_initial))),
        gl_programs := (gl_programs gl_initial)(Suc (Suc (gl_next gl_initial)) \<mapsto>
            new_program [] True [] [(''ModelP'', 0)])\<rparr>, [])"
    by (rule CompileShader_success [OF wf]) (simp_all add: accepting_driver_def)
  then show ?thesis using wf by (simp add: gl_initial_def numeral_eq_Suc)
qed

theorem CompileShader_fragment_failure_witness:
  "drv_compile fragment_rejecting_driver GL_VERTEX_SHADER CodeVS = (True, []) \<and>
   drv_compile fragment_rejecting_driver GL_FRAGMENT_SHADER ''void main() { oops }'' =
     (False, ''0:1(1): error: syntax error'') \<and>
   CompileShader fragment_rejecting_driver CodeVS ''void main() { oops }'' gl_initial =
     (1, None,
      gl_initial\<lparr>gl_next := 3,
        gl_shaders := [1 \<mapsto> new_stage GL_VERTEX_SHADER CodeVS (True, []),
                       2 \<mapsto> new_stage GL_FRAGMENT_SHADER ''void main() { oops }''
                              (False, ''0:1(1): error: syntax error'')]\<rparr>,
      ''0:1(1): error: syntax error'')"
proof -
  have v: "drv_compile fragment_rejecting_driver GL_VERTEX_SHADER CodeVS = (True, [])"
    and f: "drv_compile fragment_rejecting_driver GL_FRAGMENT_SHADER ''void main() { oops }'' =
              (False, ''0:1(1): error: syntax error'')"
    by (simp_all add: fragment_rejecting_driver_def)
  show ?thesis
    using v f CompileShader_fragment_failure [OF v f, of gl_initial]
    by (simp add: gl_initial_def InfoLogBufSize_def numeral_eq_Suc)
qed

theorem CompileShader_twice_witness:
  "case CompileShader accepting_driver CodeVS CodeFS gl_initial of (r1, h1, g1, e1) \<Rightarrow>
   case CompileShader accepting_driver CodeVS CodeFS g1 of (r2, h2, g2, e2) \<Rightarrow>
     r1 = 0 \<and> r2 = 0 \<and> e1 = [] \<and> e2 = [] \<and>
     (\<exists>p1 p2. h1 = Some p1 \<and> h2 = Some p2 \<and> p1 \<noteq> p2 \<and>
        gl_programs g2 p1 = Some (new_program [] True [] [(''ModelP'', 0)]) \<and>
        gl_programs g2 p2 = Some (new_program [] True [] [(''ModelP'', 0)])) \<and>
     gl_shaders g2 = gl_shaders gl_initial \<and> gl_errors g2 = gl_errors gl_initial"
proof (rule CompileShader_twice)
  show "gl_names_wf gl_initial" by (simp add: gl_names_wf_def gl_initial_def)
qed (simp_all add: accepting_driver_def)

theorem CompileShader_link_failure_witness:
  "drv_compile link_rejecting_driver GL_VERTEX_SHADER CodeVS = (True, []) \<and>
   drv_compile link_rejecting_driver GL_FRAGMENT_SHADER CodeFS = (True, []) \<and>
   drv_link link_rejecting_driver [new_stage GL_VERTEX_SHADER CodeVS (True, []),
                                   new_stage GL_FRAGMENT_SHADER CodeFS (True, [])] =
     (False, ''error: no main'', []) \<and>
   CompileShader link_rejecting_driver CodeVS CodeFS gl_initial =
     (1, None,
      gl_initial\<lparr>gl_next := 4,
        gl_shaders := [1 \<mapsto> new_stage GL_VERTEX_SHADER CodeVS (True, []),
                       2 \<mapsto> new_stage GL_FRAGMENT_SHADER CodeFS (True, [])],
        gl_programs := [3 \<mapsto> new_program [1, 2] False ''error: no main'' []]\<rparr>,
      ''error: no main'')"
proof -
  have v: "drv_compile link_rejecting_driver GL_VERTEX_SHADER CodeVS = (True, [])"
    and f: "drv_compile link_rejecting_driver GL_FRAGMENT_SHADER CodeFS = (True, [])"
    and l: "drv_link link_rejecting_driver [new_stage GL_VERTEX_SHADER CodeVS (True, []),
                                   new_stage GL_FRAGMENT_SHADER CodeFS (True, [])] =
              (False, ''error: no main'', [])"
    by (simp_all add: link_rejecting_driver_def)
  show ?thesis
    using v f l CompileShader_link_failure [OF v f l, of gl_initial]
    by (simp add: gl_initial_def InfoLogBufSize_def numeral_eq_Suc)
qed

end
