(* ===== verification/Geometry.thy ===== *)
theory Geometry
  imports GL_Context
begin

text \<open>
  The geometry buffer of \<^verbatim>\<open>src/main.c\<close>: the interleaved vertex data
  \<^verbatim>\<open>MeshData\<close> (lines 97--102, position and colour of four vertices), the
  setup sequence of \<^verbatim>\<open>main\<close> that uploads it and declares the two attributes
  (lines 242--253), and the two shader programs' \<^verbatim>\<open>main\<close> functions read as
  functions on vectors (\<^verbatim>\<open>CodeVS\<close>, \<^verbatim>\<open>CodeFS\<close>).  How a draw call pulls
  vertices from the buffer (\<open>fetch_attrib\<close>, OpenGL 4.1 core, 2.8) is the
  platform's rule.  \<^verbatim>\<open>GLfloat\<close> values are reals.
\<close>

definition MeshData :: "real list" where
  "MeshData =
     [ 0.5,  0.5, 0, 1, 0, 0,
      -0.5,  0.5, 0, 1, 1, 0,
       0.5, -0.5, 0, 0, 0, 1,
      -0.5, -0.5, 0, 0, 1, 0]"

definition sizeof_GLfloat :: nat where
  "sizeof_GLfloat = 4"

text \<open>
  Lines 242--253 of \<^verbatim>\<open>main\<close>; the result is the pair \<^verbatim>\<open>(VAO, VBO)\<close> and
  the context afterwards, with the vertex array still bound.
\<close>

definition setup_geometry :: "gl_ctx \<Rightarrow> (gl_name \<times> gl_name) \<times> gl_ctx" where
  "setup_geometry g0 =
     (case glGenBuffers g0 of (VBO, g1) \<Rightarrow>
      case glGenVertexArrays g1 of (VAO, g2) \<Rightarrow>
        (let g3 = glBindVertexArray VAO g2;
             g4 = glBindBuffer VBO g3;
             g5 = glBufferData MeshData g4;
             g6 = glVertexAttribPointer 0 3 (6 * sizeof_GLfloat) 0 g5;
             g7 = glVertexAttribPointer 1 3 (6 * sizeof_GLfloat) (3 * sizeof_GLfloat) g6;
             g8 = glEnableVertexAttribArray 0 g7;
             g9 = glEnableVertexAttribArray 1 g8;
             g10 = glBindBuffer 0 g9
         in ((VAO, VBO), g10)))"

text \<open>
  Vertex pulling: attribute \<open>i\<close> of vertex \<open>k\<close> is read from the attribute's
  buffer at byte offset \<open>offset + k * stride\<close>; a read past the end of the
  buffer, a disabled or undeclared attribute, yields nothing.
\<close>

text \<open>The vertex array \<^verbatim>\<open>main\<close> declares, over the vertex buffer \<open>vbo\<close>.\<close>

definition mesh_vao :: "gl_name \<Rightarrow> vao_obj" where
  "mesh_vao vbo =
     \<lparr>va_attribs = [0 \<mapsto> \<lparr>ap_size = 3, ap_stride = 24, ap_offset = 0, ap_buffer = vbo\<rparr>,
                    1 \<mapsto> \<lparr>ap_size = 3, ap_stride = 24, ap_offset = 12, ap_buffer = vbo\<rparr>],
      va_enabled = {0, 1}\<rparr>"

definition fetch_attrib :: "gl_ctx \<Rightarrow> vao_obj \<Rightarrow> nat \<Rightarrow> nat \<Rightarrow> real list option" where
  "fetch_attrib g va i k =
     (case va_attribs va i of
        None \<Rightarrow> None
      | Some ap \<Rightarrow>
          (case gl_buffers g (ap_buffer ap) of
             None \<Rightarrow> None
           | Some d \<Rightarrow>
               (let start = (ap_offset ap + k * ap_stride ap) div sizeof_GLfloat
                in if i \<in> va_enabled va \<and> start + ap_size ap \<le> length d
                   then Some (take (ap_size ap) (drop start d)) else None)))"

type_synonym vec4 = "real \<times> real \<times> real \<times> real"

text \<open>
  \<^verbatim>\<open>main\<close> of \<^verbatim>\<open>CodeVS\<close>: \<^verbatim>\<open>FragP = P + vec3(ModelP, 0.0f)\<close>,
  \<^verbatim>\<open>FragC = C\<close>, \<^verbatim>\<open>gl_Position = vec4(FragP, 1.0)\<close>.  The result is the
  clip position and the colour passed on.
\<close>

definition vs_main :: "real list \<Rightarrow> real list \<Rightarrow> real \<times> real \<Rightarrow> vec4 \<times> real list" where
  "vs_main P C ModelP =
     (let FragP = [P ! 0 + fst ModelP, P ! 1 + snd ModelP, P ! 2 + 0]
      in ((FragP ! 0, FragP ! 1, FragP ! 2, 1), C))"

text \<open>\<^verbatim>\<open>main\<close> of \<^verbatim>\<open>CodeFS\<close>: \<^verbatim>\<open>Result = vec4(FragC, 1.0)\<close>.\<close>

definition fs_main :: "real list \<Rightarrow> vec4" where
  "fs_main FragC = (FragC ! 0, FragC ! 1, FragC ! 2, 1)"

text \<open>
  The vertices a draw of \<open>count\<close> vertices from \<open>first\<close> feeds to the vertex
  shader, with the value of the uniform \<^verbatim>\<open>ModelP\<close> (0 when never set).
\<close>

definition shade_vertices ::
  "gl_ctx \<Rightarrow> vao_obj \<Rightarrow> nat \<Rightarrow> nat \<Rightarrow> real \<times> real \<Rightarrow> (vec4 \<times> real list) list option" where
  "shade_vertices g va first cnt m =
     those (map (\<lambda>k. case (fetch_attrib g va 0 k, fetch_attrib g va 1 k) of
                       (Some P, Some C) \<Rightarrow> Some (vs_main P C m)
                     | _ \<Rightarrow> None) [first..<first + cnt])"

text \<open>
  Triangle \<open>i\<close> of a strip: vertices \<open>i, i+1, i+2\<close>, the first two swapped for
  odd \<open>i\<close> so that all triangles of the strip keep one orientation.
\<close>

subsection \<open>The setup sequence\<close>

lemma gl_ops_ok:
  "gl_vaos g v = Some va \<Longrightarrow> glBindVertexArray v g = g\<lparr>gl_bound_vao := v\<rparr>"
  "gl_buffers g b = Some d \<Longrightarrow> glBindBuffer b g = g\<lparr>gl_array_buffer := b\<rparr>"
  "glBindBuffer 0 g = g\<lparr>gl_array_buffer := 0\<rparr>"
  "gl_array_buffer g \<noteq> 0 \<Longrightarrow> glBufferData dt g = g\<lparr>gl_buffers := (gl_buffers g)(gl_array_buffer g \<mapsto> dt)\<rparr>"
  "gl_array_buffer g \<noteq> 0 \<Longrightarrow> gl_vaos g (gl_bound_vao g) = Some va \<Longrightarrow>
   glVertexAttribPointer i sz st off g =
     g\<lparr>gl_vaos := (gl_vaos g)(gl_bound_vao g \<mapsto> va\<lparr>va_attribs := (va_attribs va)(i \<mapsto>
        \<lparr>ap_size = sz, ap_stride = st, ap_offset = off, ap_buffer = gl_array_buffer g\<rparr>)\<rparr>)\<rparr>"
  "gl_vaos g (gl_bound_vao g) = Some va \<Longrightarrow>
   glEnableVertexAttribArray i g =
     g\<lparr>gl_vaos := (gl_vaos g)(gl_bound_vao g \<mapsto> va\<lparr>va_enabled := insert i (va_enabled va)\<rparr>)\<rparr>"
  by (simp_all add: glBindVertexArray_def glBindBuffer_def glBufferData_def
      glVertexAttribPointer_def glEnableVertexAttribArray_def update_vao_def)

lemma setup_geometry_eq:
  "0 < gl_next g0 \<Longrightarrow>
   setup_geometry g0 =
     ((Suc (gl_next g0), gl_next g0),
      g0\<lparr>gl_next := Suc (Suc (gl_next g0)),
         gl_buffers := (gl_buffers g0)(gl_next g0 \<mapsto> MeshData),
         gl_vaos := (gl_vaos g0)(Suc (gl_next g0) \<mapsto> mesh_vao (gl_next g0)),
         gl_bound_vao := Suc (gl_next g0), gl_array_buffer := 0\<rparr>)"
  by (simp add: setup_geometry_def glGenBuffers_def glGenVertexArrays_def gl_alloc_def
     gl_ops_ok sizeof_GLfloat_def mesh_vao_def insert_commute)
lemma length_MeshData [simp]: "length MeshData = 24" by (simp add: MeshData_def)
text \<open>
  Attribute 0 of vertex \<open>k\<close> is the position at floats \<open>6k .. 6k+2\<close>,
  attribute 1 the colour at \<open>6k+3 .. 6k+5\<close>, for the four vertices and no
  more: stride \<^verbatim>\<open>6*sizeof(GLfloat)\<close> and offset \<^verbatim>\<open>3*sizeof(GLfloat)\<close> split
  each vertex exactly.
\<close>

lemma mesh_fetch:
  assumes "gl_buffers g vbo = Some MeshData"
  shows "fetch_attrib g (mesh_vao vbo) 0 k = (if k < 4 then Some (take 3 (drop (6 * k) MeshData)) else None)"
    and "fetch_attrib g (mesh_vao vbo) 1 k = (if k < 4 then Some (take 3 (drop (6 * k + 3) MeshData)) else None)"
  using assms by (simp_all add: fetch_attrib_def mesh_vao_def sizeof_GLfloat_def Let_def add.commute)

text \<open>
  C19. The vertex shader run on the four vertices the draw reads puts the quad's
  corners at \<open>ModelP \<pm> (0.5, 0.5)\<close>, each with its colour; a draw of a fifth
  vertex would read past the buffer.
\<close>

theorem shade_quad:
  assumes "gl_buffers g vbo = Some MeshData"
  shows "shade_vertices g (mesh_vao vbo) 0 4 (mx, my) =
           Some [((mx + 0.5, my + 0.5, 0, 1), [1, 0, 0]), ((mx - 0.5, my + 0.5, 0, 1), [1, 1, 0]),
                 ((mx + 0.5, my - 0.5, 0, 1), [0, 0, 1]), ((mx - 0.5, my - 0.5, 0, 1), [0, 1, 0])] \<and>
         shade_vertices g (mesh_vao vbo) 0 5 (mx, my) = None"
proof -
  have f0: "\<And>k. fetch_attrib g (mesh_vao vbo) 0 k =
              (if k < 4 then Some (take 3 (drop (6 * k) MeshData)) else None)"
    and f1: "\<And>k. fetch_attrib g (mesh_vao vbo) (Suc 0) k =
              (if k < 4 then Some (take 3 (drop (6 * k + 3) MeshData)) else None)"
    using mesh_fetch [OF assms] by simp_all
  have four: "shade_vertices g (mesh_vao vbo) 0 4 (mx, my) =
           Some [((mx + 0.5, my + 0.5, 0, 1), [1, 0, 0]), ((mx - 0.5, my + 0.5, 0, 1), [1, 1, 0]),
                 ((mx + 0.5, my - 0.5, 0, 1), [0, 0, 1]), ((mx - 0.5, my - 0.5, 0, 1), [0, 1, 0])]"
    by (simp add: shade_vertices_def f0 f1 numeral_eq_Suc upt_rec vs_main_def MeshData_def)
  have five: "shade_vertices g (mesh_vao vbo) 0 5 (mx, my) = None"
    by (simp add: shade_vertices_def f0 f1 numeral_eq_Suc upt_rec vs_main_def)
  show ?thesis using four five by (rule conjI)
qed

text \<open>
  C11. After the setup sequence of \<^verbatim>\<open>main\<close> the vertex array holds the layout
  of \<^verbatim>\<open>MeshData\<close>: the buffer holds the 24 floats, attribute 0 reads the
  position and attribute 1 the colour of each of the four vertices, and no
  read goes past the buffer.
\<close>

theorem setup_geometry_layout:
  assumes "0 < gl_next g0"
  shows "case setup_geometry g0 of ((VAO, VBO), g) \<Rightarrow>
           gl_vaos g VAO = Some (mesh_vao VBO) \<and> gl_buffers g VBO = Some MeshData \<and>
           gl_bound_vao g = VAO \<and> gl_array_buffer g = 0 \<and> gl_errors g = gl_errors g0 \<and>
           (\<forall>k. fetch_attrib g (mesh_vao VBO) 0 k =
                  (if k < 4 then Some (take 3 (drop (6 * k) MeshData)) else None)) \<and>
           (\<forall>k. fetch_attrib g (mesh_vao VBO) 1 k =
                  (if k < 4 then Some (take 3 (drop (6 * k + 3) MeshData)) else None))"
proof -
  let ?g = "g0\<lparr>gl_next := Suc (Suc (gl_next g0)),
               gl_buffers := (gl_buffers g0)(gl_next g0 \<mapsto> MeshData),
               gl_vaos := (gl_vaos g0)(Suc (gl_next g0) \<mapsto> mesh_vao (gl_next g0)),
               gl_bound_vao := Suc (gl_next g0), gl_array_buffer := 0\<rparr>"
  have b: "gl_buffers ?g (gl_next g0) = Some MeshData" by simp
  show ?thesis
    using mesh_fetch [OF b] by (simp add: setup_geometry_eq [OF assms])
qed

subsection \<open>Witnesses\<close>

theorem setup_geometry_layout_witness:
  "0 < gl_next gl_initial \<and>
   (case setup_geometry gl_initial of ((VAO, VBO), g) \<Rightarrow>
      gl_vaos g VAO = Some (mesh_vao VBO) \<and> gl_buffers g VBO = Some MeshData \<and>
      gl_bound_vao g = VAO \<and> gl_array_buffer g = 0 \<and> gl_errors g = gl_errors gl_initial \<and>
      (\<forall>k. fetch_attrib g (mesh_vao VBO) 0 k =
             (if k < 4 then Some (take 3 (drop (6 * k) MeshData)) else None)) \<and>
      (\<forall>k. fetch_attrib g (mesh_vao VBO) 1 k =
             (if k < 4 then Some (take 3 (drop (6 * k + 3) MeshData)) else None)))"
proof -
  have h: "0 < gl_next gl_initial" by (simp add: gl_initial_def)
  show ?thesis using h setup_geometry_layout [OF h] by simp
qed

theorem shade_quad_witness:
  "gl_buffers (snd (setup_geometry gl_initial)) 1 = Some MeshData \<and>
   shade_vertices (snd (setup_geometry gl_initial)) (mesh_vao 1) 0 4 (0, 0) =
     Some [((0.5, 0.5, 0, 1), [1, 0, 0]), ((- 0.5, 0.5, 0, 1), [1, 1, 0]),
           ((0.5, - 0.5, 0, 1), [0, 0, 1]), ((- 0.5, - 0.5, 0, 1), [0, 1, 0])]"
proof -
  have h: "gl_buffers (snd (setup_geometry gl_initial)) 1 = Some MeshData"
    by (simp add: setup_geometry_eq gl_initial_def)
  show ?thesis using h shade_quad [OF h, of 0 0] by simp
qed

end
