(* ===== verification/Frame_Loop.thy ===== *)
theory Frame_Loop
  imports Geometry Shader_Build
begin

text \<open>
  The frame loop of \<^verbatim>\<open>main\<close> (\<^verbatim>\<open>src/main.c\<close> lines 257--291) and the
  \<^verbatim>\<open>glCheck\<close> macro (line 95).  The interaction state of the loop is the
  record \<open>loop_state\<close>: the flag \<^verbatim>\<open>Running\<close> and the array
  \<^verbatim>\<open>ModelPosition\<close>.  SDL's event queue is seen as batches: the events
  pending when an iteration starts polling are drained by the inner
  \<^verbatim>\<open>while (SDL_PollEvent(&Event))\<close> loop (\<open>poll_events\<close>), so a run of the
  loop consumes a list of batches, one per iteration (\<open>main_loop\<close>); when the
  list ends the loop has not been observed further.  The observable world of
  a frame is the GL context and the text on \<^verbatim>\<open>stderr\<close>.
\<close>

datatype sdl_event = SDL_QUIT | SDL_MOUSEBUTTONDOWN int int | SDL_OTHER nat

record loop_state =
  Running :: bool
  ModelPosition :: "real \<times> real"

definition WindowWidth :: int where
  "WindowWidth = 192 * 6"

definition WindowHeight :: int where
  "WindowHeight = 108 * 6"

text \<open>
  The \<^verbatim>\<open>switch\<close> of the event loop: quitting clears \<^verbatim>\<open>Running\<close>, a mouse
  press maps the pixel to normalised device coordinates, other events are
  ignored.
\<close>

definition handle_event :: "loop_state \<Rightarrow> sdl_event \<Rightarrow> loop_state" where
  "handle_event s e =
     (case e of
        SDL_QUIT \<Rightarrow> s\<lparr>Running := False\<rparr>
      | SDL_MOUSEBUTTONDOWN x y \<Rightarrow>
          s\<lparr>ModelPosition := ((2 * of_int x) / of_int WindowWidth - 1,
                              (- 2 * of_int y) / of_int WindowHeight + 1)\<rparr>
      | SDL_OTHER _ \<Rightarrow> s)"

definition poll_events :: "loop_state \<Rightarrow> sdl_event list \<Rightarrow> loop_state" where
  "poll_events s es = fold (\<lambda>e s. handle_event s e) es s"

record world =
  w_gl :: gl_ctx
  w_stderr :: string

text \<open>\<^verbatim>\<open>glCheck(X)\<close>: run \<^verbatim>\<open>X\<close>, then \<^verbatim>\<open>CheckOpenGL(#X)\<close> on the context.\<close>

definition glCheck :: "string \<Rightarrow> (gl_ctx \<Rightarrow> gl_ctx) \<Rightarrow> world \<Rightarrow> world" where
  "glCheck CallStr X w =
     (case CheckOpenGL CallStr (gl_errors (X (w_gl w))) of
        (out, q) \<Rightarrow> \<lparr>w_gl = (X (w_gl w))\<lparr>gl_errors := q\<rparr>, w_stderr = w_stderr w @ out\<rparr>)"

definition uniform_call :: string where
  "uniform_call =
     ''glUniform2fv(glGetUniformLocation(Shader, '' @ [CHR 0x22] @ ''ModelP'' @ [CHR 0x22] @
     ''), 1, ModelPosition)''"

definition set_model_uniform :: "gl_name \<Rightarrow> real \<times> real \<Rightarrow> gl_ctx \<Rightarrow> gl_ctx" where
  "set_model_uniform Shader m g =
     (case glGetUniformLocation Shader ''ModelP'' g of (loc, g') \<Rightarrow> glUniform2fv loc m g')"

text \<open>One frame: lines 278--290.\<close>

definition render_frame :: "gl_name \<Rightarrow> gl_name \<Rightarrow> loop_state \<Rightarrow> world \<Rightarrow> world" where
  "render_frame Shader VAO s w =
     (let w1 = w\<lparr>w_gl := glClearColor 1 1 1 1 (w_gl w)\<rparr>;
          w2 = glCheck ''glClear(GL_COLOR_BUFFER_BIT)'' glClear w1;
          w3 = glCheck ''glUseProgram(Shader)'' (glUseProgram Shader) w2;
          w4 = glCheck uniform_call (set_model_uniform Shader (ModelPosition s)) w3;
          w5 = glCheck ''glBindVertexArray(VAO)'' (glBindVertexArray VAO) w4;
          w6 = glCheck ''glDrawArrays(GL_TRIANGLE_STRIP, 0, 4)'' (glDrawArrays GL_TRIANGLE_STRIP 0 4) w5;
          w7 = glCheck ''glBindVertexArray(0)'' (glBindVertexArray 0) w6;
          w8 = glCheck ''glUseProgram(0)'' (glUseProgram 0) w7
      in w8\<lparr>w_gl := SDL_GL_SwapWindow (w_gl w8)\<rparr>)"

text \<open>
  \<^verbatim>\<open>while (Running) { drain; render; swap }\<close>, one batch of events per
  iteration.
\<close>

fun main_loop ::
  "gl_name \<Rightarrow> gl_name \<Rightarrow> loop_state \<Rightarrow> world \<Rightarrow> sdl_event list list \<Rightarrow> loop_state \<times> world" where
  "main_loop Shader VAO s w [] = (s, w)"
| "main_loop Shader VAO s w (b # bs) =
     (if Running s
      then (let s' = poll_events s b in main_loop Shader VAO s' (render_frame Shader VAO s' w) bs)
      else (s, w))"

text \<open>
  The abstract interaction machine: the loop state after a run depends on the
  events alone.
\<close>

fun event_run :: "loop_state \<Rightarrow> sdl_event list list \<Rightarrow> loop_state" where
  "event_run s [] = s"
| "event_run s (b # bs) = (if Running s then event_run (poll_events s b) bs else s)"

definition ndc :: "int \<Rightarrow> int \<Rightarrow> real \<times> real" where
  "ndc x y = (2 * of_int x / of_int WindowWidth - 1, - 2 * of_int y / of_int WindowHeight + 1)"

text \<open>
  A context in which a frame can draw: no pending error, \<open>Shader\<close> a linked
  program with a location for \<^verbatim>\<open>ModelP\<close>, \<open>VAO\<close> a vertex array.
\<close>

definition frame_ready :: "gl_name \<Rightarrow> gl_name \<Rightarrow> gl_ctx \<Rightarrow> bool" where
  "frame_ready Shader VAO g \<longleftrightarrow>
     gl_errors g = [] \<and> Shader \<noteq> 0 \<and> VAO \<noteq> 0 \<and> gl_vaos g VAO \<noteq> None \<and>
     (case gl_programs g Shader of
        None \<Rightarrow> False
      | Some po \<Rightarrow> pr_linked po \<and> 0 \<le> location_of (pr_locations po) ''ModelP'')"

text \<open>The interaction state each iteration hands to its frame.\<close>

fun frame_positions :: "loop_state \<Rightarrow> sdl_event list list \<Rightarrow> (real \<times> real) list" where
  "frame_positions s [] = []"
| "frame_positions s (b # bs) =
     (if Running s then ModelPosition (poll_events s b) # frame_positions (poll_events s b) bs
      else [])"

definition drawn_frame :: "gl_name \<Rightarrow> gl_name \<Rightarrow> (int \<Rightarrow> (real \<times> real) option) \<Rightarrow> framebuffer" where
  "drawn_frame Shader VAO u =
     \<lparr>fb_clear = (1, 1, 1, 1),
      fb_draws = [\<lparr>dc_program = Shader, dc_vao = VAO, dc_mode = GL_TRIANGLE_STRIP,
                    dc_first = 0, dc_count = 4, dc_uniforms = u\<rparr>]\<rparr>"

text \<open>
  The context \<^verbatim>\<open>main\<close> reaches before its loop when the driver accepts the
  shaders: program 3, vertex buffer 4, vertex array 5.
\<close>

definition demo_ctx :: gl_ctx where
  "demo_ctx =
     gl_initial\<lparr>gl_next := 6,
       gl_programs := [3 \<mapsto> new_program [] True [] [(''ModelP'', 0)]],
       gl_buffers := [4 \<mapsto> MeshData], gl_vaos := [5 \<mapsto> mesh_vao 4], gl_bound_vao := 5\<rparr>"

definition demo_state :: loop_state where
  "demo_state = \<lparr>Running = True, ModelPosition = (0, 0)\<rparr>"

lemma CheckOpenGL_Nil [simp]: "CheckOpenGL CallStr [] = ([], [])"
  by (simp add: CheckOpenGL_def glGetError_def)

lemma glCheck_quiet:
  "gl_errors (X (w_gl w)) = [] \<Longrightarrow> glCheck CallStr X w = w\<lparr>w_gl := X (w_gl w)\<rparr>"
  by (cases w) (simp add: glCheck_def)

lemma glCheck_drains:
  assumes "flags_wf (gl_errors (X (w_gl w)))"
  shows "glCheck CallStr X w =
           \<lparr>w_gl = (X (w_gl w))\<lparr>gl_errors := []\<rparr>,
            w_stderr = w_stderr w @ fst (CheckOpenGL CallStr (gl_errors (X (w_gl w))))\<rparr>"
  using CheckOpenGL_drains [OF assms, of CallStr] by (simp add: glCheck_def)

lemma set_model_uniform_keeps [keeps_flags]:
  "flags_wf (gl_errors g) \<Longrightarrow> flags_wf (gl_errors (set_model_uniform Shader m g))"
proof -
  assume wf: "flags_wf (gl_errors g)"
  obtain loc g' where u: "glGetUniformLocation Shader ''ModelP'' g = (loc, g')" by fastforce
  have "flags_wf (gl_errors g')" using frame_ops_keep(7) [OF wf, of Shader "''ModelP''"] u by simp
  then show ?thesis using u by (simp add: set_model_uniform_def frame_ops_keep)
qed

lemma set_model_uniform_presented [simp]:
  "gl_presented (set_model_uniform Shader m g) = gl_presented g"
proof -
  obtain loc g' where u: "glGetUniformLocation Shader ''ModelP'' g = (loc, g')" by fastforce
  have "gl_presented g' = gl_presented g" using frame_ops_presented(6) [of Shader "''ModelP''" g] u by simp
  then show ?thesis using u by (simp add: set_model_uniform_def)
qed

lemma glCheck_step:
  assumes "flags_wf (gl_errors (w_gl w))"
    and "\<And>g. flags_wf (gl_errors g) \<Longrightarrow> flags_wf (gl_errors (X g))"
    and "\<And>g. gl_presented (X g) = gl_presented g"
  shows "gl_errors (w_gl (glCheck CallStr X w)) = [] \<and>
         gl_presented (w_gl (glCheck CallStr X w)) = gl_presented (w_gl w) \<and>
         (\<exists>out. w_stderr (glCheck CallStr X w) = w_stderr w @ out)"
  using glCheck_drains [of X w CallStr, OF assms(2) [OF assms(1)]] assms(3) by simp

lemma render_frame_drains:
  assumes wf: "flags_wf (gl_errors (w_gl w))"
  shows "gl_errors (w_gl (render_frame Shader VAO s w)) = [] \<and>
         (\<exists>fb. gl_presented (w_gl (render_frame Shader VAO s w)) = gl_presented (w_gl w) @ [fb]) \<and>
         (\<exists>out. w_stderr (render_frame Shader VAO s w) = w_stderr w @ out)"
proof -
  define w1 where "w1 = w\<lparr>w_gl := glClearColor 1 1 1 1 (w_gl w)\<rparr>"
  define w2 where "w2 = glCheck ''glClear(GL_COLOR_BUFFER_BIT)'' glClear w1"
  define w3 where "w3 = glCheck ''glUseProgram(Shader)'' (glUseProgram Shader) w2"
  define w4 where "w4 = glCheck uniform_call (set_model_uniform Shader (ModelPosition s)) w3"
  define w5 where "w5 = glCheck ''glBindVertexArray(VAO)'' (glBindVertexArray VAO) w4"
  define w6 where "w6 = glCheck ''glDrawArrays(GL_TRIANGLE_STRIP, 0, 4)'' (glDrawArrays GL_TRIANGLE_STRIP 0 4) w5"
  define w7 where "w7 = glCheck ''glBindVertexArray(0)'' (glBindVertexArray 0) w6"
  define w8 where "w8 = glCheck ''glUseProgram(0)'' (glUseProgram 0) w7"
  have r: "render_frame Shader VAO s w = w8\<lparr>w_gl := SDL_GL_SwapWindow (w_gl w8)\<rparr>"
    unfolding render_frame_def Let_def w8_def w7_def w6_def w5_def w4_def w3_def w2_def w1_def ..
  have s1: "flags_wf (gl_errors (w_gl w1))" "gl_presented (w_gl w1) = gl_presented (w_gl w)"
    "w_stderr w1 = w_stderr w"
    using wf by (simp_all add: w1_def glClearColor_def)
  have s2: "gl_errors (w_gl w2) = [] \<and> gl_presented (w_gl w2) = gl_presented (w_gl w1) \<and>
            (\<exists>out. w_stderr w2 = w_stderr w1 @ out)"
    unfolding w2_def by (rule glCheck_step) (simp_all add: s1 keeps_flags)
  have s3: "gl_errors (w_gl w3) = [] \<and> gl_presented (w_gl w3) = gl_presented (w_gl w2) \<and>
            (\<exists>out. w_stderr w3 = w_stderr w2 @ out)"
    unfolding w3_def by (rule glCheck_step) (simp_all add: s2 keeps_flags)
  have s4: "gl_errors (w_gl w4) = [] \<and> gl_presented (w_gl w4) = gl_presented (w_gl w3) \<and>
            (\<exists>out. w_stderr w4 = w_stderr w3 @ out)"
    unfolding w4_def by (rule glCheck_step) (simp_all add: s3 keeps_flags)
  have s5: "gl_errors (w_gl w5) = [] \<and> gl_presented (w_gl w5) = gl_presented (w_gl w4) \<and>
            (\<exists>out. w_stderr w5 = w_stderr w4 @ out)"
    unfolding w5_def by (rule glCheck_step) (simp_all add: s4 keeps_flags)
  have s6: "gl_errors (w_gl w6) = [] \<and> gl_presented (w_gl w6) = gl_presented (w_gl w5) \<and>
            (\<exists>out. w_stderr w6 = w_stderr w5 @ out)"
    unfolding w6_def by (rule glCheck_step) (simp_all add: s5 keeps_flags)
  have s7: "gl_errors (w_gl w7) = [] \<and> gl_presented (w_gl w7) = gl_presented (w_gl w6) \<and>
            (\<exists>out. w_stderr w7 = w_stderr w6 @ out)"
    unfolding w7_def by (rule glCheck_step) (simp_all add: s6 keeps_flags)
  have s8: "gl_errors (w_gl w8) = [] \<and> gl_presented (w_gl w8) = gl_presented (w_gl w7) \<and>
            (\<exists>out. w_stderr w8 = w_stderr w7 @ out)"
    unfolding w8_def by (rule glCheck_step) (simp_all add: s7 keeps_flags)
  have "\<exists>out. w_stderr w8 = w_stderr w @ out"
    using s1(3) s2 s3 s4 s5 s6 s7 s8 by (metis append.assoc)
  then show ?thesis
    using r s1(2) s2 s3 s4 s5 s6 s7 s8 by (simp add: SDL_GL_SwapWindow_def)
qed

lemma main_loop_drains:
  assumes "flags_wf (gl_errors (w_gl w))"
  shows "flags_wf (gl_errors (w_gl (snd (main_loop Shader VAO s w bs)))) \<and>
         length (gl_presented (w_gl (snd (main_loop Shader VAO s w bs)))) =
           length (gl_presented (w_gl w)) + length (frame_positions s bs)"
  using assms
proof (induction bs arbitrary: s w)
  case Nil
  then show ?case by simp
next
  case (Cons b bs)
  let ?s' = "poll_events s b"
  let ?w' = "render_frame Shader VAO ?s' w"
  have r: "gl_errors (w_gl ?w') = []" and p: "length (gl_presented (w_gl ?w')) = Suc (length (gl_presented (w_gl w)))"
    using render_frame_drains [OF Cons.prems, of Shader VAO ?s'] by auto
  have "flags_wf (gl_errors (w_gl ?w'))" using r by simp
  note ih = Cons.IH [OF this, of ?s']
  show ?case
    by (cases "Running s") (use ih p Cons.prems in \<open>simp_all add: Let_def\<close>)
qed

lemma render_frame_ready:
  assumes ready: "frame_ready Shader VAO g"
    and po: "gl_programs g Shader = Some po"
  shows "render_frame Shader VAO s \<lparr>w_gl = g, w_stderr = e\<rparr> =
           \<lparr>w_gl = g\<lparr>gl_clear_color := (1, 1, 1, 1),
                      gl_fb := drawn_frame Shader VAO ((pr_uniform2 po)(location_of (pr_locations po) ''ModelP'' \<mapsto> ModelPosition s)),
                      gl_current_program := 0,
                      gl_programs := (gl_programs g)(Shader \<mapsto>
                         po\<lparr>pr_uniform2 := (pr_uniform2 po)(location_of (pr_locations po) ''ModelP'' \<mapsto> ModelPosition s)\<rparr>),
                      gl_bound_vao := 0,
                      gl_presented := gl_presented g @
                        [drawn_frame Shader VAO ((pr_uniform2 po)(location_of (pr_locations po) ''ModelP'' \<mapsto> ModelPosition s))]\<rparr>,
            w_stderr = e\<rparr>"
proof -
  from ready po have lk: "pr_linked po" and loc: "0 \<le> location_of (pr_locations po) ''ModelP''"
    and nz: "Shader \<noteq> 0" "VAO \<noteq> 0" and err: "gl_errors g = []"
    by (auto simp: frame_ready_def)
  from ready obtain va where va: "gl_vaos g VAO = Some va" by (auto simp: frame_ready_def)
  let ?u = "(pr_uniform2 po)(location_of (pr_locations po) ''ModelP'' \<mapsto> ModelPosition s)"
  let ?po' = "po\<lparr>pr_uniform2 := ?u\<rparr>"
  let ?g1 = "g\<lparr>gl_clear_color := (1, 1, 1, 1)\<rparr>"
  let ?g2 = "?g1\<lparr>gl_fb := \<lparr>fb_clear = (1, 1, 1, 1), fb_draws = []\<rparr>\<rparr>"
  let ?g3 = "?g2\<lparr>gl_current_program := Shader\<rparr>"
  let ?g4 = "?g3\<lparr>gl_programs := (gl_programs g)(Shader \<mapsto> ?po')\<rparr>"
  let ?g5 = "?g4\<lparr>gl_bound_vao := VAO\<rparr>"
  let ?g6 = "?g5\<lparr>gl_fb := drawn_frame Shader VAO ?u\<rparr>"
  have s2: "glClear ?g1 = ?g2" by (simp add: glClear_def)
  have s3: "glUseProgram Shader ?g2 = ?g3"
    using po lk nz by (simp add: glUseProgram_def)
  have s4: "set_model_uniform Shader (ModelPosition s) ?g3 = ?g4"
    using po lk loc location_of_active [OF loc]
    by (simp add: set_model_uniform_def glGetUniformLocation_def glUniform2fv_def)
  have s5: "glBindVertexArray VAO ?g4 = ?g5"
    using va by (simp add: glBindVertexArray_def)
  have s6: "glDrawArrays GL_TRIANGLE_STRIP 0 4 ?g5 = ?g6"
    using nz by (simp add: glDrawArrays_def drawn_frame_def Let_def)
  show ?thesis
    using err s2 s3 s4 s5 s6
    by (simp add: render_frame_def Let_def glCheck_quiet glClearColor_def glBindVertexArray_def
        glUseProgram_def SDL_GL_SwapWindow_def)
qed


lemma main_loop_fst: "fst (main_loop Shader VAO s w bs) = event_run s bs"
  by (induction bs arbitrary: s w) (simp_all add: Let_def)

lemma poll_events_running: "Running (poll_events s b) \<longleftrightarrow> Running s \<and> SDL_QUIT \<notin> set b"
  by (induction b arbitrary: s) (auto simp: poll_events_def handle_event_def split: sdl_event.splits)

lemma event_run_running: "Running (event_run s bs) \<longleftrightarrow> Running s \<and> SDL_QUIT \<notin> set (concat bs)"
  by (induction bs arbitrary: s) (auto simp: poll_events_running)

lemma main_loop_frames:
  assumes "frame_ready Shader VAO g" and "gl_programs g Shader = Some po"
  shows "\<exists>g'. main_loop Shader VAO s \<lparr>w_gl = g, w_stderr = e\<rparr> bs =
                (event_run s bs, \<lparr>w_gl = g', w_stderr = e\<rparr>) \<and>
              frame_ready Shader VAO g' \<and>
              gl_presented g' = gl_presented g @
                map (\<lambda>m. drawn_frame Shader VAO ((pr_uniform2 po)(location_of (pr_locations po) ''ModelP'' \<mapsto> m)))
                    (frame_positions s bs) \<and>
              gl_buffers g' = gl_buffers g \<and> gl_vaos g' = gl_vaos g \<and> gl_shaders g' = gl_shaders g"
  using assms
proof (induction bs arbitrary: s g po)
  case Nil
  then show ?case by simp
next
  case (Cons b bs)
  show ?case
  proof (cases "Running s")
    case False
    with Cons.prems show ?thesis by simp
  next
    case True
    let ?s' = "poll_events s b"
    let ?u = "(pr_uniform2 po)(location_of (pr_locations po) ''ModelP'' \<mapsto> ModelPosition ?s')"
    let ?po' = "po\<lparr>pr_uniform2 := ?u\<rparr>"
    let ?g1 = "g\<lparr>gl_clear_color := (1, 1, 1, 1), gl_fb := drawn_frame Shader VAO ?u,
                 gl_current_program := 0, gl_programs := (gl_programs g)(Shader \<mapsto> ?po'),
                 gl_bound_vao := 0, gl_presented := gl_presented g @ [drawn_frame Shader VAO ?u]\<rparr>"
    have r: "render_frame Shader VAO ?s' \<lparr>w_gl = g, w_stderr = e\<rparr> = \<lparr>w_gl = ?g1, w_stderr = e\<rparr>"
      using Cons.prems by (rule render_frame_ready)
    have ready1: "frame_ready Shader VAO ?g1" using Cons.prems by (auto simp: frame_ready_def)
    have po1: "gl_programs ?g1 Shader = Some ?po'" by simp
    obtain g' where
      run: "main_loop Shader VAO ?s' \<lparr>w_gl = ?g1, w_stderr = e\<rparr> bs = (event_run ?s' bs, \<lparr>w_gl = g', w_stderr = e\<rparr>)"
      and rd: "frame_ready Shader VAO g'"
      and pr: "gl_presented g' = gl_presented ?g1 @
                map (\<lambda>m. drawn_frame Shader VAO ((pr_uniform2 ?po')(location_of (pr_locations ?po') ''ModelP'' \<mapsto> m)))
                    (frame_positions ?s' bs)"
      and fr: "gl_buffers g' = gl_buffers ?g1" "gl_vaos g' = gl_vaos ?g1" "gl_shaders g' = gl_shaders ?g1"
      using Cons.IH [OF ready1 po1] by blast
    have eqm: "\<And>m. (pr_uniform2 ?po')(location_of (pr_locations ?po') ''ModelP'' \<mapsto> m) =
                      (pr_uniform2 po)(location_of (pr_locations po) ''ModelP'' \<mapsto> m)"
      by simp
    have pr': "gl_presented g' = gl_presented g @ [drawn_frame Shader VAO ?u] @
                map (\<lambda>m. drawn_frame Shader VAO ((pr_uniform2 po)(location_of (pr_locations po) ''ModelP'' \<mapsto> m)))
                    (frame_positions ?s' bs)"
      using pr by (simp only: eqm) simp
    have ml: "main_loop Shader VAO s \<lparr>w_gl = g, w_stderr = e\<rparr> (b # bs) =
                (event_run s (b # bs), \<lparr>w_gl = g', w_stderr = e\<rparr>)"
      using True r run by (simp add: Let_def)
    have fp: "frame_positions s (b # bs) = ModelPosition ?s' # frame_positions ?s' bs"
      using True by simp
    have pres: "gl_presented g' = gl_presented g @
                map (\<lambda>m. drawn_frame Shader VAO ((pr_uniform2 po)(location_of (pr_locations po) ''ModelP'' \<mapsto> m)))
                    (frame_positions s (b # bs))"
      unfolding fp list.map(2) using pr' by (simp only: append_Cons append_Nil)
    show ?thesis
    proof (intro exI [of _ g'] conjI)
      show "gl_buffers g' = gl_buffers g" "gl_vaos g' = gl_vaos g" "gl_shaders g' = gl_shaders g"
        using fr by simp_all
    qed (fact ml rd pres)+
  qed
qed

text \<open>C5: Starting from a context in which the shader program and vertex array are ready,
  the main loop renders one frame per polled batch while the loop is running: each frame draws the
  quad with uniform ModelP set to the position the batch left, no GL error is raised so nothing is
  printed, and buffers, vertex arrays and shaders are unchanged.\<close>

theorem main_loop_ready:
  assumes "frame_ready Shader VAO g" and "gl_programs g Shader = Some po"
  shows "\<exists>g'. main_loop Shader VAO s \<lparr>w_gl = g, w_stderr = e\<rparr> bs =
                (event_run s bs, \<lparr>w_gl = g', w_stderr = e\<rparr>) \<and>
              frame_ready Shader VAO g' \<and>
              gl_presented g' = gl_presented g @
                map (\<lambda>m. drawn_frame Shader VAO ((pr_uniform2 po)(location_of (pr_locations po) ''ModelP'' \<mapsto> m)))
                    (frame_positions s bs) \<and>
              gl_buffers g' = gl_buffers g \<and> gl_vaos g' = gl_vaos g \<and> gl_shaders g' = gl_shaders g"
  using assms by (rule main_loop_frames)

lemma poll_events_stopped: "\<not> Running s \<Longrightarrow> \<not> Running (poll_events s es)"
  by (induction es arbitrary: s) (auto simp: poll_events_def handle_event_def split: sdl_event.splits)

lemma poll_events_quit: "SDL_QUIT \<in> set es \<Longrightarrow> \<not> Running (poll_events s es)"
proof (induction es arbitrary: s)
  case Nil
  then show ?case by simp
next
  case (Cons e es)
  show ?case
  proof (cases "e = SDL_QUIT")
    case True
    then have "\<not> Running (handle_event s e)" by (simp add: handle_event_def)
    then show ?thesis by (simp add: poll_events_def poll_events_stopped [unfolded poll_events_def])
  next
    case False
    with Cons show ?thesis by (simp add: poll_events_def)
  qed
qed

text \<open>C25: A batch of events with no mouse click leaves the model position where it was.\<close>

theorem poll_events_no_click:
  "list_all (\<lambda>e. \<forall>x y. e \<noteq> SDL_MOUSEBUTTONDOWN x y) es \<Longrightarrow>
   ModelPosition (poll_events s es) = ModelPosition s"
  by (induction es arbitrary: s) (auto simp: poll_events_def handle_event_def split: sdl_event.splits)


lemma accepting_build:
  "CompileShader accepting_driver CodeVS CodeFS gl_initial =
     (0, Some 3, gl_initial\<lparr>gl_next := 4,
          gl_programs := [3 \<mapsto> new_program [] True [] [(''ModelP'', 0)]]\<rparr>, [])"
proof -
  have wf: "gl_names_wf gl_initial" by (simp add: gl_names_wf_def gl_initial_def)
  have "CompileShader accepting_driver CodeVS CodeFS gl_initial =
     (0, Some (Suc (Suc (gl_next gl_initial))), gl_initial\<lparr>gl_next := Suc (Suc (Suc (gl_next gl_initial))),
        gl_programs := (gl_programs gl_initial)(Suc (Suc (gl_next gl_initial)) \<mapsto>
            new_program [] True [] [(''ModelP'', 0)])\<rparr>, [])"
    by (rule build_success [OF wf]) (simp_all add: accepting_driver_def)
  then show ?thesis by (simp add: gl_initial_def numeral_eq_Suc)
qed

lemma demo_ctx_built:
  "snd (setup_geometry (fst (snd (snd (CompileShader accepting_driver CodeVS CodeFS gl_initial))))) =
   demo_ctx"
  unfolding accepting_build by (simp add: setup_geometry_eq demo_ctx_def gl_initial_def)

lemma demo_ctx_ready: "frame_ready 3 5 demo_ctx"
  by (simp add: frame_ready_def demo_ctx_def gl_initial_def location_of_def)

text \<open>C12: A mouse click inside the 1152 x 648 window moves the model to normalised device coordinates in [-1,1) horizontally and (-1,1] vertically: the x axis is kept and the y axis is flipped.\<close>

theorem click_ndc_bounds:
  assumes "0 \<le> x" "x < WindowWidth" "0 \<le> y" "y < WindowHeight"
  shows "- 1 \<le> fst (ModelPosition (handle_event s (SDL_MOUSEBUTTONDOWN x y))) \<and>
         fst (ModelPosition (handle_event s (SDL_MOUSEBUTTONDOWN x y))) < 1 \<and>
         - 1 < snd (ModelPosition (handle_event s (SDL_MOUSEBUTTONDOWN x y))) \<and>
         snd (ModelPosition (handle_event s (SDL_MOUSEBUTTONDOWN x y))) \<le> 1"
  using assms by (simp add: handle_event_def WindowWidth_def WindowHeight_def field_simps)

text \<open>C17: A batch of events that contains SDL_QUIT ends the main loop after exactly one more frame, rendered with the position the batch left; later batches are never polled.\<close>

theorem main_loop_quit:
  assumes "SDL_QUIT \<in> set b" and "Running s"
  shows "main_loop Shader VAO s w (b # bs) =
           (poll_events s b, render_frame Shader VAO (poll_events s b) w)"
proof -
  have "\<not> Running (poll_events s b)" using assms(1) by (rule poll_events_quit)
  then show ?thesis using assms(2) by (cases bs) (simp_all add: Let_def)
qed

lemma poll_quit_click:
  "poll_events s [SDL_QUIT, SDL_MOUSEBUTTONDOWN x y] = s\<lparr>Running := False, ModelPosition := ndc x y\<rparr>"
  by (simp add: poll_events_def handle_event_def ndc_def)

text \<open>C13: When SDL_QUIT and a click arrive in the same batch, the loop still applies the click and draws exactly one more frame with the model at the clicked position before it stops.\<close>

theorem quit_then_click_drawn:
  assumes "frame_ready Shader VAO g" and "gl_programs g Shader = Some po" and "Running s"
  shows "\<exists>g'. main_loop Shader VAO s \<lparr>w_gl = g, w_stderr = e\<rparr> ([SDL_QUIT, SDL_MOUSEBUTTONDOWN x y] # bs) =
                (s\<lparr>Running := False, ModelPosition := ndc x y\<rparr>, \<lparr>w_gl = g', w_stderr = e\<rparr>) \<and>
              gl_presented g' = gl_presented g @
                [drawn_frame Shader VAO ((pr_uniform2 po)(location_of (pr_locations po) ''ModelP'' \<mapsto> ndc x y))]"
proof -
  let ?s' = "s\<lparr>Running := False, ModelPosition := ndc x y\<rparr>"
  have ev: "event_run s ([SDL_QUIT, SDL_MOUSEBUTTONDOWN x y] # bs) = ?s'"
    using assms(3) by (cases bs) (simp_all add: poll_quit_click)
  have fp: "frame_positions s ([SDL_QUIT, SDL_MOUSEBUTTONDOWN x y] # bs) = [ndc x y]"
    using assms(3) by (cases bs) (simp_all add: poll_quit_click)
  obtain g' where
      ml: "main_loop Shader VAO s \<lparr>w_gl = g, w_stderr = e\<rparr> ([SDL_QUIT, SDL_MOUSEBUTTONDOWN x y] # bs) =
             (event_run s ([SDL_QUIT, SDL_MOUSEBUTTONDOWN x y] # bs), \<lparr>w_gl = g', w_stderr = e\<rparr>)"
      and pr: "gl_presented g' = gl_presented g @
                 map (\<lambda>m. drawn_frame Shader VAO ((pr_uniform2 po)(location_of (pr_locations po) ''ModelP'' \<mapsto> m)))
                     (frame_positions s ([SDL_QUIT, SDL_MOUSEBUTTONDOWN x y] # bs))"
    using main_loop_frames [OF assms(1,2), of s e "[SDL_QUIT, SDL_MOUSEBUTTONDOWN x y] # bs"] by blast
  have ml': "main_loop Shader VAO s \<lparr>w_gl = g, w_stderr = e\<rparr> ([SDL_QUIT, SDL_MOUSEBUTTONDOWN x y] # bs) =
               (?s', \<lparr>w_gl = g', w_stderr = e\<rparr>)"
    using ml unfolding ev .
  have pr': "gl_presented g' = gl_presented g @
               [drawn_frame Shader VAO ((pr_uniform2 po)(location_of (pr_locations po) ''ModelP'' \<mapsto> ndc x y))]"
    using pr unfolding fp by simp
  show ?thesis using ml' pr' by blast
qed

text \<open>
  C26. The advisory tier: whatever the program and vertex array names and
  whatever GL errors the calls raise, a frame drains the GL error queue,
  only appends to \<^verbatim>\<open>stderr\<close>, and presents exactly one frame.
\<close>

theorem render_frame_advisory:
  assumes "flags_wf (gl_errors (w_gl w))"
  shows "gl_errors (w_gl (render_frame Shader VAO s w)) = [] \<and>
         (\<exists>fb. gl_presented (w_gl (render_frame Shader VAO s w)) = gl_presented (w_gl w) @ [fb]) \<and>
         (\<exists>out. w_stderr (render_frame Shader VAO s w) = w_stderr w @ out)"
  using assms by (rule render_frame_drains)

text \<open>
  C27. GL errors never alter the control flow of the loop: from any context
  whose error queue holds only error codes, the loop presents exactly one
  frame per iteration it runs, and the queue keeps holding only error codes.
\<close>

theorem main_loop_advisory:
  assumes "flags_wf (gl_errors (w_gl w))"
  shows "flags_wf (gl_errors (w_gl (snd (main_loop Shader VAO s w bs)))) \<and>
         length (gl_presented (w_gl (snd (main_loop Shader VAO s w bs)))) =
           length (gl_presented (w_gl w)) + length (frame_positions s bs)"
  using assms by (rule main_loop_drains)

subsection \<open>Witnesses\<close>

theorem click_ndc_bounds_witness:
  "0 \<le> (0::int) \<and> 0 < WindowWidth \<and> 0 \<le> (0::int) \<and> 0 < WindowHeight \<and>
   - 1 \<le> fst (ModelPosition (handle_event demo_state (SDL_MOUSEBUTTONDOWN 0 0))) \<and>
   fst (ModelPosition (handle_event demo_state (SDL_MOUSEBUTTONDOWN 0 0))) < 1 \<and>
   - 1 < snd (ModelPosition (handle_event demo_state (SDL_MOUSEBUTTONDOWN 0 0))) \<and>
   snd (ModelPosition (handle_event demo_state (SDL_MOUSEBUTTONDOWN 0 0))) \<le> 1"
proof -
  have w: "(0::int) < WindowWidth" and h: "(0::int) < WindowHeight"
    by (simp_all add: WindowWidth_def WindowHeight_def)
  show ?thesis using w h click_ndc_bounds [of 0 0 demo_state] by simp
qed

theorem main_loop_quit_witness:
  "SDL_QUIT \<in> set [SDL_QUIT, SDL_MOUSEBUTTONDOWN 0 0] \<and> Running demo_state \<and>
   main_loop 3 5 demo_state \<lparr>w_gl = demo_ctx, w_stderr = []\<rparr>
      ([SDL_QUIT, SDL_MOUSEBUTTONDOWN 0 0] # [[SDL_MOUSEBUTTONDOWN 576 324]]) =
   (poll_events demo_state [SDL_QUIT, SDL_MOUSEBUTTONDOWN 0 0],
    render_frame 3 5 (poll_events demo_state [SDL_QUIT, SDL_MOUSEBUTTONDOWN 0 0])
      \<lparr>w_gl = demo_ctx, w_stderr = []\<rparr>)"
proof -
  have q: "SDL_QUIT \<in> set [SDL_QUIT, SDL_MOUSEBUTTONDOWN 0 0]" and r: "Running demo_state"
    by (simp_all add: demo_state_def)
  show ?thesis by (intro conjI q r main_loop_quit [OF q r])
qed

theorem quit_then_click_drawn_witness:
  "frame_ready 3 5 demo_ctx \<and> Running demo_state \<and>
   (\<exists>g'. main_loop 3 5 demo_state \<lparr>w_gl = demo_ctx, w_stderr = []\<rparr>
            ([SDL_QUIT, SDL_MOUSEBUTTONDOWN 0 0] # []) =
          (demo_state\<lparr>Running := False, ModelPosition := ndc 0 0\<rparr>, \<lparr>w_gl = g', w_stderr = []\<rparr>) \<and>
          gl_presented g' = [drawn_frame 3 5 [0 \<mapsto> ndc 0 0]])"
proof -
  have po: "gl_programs demo_ctx 3 = Some (new_program [] True [] [(''ModelP'', 0)])"
    by (simp add: demo_ctx_def)
  have r: "Running demo_state" by (simp add: demo_state_def)
  show ?thesis
    using demo_ctx_ready r quit_then_click_drawn [OF demo_ctx_ready po r, of "[]" 0 0 "[]"]
    by (simp add: demo_ctx_def gl_initial_def location_of_def)
qed


theorem main_loop_ready_witness:
  "frame_ready 3 5 demo_ctx \<and>
   gl_programs demo_ctx 3 = Some (new_program [] True [] [(''ModelP'', 0)]) \<and>
   (\<exists>g'. main_loop 3 5 demo_state \<lparr>w_gl = demo_ctx, w_stderr = []\<rparr> [[SDL_MOUSEBUTTONDOWN 576 324]] =
           (event_run demo_state [[SDL_MOUSEBUTTONDOWN 576 324]], \<lparr>w_gl = g', w_stderr = []\<rparr>) \<and>
         frame_ready 3 5 g' \<and>
         gl_presented g' = gl_presented demo_ctx @
           map (\<lambda>m. drawn_frame 3 5
                 ((pr_uniform2 (new_program [] True [] [(''ModelP'', 0)]))
                  (location_of (pr_locations (new_program [] True [] [(''ModelP'', 0)])) ''ModelP'' \<mapsto> m)))
             (frame_positions demo_state [[SDL_MOUSEBUTTONDOWN 576 324]]) \<and>
         gl_buffers g' = gl_buffers demo_ctx \<and> gl_vaos g' = gl_vaos demo_ctx \<and>
         gl_shaders g' = gl_shaders demo_ctx)"
proof -
  have po: "gl_programs demo_ctx 3 = Some (new_program [] True [] [(''ModelP'', 0)])"
    by (simp add: demo_ctx_def)
  show ?thesis
    using demo_ctx_ready po main_loop_ready [OF demo_ctx_ready po, of demo_state "[]" "[[SDL_MOUSEBUTTONDOWN 576 324]]"]
    by blast
qed

theorem poll_events_no_click_witness:
  "list_all (\<lambda>e. \<forall>x y. e \<noteq> SDL_MOUSEBUTTONDOWN x y) [SDL_OTHER 768, SDL_QUIT] \<and>
   ModelPosition (poll_events demo_state [SDL_OTHER 768, SDL_QUIT]) = ModelPosition demo_state"
proof -
  have h: "list_all (\<lambda>e. \<forall>x y. e \<noteq> SDL_MOUSEBUTTONDOWN x y) [SDL_OTHER 768, SDL_QUIT]" by simp
  show ?thesis using h poll_events_no_click [OF h] by simp
qed

theorem render_frame_advisory_witness:
  "flags_wf (gl_errors demo_ctx) \<and>
   gl_errors (w_gl (render_frame 7 9 demo_state \<lparr>w_gl = demo_ctx, w_stderr = []\<rparr>)) = [] \<and>
   (\<exists>fb. gl_presented (w_gl (render_frame 7 9 demo_state \<lparr>w_gl = demo_ctx, w_stderr = []\<rparr>)) =
          gl_presented demo_ctx @ [fb]) \<and>
   (\<exists>out. w_stderr (render_frame 7 9 demo_state \<lparr>w_gl = demo_ctx, w_stderr = []\<rparr>) = [] @ out)"
proof -
  have wf: "flags_wf (gl_errors (w_gl \<lparr>w_gl = demo_ctx, w_stderr = []\<rparr>))"
    by (simp add: demo_ctx_def gl_initial_def)
  show ?thesis using wf render_frame_advisory [OF wf, of 7 9 demo_state] by simp
qed

theorem main_loop_advisory_witness:
  "flags_wf (gl_errors demo_ctx) \<and>
   flags_wf (gl_errors (w_gl (snd (main_loop 7 9 demo_state \<lparr>w_gl = demo_ctx, w_stderr = []\<rparr>
      [[SDL_MOUSEBUTTONDOWN 0 0], [SDL_QUIT]])))) \<and>
   length (gl_presented (w_gl (snd (main_loop 7 9 demo_state \<lparr>w_gl = demo_ctx, w_stderr = []\<rparr>
      [[SDL_MOUSEBUTTONDOWN 0 0], [SDL_QUIT]])))) =
     length (gl_presented demo_ctx) + length (frame_positions demo_state [[SDL_MOUSEBUTTONDOWN 0 0], [SDL_QUIT]])"
proof -
  have wf: "flags_wf (gl_errors (w_gl \<lparr>w_gl = demo_ctx, w_stderr = []\<rparr>))"
    by (simp add: demo_ctx_def gl_initial_def)
  show ?thesis
    using wf main_loop_advisory [OF wf, of 7 9 demo_state "[[SDL_MOUSEBUTTONDOWN 0 0], [SDL_QUIT]]"] by simp
qed

end
