(* ===== verification/Startup.thy ===== *)
theory Startup
  imports Frame_Loop Audio
begin

text \<open>
  Startup and teardown of \<^verbatim>\<open>main\<close> (\<^verbatim>\<open>src/main.c\<close> lines 185--297).  The
  platform (SDL, the GL loader, the GLSL driver) is a record \<open>platform\<close> of the
  answers its calls give: whether each fallible call succeeds, the device id
  \<^verbatim>\<open>SDL_OpenAudioDevice\<close> returns, the text \<^verbatim>\<open>SDL_GetError\<close> returns and the
  shader driver.  The process state \<open>process\<close> records the platform calls made
  in order, the resources held, the text written to \<^verbatim>\<open>stderr\<close>, the
  \<^verbatim>\<open>Audio\<close> struct handed to the audio callback and the GL context.
  \<open>main_startup\<close> is the initialisation chain up to the shader build (lines
  186--240), ending either in an early \<^verbatim>\<open>return -1\<close> (\<open>Inl\<close>) or with a
  program handle (\<open>Inr\<close>); \<open>main_c\<close> continues with the geometry setup, the
  frame loop over a list of event batches and the teardown; it is \<open>None\<close>
  when the batches end before the loop does.
\<close>

text \<open>The fields of \<^verbatim>\<open>SDL_AudioSpec\<close> that \<^verbatim>\<open>main\<close> sets (lines 194--200).\<close>

record audio_spec =
  as_freq :: c_int
  as_format :: "16 word"
  as_channels :: Uint8
  as_samples :: "16 word"

definition AUDIO_S16SYS :: "16 word" where
  "AUDIO_S16SYS = 0x8010"

definition DesiredAudio :: audio_spec where
  "DesiredAudio = \<lparr>as_freq = 48000, as_format = AUDIO_S16SYS, as_channels = 2, as_samples = 4096\<rparr>"

datatype platform_call =
    Call_SDL_Init
  | Call_SDL_OpenAudioDevice audio_spec
  | Call_SDL_GL_SetAttribute string int
  | Call_SDL_CreateWindow string int int
  | Call_SDL_GL_CreateContext
  | Call_SDL_GL_SetSwapInterval int
  | Call_gladLoadGLLoader
  | Call_SDL_PauseAudioDevice nat int
  | Call_SDL_GL_DeleteContext
  | Call_SDL_DestroyWindow
  | Call_SDL_Quit

record platform =
  pf_init_ok :: bool
  pf_audio_device :: nat
  pf_window_ok :: bool
  pf_context_ok :: bool
  pf_swap_ok :: bool
  pf_glad_ok :: bool
  pf_driver :: gl_driver
  pf_error :: string

record process =
  ps_calls :: "platform_call list"
  ps_stderr :: string
  ps_sdl :: bool
  ps_device :: "nat option"
  ps_playing :: bool
  ps_window :: bool
  ps_context :: bool
  ps_audio :: audio_data
  ps_gl :: gl_ctx
  ps_loop :: loop_state

definition init_process :: process where
  "init_process =
     \<lparr>ps_calls = [], ps_stderr = [], ps_sdl = False, ps_device = None, ps_playing = False,
      ps_window = False, ps_context = False, ps_audio = \<lparr>Freq = 0, SamplesDone = 0\<rparr>,
      ps_gl = gl_initial, ps_loop = \<lparr>Running = False, ModelPosition = (0, 0)\<rparr>\<rparr>"

definition call :: "platform_call \<Rightarrow> process \<Rightarrow> process" where
  "call c p = p\<lparr>ps_calls := ps_calls p @ [c]\<rparr>"

text \<open>\<^verbatim>\<open>fprintf(stderr, "<what>: %s\\n", SDL_GetError())\<close>.\<close>

definition report :: "string \<Rightarrow> platform \<Rightarrow> process \<Rightarrow> process" where
  "report what P p = p\<lparr>ps_stderr := ps_stderr p @ what @ '': '' @ pf_error P @ [CHR 0x0A]\<rparr>"

definition gl_attributes :: "(string \<times> int) list" where
  "gl_attributes =
     [(''SDL_GL_CONTEXT_MAJOR_VERSION'', 4), (''SDL_GL_CONTEXT_MINOR_VERSION'', 1),
      (''SDL_GL_CONTEXT_PROFILE_MASK'', 1), (''SDL_GL_FRAMEBUFFER_SRGB_CAPABLE'', 1)]"

definition set_attributes :: "process \<Rightarrow> process" where
  "set_attributes p = fold (\<lambda>(a, v). call (Call_SDL_GL_SetAttribute a v)) gl_attributes p"

text \<open>
  Lines 186--240: each fallible platform call either fails, printing its
  message and returning \<open>-1\<close> with every resource acquired so far still held,
  or records the resource it acquired.  A failing \<^verbatim>\<open>SDL_GL_SetSwapInterval\<close>
  is only reported.
\<close>

definition main_startup :: "platform \<Rightarrow> (c_int \<times> process) + (process \<times> gl_name)" where
  "main_startup P =
     (let p1 = call Call_SDL_Init init_process in
      if \<not> pf_init_ok P then Inl (-1, report ''SDL_Init'' P p1) else
      let p2 = p1\<lparr>ps_sdl := True, ps_audio := \<lparr>Freq = 48000, SamplesDone = 0\<rparr>\<rparr>;
          p3 = call (Call_SDL_OpenAudioDevice DesiredAudio) p2 in
      if pf_audio_device P = 0 then Inl (-1, report ''SDL_OpenAudioDevice'' P p3) else
      let p4 = set_attributes (p3\<lparr>ps_device := Some (pf_audio_device P)\<rparr>);
          p5 = call (Call_SDL_CreateWindow ''SDL Template'' WindowWidth WindowHeight) p4 in
      if \<not> pf_window_ok P then Inl (-1, report ''SDL_CreateWindow'' P p5) else
      let p6 = call Call_SDL_GL_CreateContext (p5\<lparr>ps_window := True\<rparr>) in
      if \<not> pf_context_ok P then Inl (-1, report ''SDL_GL_CreateContext'' P p6) else
      let p7 = call (Call_SDL_GL_SetSwapInterval 1) (p6\<lparr>ps_context := True, ps_gl := gl_initial\<rparr>);
          p8 = (if pf_swap_ok P then p7 else report ''SDL_GL_SetSwapInterval'' P p7);
          p9 = call Call_gladLoadGLLoader p8 in
      if \<not> pf_glad_ok P
      then Inl (-1, p9\<lparr>ps_stderr := ps_stderr p9 @ ''glad gl load failed'' @ [CHR 0x0A]\<rparr>) else
      case CompileShader (pf_driver P) CodeVS CodeFS (ps_gl p9) of (r, h, g, msg) \<Rightarrow>
      let p10 = p9\<lparr>ps_gl := g, ps_stderr := ps_stderr p9 @ msg\<rparr> in
      if r \<noteq> 0
      then Inl (-1, p10\<lparr>ps_stderr := ps_stderr p10 @ ''shader compilation failed'' @ [CHR 0x0A]\<rparr>)
      else Inr (p10, the h))"

text \<open>Lines 293--295: the three release calls, in this order.\<close>

definition teardown :: "process \<Rightarrow> process" where
  "teardown p =
     (call Call_SDL_Quit (call Call_SDL_DestroyWindow (call Call_SDL_GL_DeleteContext
        (p\<lparr>ps_context := False\<rparr>))\<lparr>ps_window := False\<rparr>))
       \<lparr>ps_sdl := False, ps_device := None, ps_playing := False\<rparr>"

definition initial_loop_state :: loop_state where
  "initial_loop_state = \<lparr>Running = True, ModelPosition = (0, 0)\<rparr>"

text \<open>
  Lines 242--297: geometry setup, \<^verbatim>\<open>glCheck(glEnable(GL_FRAMEBUFFER_SRGB))\<close>,
  unpausing the audio device, the frame loop and the teardown.  The result is
  the exit code and the final process state, or \<open>None\<close> if the loop is still
  running when the observed batches end.
\<close>

definition main_c :: "platform \<Rightarrow> sdl_event list list \<Rightarrow> (c_int \<times> process) option" where
  "main_c P bs =
     (case main_startup P of
        Inl r \<Rightarrow> Some r
      | Inr (p, Shader) \<Rightarrow>
          (case setup_geometry (ps_gl p) of ((VAO, VBO), g) \<Rightarrow>
           let w = glCheck ''glEnable(GL_FRAMEBUFFER_SRGB)'' glEnable_FRAMEBUFFER_SRGB
                     \<lparr>w_gl = g, w_stderr = ps_stderr p\<rparr>;
               p' = call (Call_SDL_PauseAudioDevice (the (ps_device p)) 0) p\<lparr>ps_playing := True\<rparr>
           in case main_loop Shader VAO initial_loop_state w bs of (s, w') \<Rightarrow>
                if Running s then None
                else Some (0, teardown (p'\<lparr>ps_gl := w_gl w', ps_stderr := w_stderr w', ps_loop := s\<rparr>))))"

text \<open>
  The platform answers under which startup reaches the frame loop, the calls
  that release a resource or stop audio delivery, and the platform on which
  every call succeeds and the driver accepts the shaders.
\<close>

definition startup_ok :: "platform \<Rightarrow> bool" where
  "startup_ok P \<longleftrightarrow> pf_init_ok P \<and> pf_audio_device P \<noteq> 0 \<and> pf_window_ok P \<and> pf_context_ok P \<and>
     pf_glad_ok P \<and> fst (CompileShader (pf_driver P) CodeVS CodeFS gl_initial) = 0"

fun release_call :: "platform_call \<Rightarrow> bool" where
  "release_call Call_SDL_GL_DeleteContext = True"
| "release_call Call_SDL_DestroyWindow = True"
| "release_call Call_SDL_Quit = True"
| "release_call (Call_SDL_PauseAudioDevice d v) = (v \<noteq> 0)"
| "release_call _ = False"

definition demo_platform :: platform where
  "demo_platform =
     \<lparr>pf_init_ok = True, pf_audio_device = 2, pf_window_ok = True, pf_context_ok = True,
      pf_swap_ok = True, pf_glad_ok = True, pf_driver = accepting_driver, pf_error = []\<rparr>"

subsection \<open>Startup and exit\<close>

lemma call_sel [simp]:
  "ps_calls (call c p) = ps_calls p @ [c]" "ps_stderr (call c p) = ps_stderr p"
  "ps_sdl (call c p) = ps_sdl p" "ps_device (call c p) = ps_device p"
  "ps_playing (call c p) = ps_playing p" "ps_window (call c p) = ps_window p"
  "ps_context (call c p) = ps_context p" "ps_audio (call c p) = ps_audio p"
  "ps_gl (call c p) = ps_gl p" "ps_loop (call c p) = ps_loop p"
  by (simp_all add: call_def)

lemma report_sel [simp]:
  "ps_calls (report w P p) = ps_calls p"
  "ps_stderr (report w P p) = ps_stderr p @ w @ '': '' @ pf_error P @ [CHR 0x0A]"
  "ps_sdl (report w P p) = ps_sdl p" "ps_device (report w P p) = ps_device p"
  "ps_playing (report w P p) = ps_playing p" "ps_window (report w P p) = ps_window p"
  "ps_context (report w P p) = ps_context p" "ps_audio (report w P p) = ps_audio p"
  "ps_gl (report w P p) = ps_gl p" "ps_loop (report w P p) = ps_loop p"
  by (simp_all add: report_def)

lemma set_attributes_eq:
  "set_attributes p = p\<lparr>ps_calls := ps_calls p @ map (\<lambda>(a, v). Call_SDL_GL_SetAttribute a v) gl_attributes\<rparr>"
  by (simp add: set_attributes_def gl_attributes_def call_def)

lemma startup_failure:
  assumes "main_startup P = Inl (r, p)"
  shows "r = -1 \<and> \<not> startup_ok P \<and> ps_stderr p \<noteq> [] \<and> \<not> list_ex release_call (ps_calls p) \<and>
         ps_sdl p = pf_init_ok P \<and>
         ps_context p = (pf_init_ok P \<and> pf_audio_device P \<noteq> 0 \<and> pf_window_ok P \<and> pf_context_ok P)"
  using assms
  by (auto simp: main_startup_def Let_def startup_ok_def set_attributes_eq gl_attributes_def init_process_def
      split: if_splits prod.splits)

lemma compile_ok:
  assumes "CompileShader drv vs fs g = (0, h, g', e)"
  shows "h = Some (the h) \<and> e = []"
  using assms by (auto simp: CompileShader_def Let_def split: prod.splits if_splits)

lemma startup_success:
  assumes ok: "startup_ok P"
  shows "\<exists>p Shader g. main_startup P = Inr (p, Shader) \<and>
           CompileShader (pf_driver P) CodeVS CodeFS gl_initial = (0, Some Shader, g, []) \<and>
           ps_calls p = [Call_SDL_Init, Call_SDL_OpenAudioDevice DesiredAudio] @
              map (\<lambda>(a, v). Call_SDL_GL_SetAttribute a v) gl_attributes @
              [Call_SDL_CreateWindow ''SDL Template'' WindowWidth WindowHeight, Call_SDL_GL_CreateContext,
               Call_SDL_GL_SetSwapInterval 1, Call_gladLoadGLLoader] \<and>
           ps_stderr p = (if pf_swap_ok P then [] else ''SDL_GL_SetSwapInterval: '' @ pf_error P @ [CHR 0x0A]) \<and>
           ps_audio p = \<lparr>Freq = 48000, SamplesDone = 0\<rparr> \<and> ps_gl p = g \<and>
           ps_sdl p \<and> ps_device p = Some (pf_audio_device P) \<and> ps_window p \<and> ps_context p \<and>
           \<not> ps_playing p"
proof -
  obtain r h g e where c: "CompileShader (pf_driver P) CodeVS CodeFS gl_initial = (r, h, g, e)"
    by (cases "CompileShader (pf_driver P) CodeVS CodeFS gl_initial") auto
  with ok have r: "r = 0" by (simp add: startup_ok_def)
  with c compile_ok have he: "h = Some (the h)" "e = []" by blast+
  show ?thesis
    using ok c r he
    by (auto simp: main_startup_def Let_def startup_ok_def set_attributes_eq init_process_def)
qed

lemma main_startup_Inr_ok: "main_startup P = Inr x \<Longrightarrow> startup_ok P"
  by (auto simp: main_startup_def Let_def startup_ok_def set_attributes_eq init_process_def
      split: if_splits prod.splits)

lemma main_startup_cases:
  obtains (fail) p where "main_startup P = Inl (-1, p)" "\<not> startup_ok P"
    | (ok) p Shader where "main_startup P = Inr (p, Shader)" "startup_ok P"
proof (cases "main_startup P")
  case (Inl a)
  then show ?thesis using startup_failure [of P "fst a" "snd a"] fail by (cases a) auto
next
  case (Inr b)
  then show ?thesis using main_startup_Inr_ok [of P b] ok by (cases b) auto
qed

lemma main_c_exit_code:
  "map_option fst (main_c P bs) =
     (if \<not> startup_ok P then Some (-1) else if SDL_QUIT \<in> set (concat bs) then Some 0 else None)"
proof (cases P rule: main_startup_cases)
  case (fail p)
  then show ?thesis by (simp add: main_c_def)
next
  case (ok p Shader)
  obtain VAO VBO g where sg: "setup_geometry (ps_gl p) = ((VAO, VBO), g)"
    by (metis prod.exhaust)
  let ?w = "glCheck ''glEnable(GL_FRAMEBUFFER_SRGB)'' glEnable_FRAMEBUFFER_SRGB \<lparr>w_gl = g, w_stderr = ps_stderr p\<rparr>"
  obtain s w' where ml: "main_loop Shader VAO initial_loop_state ?w bs = (s, w')"
    by (metis prod.exhaust)
  have "s = event_run initial_loop_state bs" using main_loop_fst [of Shader VAO initial_loop_state ?w bs] ml by simp
  then have "Running s \<longleftrightarrow> SDL_QUIT \<notin> set (concat bs)"
    by (simp add: event_run_running initial_loop_state_def)
  then show ?thesis using ok sg ml by (simp add: main_c_def Let_def)
qed

lemma demo_platform_ok: "startup_ok demo_platform"
  by (simp add: startup_ok_def demo_platform_def accepting_build)

subsection \<open>Properties of main\<close>

text \<open>
  C6. The exit status of \<^verbatim>\<open>main\<close>: \<open>-1\<close> when a fatal startup step fails
  (SDL initialisation, audio device, window, GL context, GL loader or shader
  build); otherwise the loop runs until a batch of events contains
  \<^verbatim>\<open>SDL_QUIT\<close> and \<^verbatim>\<open>main\<close> returns 0; without a quit event it never returns.
\<close>

theorem main_c_exit:
  "map_option fst (main_c P bs) =
     (if \<not> startup_ok P then Some (-1) else if SDL_QUIT \<in> set (concat bs) then Some 0 else None)"
  by (rule main_c_exit_code)

text \<open>
  C15. Every startup failure returns \<open>-1\<close>, writes a message to
  \<^verbatim>\<open>stderr\<close> and makes no release call: the SDL subsystem, the audio device,
  the window and the GL context acquired before the failure are still held
  when \<^verbatim>\<open>main\<close> returns.
\<close>

theorem main_startup_fails:
  assumes "main_startup P = Inl (r, p)"
  shows "r = -1 \<and> \<not> startup_ok P \<and> ps_stderr p \<noteq> [] \<and> \<not> list_ex release_call (ps_calls p) \<and>
         ps_sdl p = pf_init_ok P \<and>
         ps_context p = (pf_init_ok P \<and> pf_audio_device P \<noteq> 0 \<and> pf_window_ok P \<and> pf_context_ok P)"
  using assms by (rule startup_failure)

text \<open>
  C14. After a clean exit the last platform calls are the unpausing of the
  audio device followed by \<^verbatim>\<open>SDL_GL_DeleteContext\<close>,
  \<^verbatim>\<open>SDL_DestroyWindow\<close> and \<^verbatim>\<open>SDL_Quit\<close>, with no release call and no
  pausing of audio before them: audio delivery is stopped only by
  \<^verbatim>\<open>SDL_Quit\<close>, after the context and the window are gone.  Afterwards no
  resource is held and the loop state is stopped.
\<close>

theorem main_c_clean_exit:
  assumes "main_c P bs = Some (0, p)"
  shows "(\<exists>pre. ps_calls p = pre @ [Call_SDL_PauseAudioDevice (pf_audio_device P) 0,
                   Call_SDL_GL_DeleteContext, Call_SDL_DestroyWindow, Call_SDL_Quit] \<and>
                 \<not> list_ex release_call pre) \<and>
         \<not> ps_sdl p \<and> ps_device p = None \<and> \<not> ps_window p \<and> \<not> ps_context p \<and> \<not> ps_playing p \<and>
         \<not> Running (ps_loop p)"
proof (cases P rule: main_startup_cases)
  case (fail p0)
  then show ?thesis using assms by (simp add: main_c_def)
next
  case (ok p0 Shader)
  obtain p1 Shader' g where st: "main_startup P = Inr (p1, Shader')"
      and dev: "ps_device p1 = Some (pf_audio_device P)"
      and calls: "ps_calls p1 = [Call_SDL_Init, Call_SDL_OpenAudioDevice DesiredAudio] @
              map (\<lambda>(a, v). Call_SDL_GL_SetAttribute a v) gl_attributes @
              [Call_SDL_CreateWindow ''SDL Template'' WindowWidth WindowHeight, Call_SDL_GL_CreateContext,
               Call_SDL_GL_SetSwapInterval 1, Call_gladLoadGLLoader]"
    using startup_success [OF ok(2)] by blast
  have nr: "\<not> list_ex release_call (ps_calls p1)" by (simp add: calls gl_attributes_def)
  obtain VAO VBO g where sg: "setup_geometry (ps_gl p1) = ((VAO, VBO), g)"
    by (metis prod.exhaust)
  let ?w = "glCheck ''glEnable(GL_FRAMEBUFFER_SRGB)'' glEnable_FRAMEBUFFER_SRGB \<lparr>w_gl = g, w_stderr = ps_stderr p1\<rparr>"
  obtain s w' where ml: "main_loop Shader' VAO initial_loop_state ?w bs = (s, w')"
    by (metis prod.exhaust)
  have stop: "\<not> Running s"
    and p: "p = teardown ((call (Call_SDL_PauseAudioDevice (pf_audio_device P) 0) p1\<lparr>ps_playing := True\<rparr>)
                 \<lparr>ps_gl := w_gl w', ps_stderr := w_stderr w', ps_loop := s\<rparr>)"
    using assms st sg ml dev by (simp_all add: main_c_def Let_def split: if_splits)
  show ?thesis
  proof (intro conjI)
    show "\<exists>pre. ps_calls p = pre @ [Call_SDL_PauseAudioDevice (pf_audio_device P) 0,
                   Call_SDL_GL_DeleteContext, Call_SDL_DestroyWindow, Call_SDL_Quit] \<and>
                 \<not> list_ex release_call pre"
      using nr by (intro exI [of _ "ps_calls p1"]) (simp add: p teardown_def)
  qed (simp_all add: p teardown_def stop)
qed

text \<open>
  C20. When every fatal step succeeds, startup makes exactly the calls of
  lines 186--234 in order, hands the audio callback the struct
  \<open>Freq = 48000, SamplesDone = 0\<close>, holds all four resources with audio still
  paused, keeps the program \<^verbatim>\<open>CompileShader\<close> built, and has written
  nothing to \<^verbatim>\<open>stderr\<close> unless the swap interval could not be set.
\<close>

theorem main_startup_succeeds:
  assumes ok: "startup_ok P"
  shows "\<exists>p Shader g. main_startup P = Inr (p, Shader) \<and>
           CompileShader (pf_driver P) CodeVS CodeFS gl_initial = (0, Some Shader, g, []) \<and>
           ps_calls p = [Call_SDL_Init, Call_SDL_OpenAudioDevice DesiredAudio] @
              map (\<lambda>(a, v). Call_SDL_GL_SetAttribute a v) gl_attributes @
              [Call_SDL_CreateWindow ''SDL Template'' WindowWidth WindowHeight, Call_SDL_GL_CreateContext,
               Call_SDL_GL_SetSwapInterval 1, Call_gladLoadGLLoader] \<and>
           ps_stderr p = (if pf_swap_ok P then [] else ''SDL_GL_SetSwapInterval: '' @ pf_error P @ [CHR 0x0A]) \<and>
           ps_audio p = \<lparr>Freq = 48000, SamplesDone = 0\<rparr> \<and> ps_gl p = g \<and>
           ps_sdl p \<and> ps_device p = Some (pf_audio_device P) \<and> ps_window p \<and> ps_context p \<and>
           \<not> ps_playing p"
  using assms by (rule startup_success)

text \<open>
  C23. A failing \<^verbatim>\<open>SDL_GL_SetSwapInterval\<close> is advisory: it never changes
  whether or with which status \<^verbatim>\<open>main\<close> returns.
\<close>

theorem swap_interval_advisory:
  "map_option fst (main_c (P\<lparr>pf_swap_ok := b\<rparr>) bs) = map_option fst (main_c P bs)"
  by (simp add: main_c_exit_code startup_ok_def)

subsection \<open>Witnesses\<close>

theorem main_startup_fails_witness:
  "\<exists>p. main_startup (demo_platform\<lparr>pf_context_ok := False\<rparr>) = Inl (-1, p) \<and>
     \<not> startup_ok (demo_platform\<lparr>pf_context_ok := False\<rparr>) \<and> ps_stderr p \<noteq> [] \<and>
     \<not> list_ex release_call (ps_calls p) \<and> ps_sdl p \<and> \<not> ps_context p"
proof -
  obtain p where m: "main_startup (demo_platform\<lparr>pf_context_ok := False\<rparr>) = Inl (-1, p)"
    using that by (simp add: main_startup_def Let_def demo_platform_def)
  show ?thesis using main_startup_fails [OF m] m by (auto simp: demo_platform_def)
qed

theorem main_c_clean_exit_witness:
  "\<exists>p. main_c demo_platform [[SDL_MOUSEBUTTONDOWN 0 0, SDL_QUIT]] = Some (0, p) \<and>
     (\<exists>pre. ps_calls p = pre @ [Call_SDL_PauseAudioDevice 2 0,
               Call_SDL_GL_DeleteContext, Call_SDL_DestroyWindow, Call_SDL_Quit] \<and>
             \<not> list_ex release_call pre) \<and> \<not> ps_sdl p \<and> \<not> ps_window p"
proof -
  have "map_option fst (main_c demo_platform [[SDL_MOUSEBUTTONDOWN 0 0, SDL_QUIT]]) = Some 0"
    by (simp add: main_c_exit_code demo_platform_ok)
  then obtain p where m: "main_c demo_platform [[SDL_MOUSEBUTTONDOWN 0 0, SDL_QUIT]] = Some (0, p)"
    by auto
  show ?thesis using main_c_clean_exit [OF m] m by (auto simp: demo_platform_def)
qed

theorem main_startup_succeeds_witness:
  "startup_ok demo_platform \<and>
   (\<exists>p Shader g. main_startup demo_platform = Inr (p, Shader) \<and>
      CompileShader accepting_driver CodeVS CodeFS gl_initial = (0, Some Shader, g, []) \<and>
      ps_audio p = \<lparr>Freq = 48000, SamplesDone = 0\<rparr> \<and> ps_stderr p = [] \<and> \<not> ps_playing p)"
  using demo_platform_ok main_startup_succeeds [OF demo_platform_ok]
  by (auto simp: demo_platform_def)

end
