(* ===== verification/Event_Stream.thy ===== *)
theory Event_Stream
  imports Frame_Loop
begin

text \<open>
  The \<^verbatim>\<open>while (Running)\<close> loop of \<^verbatim>\<open>main\<close> (\<^verbatim>\<open>src/main.c\<close> lines 261--291)
  over an unbounded event source: iteration \<open>n\<close> drains the batch
  \<open>es n\<close>.  Nothing bounds the number of iterations, so the loop is a
  \<^theory_text>\<open>partial_function (option)\<close>: \<open>None\<close> is a loop that never exits.  The
  lemmas show that it exits exactly when a quit event eventually arrives.
\<close>

type_synonym event_stream = "nat \<Rightarrow> sdl_event list"

partial_function (option) loop_stream ::
  "gl_name \<Rightarrow> gl_name \<Rightarrow> event_stream \<Rightarrow> nat \<Rightarrow> loop_state \<Rightarrow> world \<Rightarrow> (loop_state \<times> world) option"
where
  "loop_stream Shader VAO es n s w =
     (if Running s
      then (let s' = poll_events s (es n)
            in loop_stream Shader VAO es (Suc n) s' (render_frame Shader VAO s' w))
      else Some (s, w))"

definition demo_stream :: event_stream where
  "demo_stream i = (if i = 2 then [SDL_QUIT] else [SDL_MOUSEBUTTONDOWN (int i) 0])"

lemma loop_stream_prefix:
  assumes "SDL_QUIT \<in> set (es (n + k))"
  shows "loop_stream Shader VAO es n s w = Some (main_loop Shader VAO s w (map es [n..<n + Suc k]))"
  using assms
proof (induction k arbitrary: n s w)
  case 0
  show ?case
  proof (cases "Running s")
    case True
    have "\<not> Running (poll_events s (es n))" using 0 by (simp add: poll_events_running)
    then show ?thesis using True by (simp add: loop_stream.simps Let_def)
  qed (simp add: loop_stream.simps)
next
  case (Suc k)
  have q: "SDL_QUIT \<in> set (es (Suc n + k))" using Suc.prems by simp
  have up: "[n..<n + Suc (Suc k)] = n # [Suc n..<Suc n + Suc k]" by (simp add: upt_rec)
  show ?case
  proof (cases "Running s")
    case True
    then show ?thesis unfolding up
      by (simp add: loop_stream.simps [of _ _ _ n] Let_def Suc.IH [OF q] del: upt_Suc)
  qed (unfold up, simp add: loop_stream.simps del: upt_Suc)
qed

lemma loop_stream_returns_quit:
  assumes "loop_stream Shader VAO es n s w = Some r"
  shows "\<not> Running s \<or> (\<exists>k. SDL_QUIT \<in> set (es (n + k)))"
proof (rule loop_stream.raw_induct [where P = "\<lambda>Shader VAO es n s w r.
          \<not> Running s \<or> (\<exists>k. SDL_QUIT \<in> set (es (n + k)))", OF _ assms])
  fix f :: "gl_name \<Rightarrow> gl_name \<Rightarrow> event_stream \<Rightarrow> nat \<Rightarrow> loop_state \<Rightarrow> world \<Rightarrow> (loop_state \<times> world) option"
  fix Shader VAO es n s w r
  assume IH: "\<And>Shader VAO es n s w r. f Shader VAO es n s w = Some r \<Longrightarrow>
                \<not> Running s \<or> (\<exists>k. SDL_QUIT \<in> set (es (n + k)))"
    and eq: "(if Running s
              then (let s' = poll_events s (es n)
                    in f Shader VAO es (Suc n) s' (render_frame Shader VAO s' w))
              else Some (s, w)) = Some r"
  show "\<not> Running s \<or> (\<exists>k. SDL_QUIT \<in> set (es (n + k)))"
  proof (cases "Running s")
    case True
    then have "f Shader VAO es (Suc n) (poll_events s (es n))
                 (render_frame Shader VAO (poll_events s (es n)) w) = Some r"
      using eq by (simp add: Let_def)
    from IH [OF this] show ?thesis
    proof
      assume "\<not> Running (poll_events s (es n))"
      then have "SDL_QUIT \<in> set (es (n + 0))" using True by (simp add: poll_events_running)
      then show ?thesis by blast
    next
      assume "\<exists>k. SDL_QUIT \<in> set (es (Suc n + k))"
      then obtain k where "SDL_QUIT \<in> set (es (n + Suc k))" by auto
      then show ?thesis by blast
    qed
  qed simp
qed

lemma loop_stream_exits_iff:
  assumes "Running s"
  shows "loop_stream Shader VAO es n s w \<noteq> None \<longleftrightarrow> (\<exists>k. SDL_QUIT \<in> set (es (n + k)))"
proof
  assume "loop_stream Shader VAO es n s w \<noteq> None"
  then obtain r where "loop_stream Shader VAO es n s w = Some r" by blast
  then show "\<exists>k. SDL_QUIT \<in> set (es (n + k))" using loop_stream_returns_quit assms by blast
next
  assume "\<exists>k. SDL_QUIT \<in> set (es (n + k))"
  then obtain k where "SDL_QUIT \<in> set (es (n + k))" by blast
  then show "loop_stream Shader VAO es n s w \<noteq> None" by (simp add: loop_stream_prefix)
qed

text \<open>
  C29. Termination of the frame loop: a running loop exits if and only if a
  quit event arrives in some later batch; without one it never returns.
\<close>

theorem loop_stream_terminates:
  assumes "Running s"
  shows "loop_stream Shader VAO es n s w \<noteq> None \<longleftrightarrow> (\<exists>k. SDL_QUIT \<in> set (es (n + k)))"
  using assms by (rule loop_stream_exits_iff)

theorem loop_stream_terminates_witness:
  "Running demo_state \<and>
   (loop_stream 3 5 demo_stream 0 demo_state \<lparr>w_gl = demo_ctx, w_stderr = []\<rparr> \<noteq> None \<longleftrightarrow>
    (\<exists>k. SDL_QUIT \<in> set (demo_stream (0 + k)))) \<and>
   (\<exists>k. SDL_QUIT \<in> set (demo_stream (0 + k)))"
proof -
  have r: "Running demo_state" by (simp add: demo_state_def)
  have q: "\<exists>k. SDL_QUIT \<in> set (demo_stream (0 + k))"
    by (rule exI [of _ 2]) (simp add: demo_stream_def)
  show ?thesis using r q loop_stream_terminates [OF r] by blast
qed

end
