(* ===== verification/Spec2Isabelle.thy ===== *)
theory Spec2Isabelle
  imports Diagnostics Audio Shader_Build Geometry Frame_Loop Startup Event_Stream
begin

text \<open>
  \<^bold>\<open>A verification library for the SDL/OpenGL template (\<^verbatim>\<open>src/main.c\<close>).\<close>

  The program is one C file.  \<^verbatim>\<open>main\<close> initialises SDL, opens a 48 kHz stereo
  audio device whose callback \<^verbatim>\<open>MyAudioCallback\<close> synthesises a 264 Hz tone,
  creates a window and an OpenGL 4.1 core context, builds a shader program with
  \<^verbatim>\<open>CompileShader\<close>, uploads the quad \<^verbatim>\<open>MeshData\<close> into a vertex array, unpauses
  audio and runs a loop that drains SDL events (quit, mouse click), draws the
  quad at the clicked position and swaps buffers; every GL call of the loop is
  wrapped in \<^verbatim>\<open>glCheck\<close>, which prints all pending GL errors through
  \<^verbatim>\<open>CheckOpenGL\<close>, \<^verbatim>\<open>ErrorStringOpenGL\<close> and \<^verbatim>\<open>ErrorDescriptionOpenGL\<close>.  After
  the loop it destroys the context and the window and calls \<^verbatim>\<open>SDL_Quit\<close>.

  \<^bold>\<open>Theories.\<close>
  \<^item> \<open>Prelude\<close>: the C integer types as words (\<open>c_int\<close> = 32, \<open>c_long\<close> = 64,
    \<open>Sint16\<close>, \<open>Uint8\<close>, \<open>GLenum\<close>), truncation of a double to an integer
    (\<open>c_trunc\<close>), \<^verbatim>\<open>%d\<close> printing (\<open>c_int_string\<close>) and word lemmas.
  \<^item> \<open>Diagnostics\<close> (lines 8--25, 51--92): the GL error codes,
    \<open>ErrorStringOpenGL\<close>, \<open>ErrorDescriptionOpenGL\<close>, the do-while drain loop
    \<open>check_loop\<close> and \<open>CheckOpenGL\<close> over the context's queue of error flags;
    \<^verbatim>\<open>stderr\<close> is the returned string.  Lemmas: the report lists every pending
    flag with consecutive indices and empties the queue (C8); unknown codes
    (C21); names identify codes (C24).  The reference for the two switch
    statements is the closed enumeration \<open>gl_error_kind\<close> with an explicit
    unknown kind (the specification's design note): \<open>classify\<close> maps a code
    to its kind, and the switches are proved equal to the total lookup over
    the enumeration (C28).
  \<^item> \<open>Audio\<close> (lines 156--183): the records \<open>audio_sample\<close>, \<open>audio_data\<close> and
    \<open>MyAudioCallback\<close> over the byte buffer SDL passes, at machine width: the
    \<^verbatim>\<open>size_t\<close> division of \<^verbatim>\<open>Len\<close>, the \<^verbatim>\<open>long\<close> sample counter, the \<^verbatim>\<open>Sint16\<close>
    conversion and the little-endian store; a buffer shorter than the frames
    written is \<open>None\<close> (undefined behaviour).  Lemmas: one callback writes the
    tone at consecutive absolute sample indices (C2), successive callbacks are
    one continuous stream (C3), samples stay in [-1000, 1000] (C16).
  \<^item> \<open>GL_Context\<close>: the OpenGL state the program relies on, as an explicit
    object table (shaders, programs, buffers, vertex arrays, bindings, error
    queue, framebuffer, presented frames), one definition per GL entry point.
    The GLSL compiler and linker are the interface record \<open>gl_driver\<close>; the
    theorems are stated over its verdicts.  This is platform, not code of the
    repository: it carries no map entry.  The frame operations keep the
    queue of error flags well formed (\<open>flags_wf\<close>, collection
    \<open>keeps_flags\<close>).
  \<^item> \<open>Shader_Build\<close> (lines 27--49, 104--154): the shader sources and
    \<open>CompileShader\<close>.  Lemmas: success (C4), two builds give two programs
    (C18), fragment and link failures with the leaked objects (C9, C10),
    the result code and handle agree (C22).
  \<^item> \<open>Geometry\<close> (lines 97--102, 242--253): \<open>MeshData\<close>, the buffer and
    vertex-array setup, attribute fetch by stride and offset, the shaders'
    \<^verbatim>\<open>main\<close> as functions.  Lemmas: the attribute layout (C11), the
    shaded corners (C19).
  \<^item> \<open>Frame_Loop\<close> (lines 94--95, 213--214, 257--291): \<open>handle_event\<close>,
    \<open>poll_events\<close> (one drain of the queue), \<open>glCheck\<close>, \<open>render_frame\<close> and the
    loop \<open>main_loop\<close> over a list of event batches, one per iteration.
    Lemmas: frames drawn from a ready context (C5), click mapping (C12),
    quit and click in one batch (C13), quit ends the loop (C17), batches
    without clicks (C25), GL errors are advisory in a frame and in the
    loop (C26, C27).
  \<^item> \<open>Startup\<close> (lines 185--297): \<open>main_startup\<close>, the fallible initialisation
    chain against a \<open>platform\<close> record of the platform's answers, and
    \<open>main_c\<close>, the whole of \<^verbatim>\<open>main\<close> with the platform calls recorded in
    order.  Lemmas: exit status (C6), teardown order (C14), failure paths (C15),
    startup trace (C20), the advisory swap interval (C23).
  \<^item> \<open>Event_Stream\<close> (lines 261--291): the same loop over an unbounded
    event source, \<open>loop_stream\<close>, a \<^theory_text>\<open>partial_function (option)\<close> whose
    \<open>None\<close> is a loop that never exits.  It exits if and only if a quit event
    eventually arrives (C29).
  \<^item> This theory: properties spanning the components.  The end-to-end
    scenario of the whole program (C1), and the concurrency of the frame
    loop with the audio thread as the step relation \<open>sys_step\<close> (a frame
    iteration or a callback, in any interleaving) with the invariant
    \<open>sys_inv\<close> proved by rule induction (C7).

  \<^bold>\<open>Bounds.\<close>  No fuel is used: the error drain terminates by the length of
  the error queue, the callback loop by \<open>sint n - sint I\<close>, and the frame loop
  consumes a finite list of event batches; \<open>main_c\<close> is \<open>None\<close> when the
  batches end while the loop still runs, and C6 states exactly when it
  returns.  Over an unbounded event source the loop has no bound at all and
  is a partial function; C29 proves that it returns exactly when a quit event
  arrives.  The audio counter is a 64-bit \<^verbatim>\<open>long\<close>: the continuity lemmas
  assume it does not overflow (\<open>2^63\<close> samples at 48 kHz are six million
  years), and \<open>sys_step\<close> takes that as a guard of the callback step.

  \<^bold>\<open>Not modelled.\<close>  SDL, the OpenGL driver and the glad loader are
  modelled only by the answers their calls give (\<open>platform\<close>,
  \<open>gl_driver\<close>, \<open>GL_Context\<close>); window placement, vsync timing and the
  audio device's timing are not modelled.  Doubles and floats are reals,
  without rounding, and \<^verbatim>\<open>M_PI\<close> is \<open>pi\<close>; the GLSL shaders are modelled by
  their \<^verbatim>\<open>main\<close> functions over reals.
\<close>


definition demo_world :: world where
  "demo_world = \<lparr>w_gl = demo_ctx\<lparr>gl_srgb := True\<rparr>, w_stderr = []\<rparr>"

record sys =
  sys_loop :: loop_state
  sys_world :: world
  sys_audio :: audio_data
  sys_out :: "Uint8 list list"

inductive sys_step :: "gl_name \<Rightarrow> gl_name \<Rightarrow> sys \<Rightarrow> sys \<Rightarrow> bool" for Shader VAO where
  frame_iter: "Running (sys_loop S) \<Longrightarrow> s' = poll_events (sys_loop S) b \<Longrightarrow>
    sys_step Shader VAO S (S\<lparr>sys_loop := s', sys_world := render_frame Shader VAO s' (sys_world S)\<rparr>)"
| audio_cb: "MyAudioCallback (sys_audio S) buf len = Some (a', out) \<Longrightarrow>
    sint len = int (length buf) \<Longrightarrow> 4 dvd length buf \<Longrightarrow>
    sint (SamplesDone (sys_audio S)) + int (length buf div 4) < 2 ^ 63 \<Longrightarrow>
    sys_step Shader VAO S (S\<lparr>sys_audio := a', sys_out := sys_out S @ [out]\<rparr>)"

definition sys_init :: sys where
  "sys_init = \<lparr>sys_loop = initial_loop_state, sys_world = demo_world,
               sys_audio = \<lparr>Freq = 48000, SamplesDone = 0\<rparr>, sys_out = []\<rparr>"

definition sys_inv :: "gl_name \<Rightarrow> gl_name \<Rightarrow> sys \<Rightarrow> bool" where
  "sys_inv Shader VAO S \<longleftrightarrow>
     frame_ready Shader VAO (w_gl (sys_world S)) \<and> w_stderr (sys_world S) = [] \<and>
     0 \<le> sint (SamplesDone (sys_audio S)) \<and>
     concat (sys_out S) =
       encode_samples (map (\<lambda>k. stereo (tone (sint (Freq (sys_audio S))) (int k)))
                        [0..<nat (sint (SamplesDone (sys_audio S)))])"

lemma demo_setup: "setup_geometry (gl_initial\<lparr>gl_next := 4,
          gl_programs := [3 \<mapsto> new_program [] True [] [(''ModelP'', 0)]]\<rparr>) = ((5, 4), demo_ctx)"
  by (simp add: setup_geometry_eq demo_ctx_def gl_initial_def)

lemma main_c_demo:
  "\<exists>p. \<forall>bs. main_c demo_platform bs =
       (case main_loop 3 5 initial_loop_state demo_world bs of (s, w') \<Rightarrow>
          if Running s then None
          else Some (0, teardown (p\<lparr>ps_gl := w_gl w', ps_stderr := w_stderr w', ps_loop := s\<rparr>)))"
proof -
  obtain p Shader g where st: "main_startup demo_platform = Inr (p, Shader)"
      and c: "CompileShader accepting_driver CodeVS CodeFS gl_initial = (0, Some Shader, g, [])"
      and gl: "ps_gl p = g" and err: "ps_stderr p = []"
    using startup_success [OF demo_platform_ok] by (auto simp: demo_platform_def)
  have sh: "Shader = 3" and g: "g = gl_initial\<lparr>gl_next := 4,
          gl_programs := [3 \<mapsto> new_program [] True [] [(''ModelP'', 0)]]\<rparr>"
    using c by (simp_all add: accepting_build)
  have w: "glCheck ''glEnable(GL_FRAMEBUFFER_SRGB)'' glEnable_FRAMEBUFFER_SRGB
             \<lparr>w_gl = demo_ctx, w_stderr = []\<rparr> = demo_world"
    by (simp add: glCheck_quiet glEnable_FRAMEBUFFER_SRGB_def demo_world_def demo_ctx_def gl_initial_def)
  show ?thesis
    by (rule exI [of _ "call (Call_SDL_PauseAudioDevice (the (ps_device p)) 0) p\<lparr>ps_playing := True\<rparr>"])
      (simp add: main_c_def st gl g demo_setup err w sh)
qed

lemma demo_world_ready:
  "frame_ready 3 5 (w_gl demo_world) \<and>
   gl_programs (w_gl demo_world) 3 = Some (new_program [] True [] [(''ModelP'', 0)])"
  by (simp add: demo_world_def demo_ctx_def frame_ready_def location_of_def gl_initial_def)

text \<open>
  C1. The end-to-end scenario of the whole program on a platform where
  every call succeeds and the driver accepts the shaders: a click at the
  window centre (576, 324) moves the quad to (0, 0), a click at (0, 0) moves
  it to (-1, 1), and a quit event stops the loop; \<^verbatim>\<open>main\<close> returns 0 having
  presented three frames, each drawing the quad with \<^verbatim>\<open>ModelP\<close> at the
  position of its iteration, and having printed nothing.
\<close>

theorem end_to_end_scenario:
  "\<exists>p. main_c demo_platform [[SDL_MOUSEBUTTONDOWN 576 324], [SDL_MOUSEBUTTONDOWN 0 0], [SDL_QUIT]] =
         Some (0, p) \<and>
       ps_loop p = \<lparr>Running = False, ModelPosition = (-1, 1)\<rparr> \<and> ps_stderr p = [] \<and>
       gl_presented (ps_gl p) = map (\<lambda>m. drawn_frame 3 5 [0 \<mapsto> m]) [(0, 0), (-1, 1), (-1, 1)]"
proof -
  let ?bs = "[[SDL_MOUSEBUTTONDOWN 576 324], [SDL_MOUSEBUTTONDOWN 0 0], [SDL_QUIT]]"
  obtain p where m: "\<And>bs. main_c demo_platform bs =
       (case main_loop 3 5 initial_loop_state demo_world bs of (s, w') \<Rightarrow>
          if Running s then None
          else Some (0, teardown (p\<lparr>ps_gl := w_gl w', ps_stderr := w_stderr w', ps_loop := s\<rparr>)))"
    using main_c_demo by blast
  have ready: "frame_ready 3 5 (w_gl demo_world)"
    and po: "gl_programs (w_gl demo_world) 3 = Some (new_program [] True [] [(''ModelP'', 0)])"
    using demo_world_ready by simp_all
  obtain g' where
      ml: "main_loop 3 5 initial_loop_state \<lparr>w_gl = w_gl demo_world, w_stderr = []\<rparr> ?bs =
             (event_run initial_loop_state ?bs, \<lparr>w_gl = g', w_stderr = []\<rparr>)"
      and pr: "gl_presented g' = gl_presented (w_gl demo_world) @
                 map (\<lambda>m. drawn_frame 3 5 ((pr_uniform2 (new_program [] True [] [(''ModelP'', 0)]))
                   (location_of (pr_locations (new_program [] True [] [(''ModelP'', 0)])) ''ModelP'' \<mapsto> m)))
                   (frame_positions initial_loop_state ?bs)"
    using main_loop_frames [OF ready po, of initial_loop_state "[]" ?bs] by blast
  have w: "\<lparr>w_gl = w_gl demo_world, w_stderr = []\<rparr> = demo_world" by (simp add: demo_world_def)
  have ev: "event_run initial_loop_state ?bs = \<lparr>Running = False, ModelPosition = (-1, 1)\<rparr>"
    by (simp add: initial_loop_state_def poll_events_def handle_event_def WindowWidth_def WindowHeight_def)
  have fp: "frame_positions initial_loop_state ?bs = [(0, 0), (-1, 1), (-1, 1)]"
    by (simp add: initial_loop_state_def poll_events_def handle_event_def WindowWidth_def WindowHeight_def)
  have pr': "gl_presented g' = map (\<lambda>m. drawn_frame 3 5 [0 \<mapsto> m]) [(0, 0), (-1, 1), (-1, 1)]"
    using pr unfolding fp by (simp add: demo_world_def demo_ctx_def location_of_def gl_initial_def)
  show ?thesis
    using m [of ?bs] ml pr' unfolding w ev by (simp add: teardown_def)
qed

lemma frame_iter_inv:
  assumes "sys_inv Shader VAO S"
  shows "sys_inv Shader VAO (S\<lparr>sys_loop := s', sys_world := render_frame Shader VAO s' (sys_world S)\<rparr>)"
proof -
  obtain g e where w: "sys_world S = \<lparr>w_gl = g, w_stderr = e\<rparr>" by (cases "sys_world S") auto
  from assms w have ready: "frame_ready Shader VAO g" and e: "e = []" by (simp_all add: sys_inv_def)
  then obtain po where po: "gl_programs g Shader = Some po" by (auto simp: frame_ready_def split: option.splits)
  show ?thesis
    using assms ready po e by (simp add: w render_frame_ready [OF ready po] sys_inv_def frame_ready_def)
qed

lemma audio_cb_inv:
  assumes inv: "sys_inv Shader VAO S"
    and cb: "MyAudioCallback (sys_audio S) buf len = Some (a', out)"
    and len: "sint len = int (length buf)" and dvd: "4 dvd length buf"
    and bound: "sint (SamplesDone (sys_audio S)) + int (length buf div 4) < 2 ^ 63"
  shows "sys_inv Shader VAO (S\<lparr>sys_audio := a', sys_out := sys_out S @ [out]\<rparr>)"
proof -
  let ?a = "sys_audio S"
  let ?n = "sint (SamplesDone ?a)"
  let ?f = "\<lambda>k. stereo (tone (sint (Freq ?a)) (int k))"
  have N: "sint len div 4 = int (length buf div 4)" using len by (simp add: zdiv_int)
  have n0: "0 \<le> ?n" using inv by (simp add: sys_inv_def)
  obtain a'' where
      fill: "MyAudioCallback ?a buf len =
               Some (a'', encode_samples (map (\<lambda>k. stereo (tone (sint (Freq ?a)) (?n + int k)))
                                            [0..<nat (sint len div 4)]) @
                          drop (4 * nat (sint len div 4)) buf)"
      and fr: "Freq a'' = Freq ?a" and sd: "sint (SamplesDone a'') = ?n + sint len div 4"
    using callback_fills_tone [of len buf ?a] len n0 bound N by auto
  have a': "a' = a''" and out: "out = encode_samples (map (\<lambda>k. stereo (tone (sint (Freq ?a)) (?n + int k)))
                                            [0..<length buf div 4])"
    using cb fill N dvd by (auto elim!: dvdE)
  have shift: "map (\<lambda>k. ?f (nat ?n + k)) [0..<length buf div 4] =
               map (\<lambda>k. stereo (tone (sint (Freq ?a)) (?n + int k))) [0..<length buf div 4]"
    using n0 by simp
  have "concat (sys_out S @ [out]) =
          encode_samples (map ?f [0..<nat ?n] @ map (\<lambda>k. ?f (nat ?n + k)) [0..<length buf div 4])"
    using inv by (simp add: sys_inv_def out shift encode_samples_append)
  also have "\<dots> = encode_samples (map ?f [0..<nat ?n + length buf div 4])"
    by (simp only: map_upt_split)
  finally show ?thesis
    using inv n0 a' fr sd N by (simp add: sys_inv_def nat_add_distrib)
qed

lemma callback_keeps_freq: "MyAudioCallback a buf len = Some (a', out) \<Longrightarrow> Freq a' = Freq a"
  by (auto simp: MyAudioCallback_def Let_def split: if_splits)

text \<open>
  C7. In any interleaving of frame iterations and audio callbacks (the
  audio thread runs concurrently with the loop once the device is unpaused),
  starting from a state satisfying the invariant: the GL context stays ready
  to draw and no GL error is ever printed, and the concatenated audio output
  is the tone at sample indices 0, 1, 2, ... up to the sample counter, at the
  unchanged sampling rate.
\<close>

theorem interleaving_invariant:
  assumes "(sys_step Shader VAO)\<^sup>*\<^sup>* S0 S" and "sys_inv Shader VAO S0"
  shows "sys_inv Shader VAO S \<and> Freq (sys_audio S) = Freq (sys_audio S0)"
  using assms
proof (induction rule: rtranclp_induct)
  case base
  then show ?case by simp
next
  case (step S1 S2)
  from step.hyps(2) step.IH [OF step.prems] show ?case
  proof cases
    case (frame_iter s' b)
    then show ?thesis using step.IH [OF step.prems] frame_iter_inv by simp
  next
    case (audio_cb buf len a' out)
    then show ?thesis
      using step.IH [OF step.prems] audio_cb_inv [of Shader VAO S1 buf len a' out] callback_keeps_freq
      by auto
  qed
qed

lemma sys_init_inv: "sys_inv 3 5 sys_init"
  using demo_world_ready by (simp add: sys_inv_def sys_init_def demo_world_def encode_samples_def)

theorem interleaving_invariant_witness:
  "\<exists>S. (sys_step 3 5)\<^sup>*\<^sup>* sys_init S \<and> sys_inv 3 5 sys_init \<and>
       sys_inv 3 5 S \<and> Freq (sys_audio S) = Freq (sys_audio sys_init) \<and>
       length (sys_out S) = 1 \<and> ModelPosition (sys_loop S) = (-1, 1)"
proof -
  let ?s1 = "poll_events (sys_loop sys_init) [SDL_MOUSEBUTTONDOWN 0 0]"
  let ?S1 = "sys_init\<lparr>sys_loop := ?s1, sys_world := render_frame 3 5 ?s1 (sys_world sys_init)\<rparr>"
  have st1: "sys_step 3 5 sys_init ?S1"
    by (rule frame_iter) (simp_all add: sys_init_def initial_loop_state_def)
  obtain a' out where cb: "MyAudioCallback (sys_audio ?S1) (replicate 8 0) 8 = Some (a', out)"
    by (simp add: MyAudioCallback_def sample_count_def sys_init_def)
  let ?S2 = "?S1\<lparr>sys_audio := a', sys_out := sys_out ?S1 @ [out]\<rparr>"
  have st2: "sys_step 3 5 ?S1 ?S2"
    by (rule audio_cb [OF cb]) (simp_all add: sys_init_def)
  have run: "(sys_step 3 5)\<^sup>*\<^sup>* sys_init ?S2"
    using st1 st2 by (meson rtranclp.rtrancl_into_rtrancl r_into_rtranclp)
  have pos: "ModelPosition (sys_loop ?S2) = (-1, 1)"
    by (simp add: sys_init_def initial_loop_state_def poll_events_def handle_event_def
        WindowWidth_def WindowHeight_def)
  show ?thesis
    using run sys_init_inv interleaving_invariant [OF run sys_init_inv] pos
    by (intro exI [of _ ?S2]) (simp add: sys_init_def)
qed

end
